theory Spec2Isabelle
  imports Main "HOL-Library.Char_ord" "HOL-Library.List_Lexorder"
begin

section \<open>Go library functions used by the sources\<close>

text \<open>
  A Go \<^verbatim>\<open>string\<close> is a sequence of bytes and is modelled by \<^typ>\<open>string\<close>, one
  \<^typ>\<open>char\<close> per byte. The functions of package \<^verbatim>\<open>strings\<close> are given on bytes; where
  Go looks at Unicode code points (white space, letter case) the model covers the ASCII range
  and leaves every other byte alone, except in \<^verbatim>\<open>TrimSpace\<close>, which knows all the white
  space of Unicode.
\<close>

definition HasPrefix :: "string \<Rightarrow> string \<Rightarrow> bool" where
  "HasPrefix s p = (take (length p) s = p)"

definition HasSuffix :: "string \<Rightarrow> string \<Rightarrow> bool" where
  "HasSuffix s p = (length p \<le> length s \<and> drop (length s - length p) s = p)"

fun Contains :: "string \<Rightarrow> string \<Rightarrow> bool" where
  "Contains [] sub = (sub = [])"
| "Contains (c # cs) sub = (HasPrefix (c # cs) sub \<or> Contains cs sub)"

text \<open>\<^verbatim>\<open>strings.Index\<close>: the offset of the first occurrence, or \<open>-1\<close>.\<close>

fun Index :: "string \<Rightarrow> string \<Rightarrow> int" where
  "Index [] sub = (if sub = [] then 0 else - 1)"
| "Index (c # cs) sub =
     (if HasPrefix (c # cs) sub then 0
      else (let i = Index cs sub in if i < 0 then - 1 else i + 1))"


fun Split :: "string \<Rightarrow> char \<Rightarrow> string list" where
  "Split [] c = [[]]"
| "Split (x # xs) c =
     (if x = c then [] # Split xs c
      else (case Split xs c of [] \<Rightarrow> [[x]] | p # ps \<Rightarrow> (x # p) # ps))"

fun Join :: "string list \<Rightarrow> string \<Rightarrow> string" where
  "Join [] sep = []"
| "Join [x] sep = x"
| "Join (x # y # ys) sep = x @ sep @ Join (y # ys) sep"

text \<open>
  \<^verbatim>\<open>strings.TrimSpace\<close> strips the leading and the trailing white space, as
  \<^verbatim>\<open>unicode.IsSpace\<close> defines it: the six ASCII bytes and the code points U+0085, U+00A0,
  U+1680, U+2000 to U+200A, U+2028, U+2029, U+202F, U+205F and U+3000, listed here by their
  UTF-8 encodings. An encoding starts with a byte that is no continuation byte, so a rune
  read from the front, or from the back, is white space exactly when the string starts, or
  ends, with one of these byte sequences.
\<close>

definition spaceRunes :: "string list" where
  "spaceRunes =
     [[CHR 0x09], [CHR 0x0A], [CHR 0x0B], [CHR 0x0C], [CHR 0x0D], [CHR 0x20],
      [CHR 0xC2, CHR 0x85], [CHR 0xC2, CHR 0xA0], [CHR 0xE1, CHR 0x9A, CHR 0x80],
      [CHR 0xE2, CHR 0x80, CHR 0x80], [CHR 0xE2, CHR 0x80, CHR 0x81],
      [CHR 0xE2, CHR 0x80, CHR 0x82], [CHR 0xE2, CHR 0x80, CHR 0x83],
      [CHR 0xE2, CHR 0x80, CHR 0x84], [CHR 0xE2, CHR 0x80, CHR 0x85],
      [CHR 0xE2, CHR 0x80, CHR 0x86], [CHR 0xE2, CHR 0x80, CHR 0x87],
      [CHR 0xE2, CHR 0x80, CHR 0x88], [CHR 0xE2, CHR 0x80, CHR 0x89],
      [CHR 0xE2, CHR 0x80, CHR 0x8A], [CHR 0xE2, CHR 0x80, CHR 0xA8],
      [CHR 0xE2, CHR 0x80, CHR 0xA9], [CHR 0xE2, CHR 0x80, CHR 0xAF],
      [CHR 0xE2, CHR 0x81, CHR 0x9F], [CHR 0xE3, CHR 0x80, CHR 0x80]]"

text \<open>Stripping, from the front, every rune of the list that the string starts with.\<close>

function stripRunes :: "string list \<Rightarrow> string \<Rightarrow> string" where
  "stripRunes runes s =
     (case find (\<lambda>r. r \<noteq> [] \<and> HasPrefix s r) runes of
        None \<Rightarrow> s
      | Some r \<Rightarrow> stripRunes runes (drop (length r) s))"
  by pat_completeness auto
termination
proof (relation "measure (\<lambda>(runes, s). length s)")
  show "wf (measure (\<lambda>(runes, s). length s))"
    by simp
next
  fix runes :: "string list" and s r :: string
  assume "find (\<lambda>r. r \<noteq> [] \<and> HasPrefix s r) runes = Some r"
  then have "r \<noteq> []" and "take (length r) s = r"
    by (auto simp: find_Some_iff HasPrefix_def)
  then have "s \<noteq> []"
    by auto
  with \<open>r \<noteq> []\<close> show "((runes, drop (length r) s), (runes, s)) \<in> measure (\<lambda>(runes, s). length s)"
    by simp
qed

definition TrimSpace :: "string \<Rightarrow> string" where
  "TrimSpace s = rev (stripRunes (map rev spaceRunes) (rev (stripRunes spaceRunes s)))"

definition lowerByte :: "char \<Rightarrow> char" where
  "lowerByte c =
     (case map_of (zip ''ABCDEFGHIJKLMNOPQRSTUVWXYZ'' ''abcdefghijklmnopqrstuvwxyz'') c of
        None \<Rightarrow> c
      | Some l \<Rightarrow> l)"

text \<open>
  \<^verbatim>\<open>strings.ToLower\<close> lowers rune by rune. The letters \<open>A\<close> to \<open>Z\<close> become \<open>a\<close> to \<open>z\<close>, and two
  runes outside ASCII become ASCII letters: U+0130 (bytes \<open>C4 B0\<close>) becomes \<open>i\<close> and U+212A (bytes
  \<open>E2 84 AA\<close>) becomes \<open>k\<close>. Every other rune outside ASCII is lowered to a rune outside ASCII,
  and an invalid byte becomes U+FFFD; here those bytes are copied as they are. The sources
  only compare the result with ASCII text (the command names, the suffix \<^verbatim>\<open>.md\<close>), and such a
  comparison has the same outcome on the library's result and on this one.
\<close>

function ToLower :: "string \<Rightarrow> string" where
  "ToLower s =
     (if s = [] then []
      else if HasPrefix s [CHR 0xC4, CHR 0xB0] then CHR ''i'' # ToLower (drop 2 s)
      else if HasPrefix s [CHR 0xE2, CHR 0x84, CHR 0xAA] then CHR ''k'' # ToLower (drop 3 s)
      else lowerByte (hd s) # ToLower (tl s))"
  by pat_completeness auto
termination
  by (relation "measure length") (auto simp: HasPrefix_def)

declare ToLower.simps [simp del]

text \<open>The verbs of \<^verbatim>\<open>fmt\<close> that the sources use: \<^verbatim>\<open>%d\<close> and \<^verbatim>\<open>%#x\<close>.\<close>

definition digitChar :: "nat \<Rightarrow> char" where
  "digitChar d = ''0123456789abcdef'' ! d"

fun fmtNat :: "nat \<Rightarrow> nat \<Rightarrow> string" where
  "fmtNat b n =
     (if b < 2 \<or> n < b then [digitChar n] else fmtNat b (n div b) @ [digitChar (n mod b)])"

definition fmt_d :: "int \<Rightarrow> string" where
  "fmt_d i = (if i < 0 then CHR ''-'' # fmtNat 10 (nat (- i)) else fmtNat 10 (nat i))"

definition fmt_x :: "nat \<Rightarrow> string" where
  "fmt_x n = ''0x'' @ fmtNat 16 n"

text \<open>
  \<^verbatim>\<open>%q\<close> (\<^verbatim>\<open>strconv.Quote\<close>) on ASCII: the quote and the backslash are escaped, control
  bytes are written with their escape; bytes from \<open>0x80\<close> on are copied.
\<close>

definition quoteByte :: "char \<Rightarrow> string" where
  "quoteByte c =
     (if c = CHR 0x22 then [CHR 0x5C, CHR 0x22]
      else if c = CHR 0x5C then [CHR 0x5C, CHR 0x5C]
      else if c = CHR 0x07 then [CHR 0x5C, CHR ''a'']
      else if c = CHR 0x08 then [CHR 0x5C, CHR ''b'']
      else if c = CHR 0x0C then [CHR 0x5C, CHR ''f'']
      else if c = CHR 0x0A then [CHR 0x5C, CHR ''n'']
      else if c = CHR 0x0D then [CHR 0x5C, CHR ''r'']
      else if c = CHR 0x09 then [CHR 0x5C, CHR ''t'']
      else if c = CHR 0x0B then [CHR 0x5C, CHR ''v'']
      else if of_char c < (32::nat) \<or> c = CHR 0x7F
        then [CHR 0x5C, CHR ''x'', digitChar (of_char c div 16), digitChar (of_char c mod 16)]
      else [c])"

definition Quote :: "string \<Rightarrow> string" where
  "Quote s = CHR 0x22 # concat (map quoteByte s) @ [CHR 0x22]"

text \<open>\<^verbatim>\<open>strconv.Atoi\<close>: an optional sign and decimal digits, within 64 bits.\<close>

definition isDigit :: "char \<Rightarrow> bool" where
  "isDigit c = (c \<in> set ''0123456789'')"

definition digitVal :: "char \<Rightarrow> int" where
  "digitVal c = (case map_of (zip ''0123456789'' [0, 1, 2, 3, 4, 5, 6, 7, 8, 9]) c of
                   None \<Rightarrow> 0 | Some v \<Rightarrow> v)"

definition Atoi :: "string \<Rightarrow> string + int" where
  "Atoi s =
     (let neg = (s \<noteq> [] \<and> hd s = CHR ''-'');
          ds = (if s \<noteq> [] \<and> (hd s = CHR ''-'' \<or> hd s = CHR ''+'') then tl s else s);
          v = foldl (\<lambda>a c. 10 * a + digitVal c) 0 ds;
          n = (if neg then - v else v)
      in if ds = [] \<or> \<not> list_all isDigit ds
           then Inl (''strconv.Atoi: parsing '' @ Quote s @ '': invalid syntax'')
         else if n < - (2 ^ 63) \<or> 2 ^ 63 \<le> n
           then Inl (''strconv.Atoi: parsing '' @ Quote s @ '': value out of range'')
         else Inr n)"

text \<open>
  \<^verbatim>\<open>path/filepath\<close> on Unix: \<^verbatim>\<open>Clean\<close> drops empty and \<^verbatim>\<open>.\<close> elements and resolves
  \<^verbatim>\<open>..\<close> against the element before it; \<^verbatim>\<open>Join\<close> joins from the first non-empty element on
  and cleans; \<^verbatim>\<open>Dir\<close> cleans what precedes the last separator.
\<close>

definition cleanPush :: "bool \<Rightarrow> string list \<Rightarrow> string \<Rightarrow> string list" where
  "cleanPush rooted st c =
     (if c = [] \<or> c = ''.'' then st
      else if c = ''..'' then
        (if st \<noteq> [] \<and> last st \<noteq> ''..'' then butlast st
         else if rooted then st
         else st @ [c])
      else st @ [c])"

definition Clean :: "string \<Rightarrow> string" where
  "Clean p =
     (let rooted = HasPrefix p ''/'';
          body = Join (foldl (cleanPush rooted) [] (Split p (CHR ''/''))) ''/''
      in if rooted then CHR ''/'' # body
         else if body = [] then ''.''
         else body)"

definition FJoin :: "string list \<Rightarrow> string" where
  "FJoin elem =
     (let es = dropWhile (\<lambda>e. e = []) elem
      in if es = [] then [] else Clean (Join es ''/''))"

definition Dir :: "string \<Rightarrow> string" where
  "Dir p = Clean (rev (dropWhile (\<lambda>c. c \<noteq> CHR ''/'') (rev p)))"

definition Base :: "string \<Rightarrow> string" where
  "Base p =
     (if p = [] then ''.''
      else (let q = rev (dropWhile (\<lambda>c. c = CHR ''/'') (rev p))
            in if q = [] then ''/''
               else rev (takeWhile (\<lambda>c. c \<noteq> CHR ''/'') (rev q))))"

section \<open>The process environment\<close>

text \<open>
  What a command invocation sees of the operating system: its working directory, the
  environment variables (\<^verbatim>\<open>os.Getenv\<close> gives the empty string for an unset one), the regular
  files by absolute path, and the absolute paths at which creating, writing or entering
  fails. A file that cannot be read is modelled as an absent one.
\<close>

record world =
  cwd :: string
  getenv :: "string \<Rightarrow> string"
  files :: "string \<Rightarrow> string option"
  denied :: "string \<Rightarrow> bool"

definition resolve :: "world \<Rightarrow> string \<Rightarrow> string" where
  "resolve w p = (if HasPrefix p ''/'' then Clean p else FJoin [cwd w, p])"

definition ReadFile :: "world \<Rightarrow> string \<Rightarrow> string + string" where
  "ReadFile w p =
     (case files w (resolve w p) of
        None \<Rightarrow> Inl (''open '' @ p @ '': no such file or directory'')
      | Some b \<Rightarrow> Inr b)"

definition Stat :: "world \<Rightarrow> string \<Rightarrow> string option" where
  "Stat w p =
     (case files w (resolve w p) of
        None \<Rightarrow> Some (''stat '' @ p @ '': no such file or directory'')
      | Some b \<Rightarrow> None)"

definition WriteFile :: "world \<Rightarrow> string \<Rightarrow> string \<Rightarrow> string option \<times> world" where
  "WriteFile w p b =
     (if denied w (resolve w p) then (Some (''open '' @ p @ '': permission denied''), w)
      else (None, w\<lparr>files := (files w)(resolve w p \<mapsto> b)\<rparr>))"

definition MkdirAll :: "world \<Rightarrow> string \<Rightarrow> string option" where
  "MkdirAll w p =
     (if denied w (resolve w p) then Some (''mkdir '' @ p @ '': permission denied'') else None)"

section \<open>The session handle: \<^verbatim>\<open>getDlvDir\<close>, \<^verbatim>\<open>getAddr\<close>\<close>

definition getDlvDir :: "world \<Rightarrow> string" where
  "getDlvDir w =
     (let d = getenv w ''DBG_DIR''
      in if d \<noteq> [] then FJoin [d, ''.dlv''] else ''.dlv'')"

definition getAddrFilePath :: "world \<Rightarrow> string" where
  "getAddrFilePath w = FJoin [getDlvDir w, ''addr'']"

definition getAddr :: "world \<Rightarrow> string + string" where
  "getAddr w =
     (let a = getenv w ''DLV_ADDR''
      in if a \<noteq> [] then Inr a
         else (let addrFile = getAddrFilePath w
               in case ReadFile w addrFile of
                    Inl e \<Rightarrow>
                      Inl (''no DLV_ADDR and '' @ addrFile @ '' not found: '' @ e
                           @ '' (start headless dlv and set DLV_ADDR or write address to ''
                           @ addrFile @ '')'')
                  | Inr b \<Rightarrow> Inr (TrimSpace b)))"

text \<open>
  \<^verbatim>\<open>newRPCLogger\<close>: whether the log can be opened. The lines it writes carry the time of
  day and are not modelled. \<^verbatim>\<open>strings.EqualFold(val, "true")\<close> is written with \<open>ToLower\<close>: no rune
  outside ASCII folds to a letter of \<^verbatim>\<open>true\<close>.
\<close>

definition newRPCLogger :: "world \<Rightarrow> string option" where
  "newRPCLogger w =
     (let val = TrimSpace (getenv w ''DLV_RPC_LOG'')
      in if val = [] then None
         else (let path = (if val = ''1'' \<or> ToLower val = ''true''
                           then FJoin [getDlvDir w, ''rpc.log''] else val)
               in case MkdirAll w (Dir path) of
                    Some e \<Rightarrow> Some (''mkdir log dir: '' @ e)
                  | None \<Rightarrow>
                      (if denied w (resolve w path)
                       then Some (''open log file: open '' @ path @ '': permission denied'')
                       else None)))"

definition newClient :: "world \<Rightarrow> string + string" where
  "newClient w =
     (case getAddr w of
        Inl e \<Rightarrow> Inl e
      | Inr addr \<Rightarrow> (case newRPCLogger w of Some e \<Rightarrow> Inl e | None \<Rightarrow> Inr addr))"

section \<open>The debugger's API types\<close>

text \<open>
  The fields of Delve's \<^verbatim>\<open>service/api\<close> structures that the helper reads or sets. A
  \<^verbatim>\<open>*api.Function\<close> is read through \<^verbatim>\<open>Name()\<close> only and is kept as its name; addresses
  are \<^verbatim>\<open>uint64\<close> values that are compared and printed, never computed with.
\<close>

record Location =
  PC :: nat
  File :: string
  Line :: int
  Function :: "string option"
  PCs :: "nat list"

record Goroutine =
  g_ID :: int
  CurrentLoc :: Location
  UserCurrentLoc :: Location

record Breakpoint =
  bp_ID :: int
  bp_Addr :: nat
  bp_File :: string
  bp_Line :: int
  bp_Cond :: string
  bp_Disabled :: bool

record Thread =
  th_ID :: int
  th_File :: string
  th_Line :: int
  th_Breakpoint :: "Breakpoint option"

record DebuggerState =
  Running :: bool
  Exited :: bool
  ExitStatus :: int
  SelectedGoroutine :: "Goroutine option"
  Threads :: "Thread list"
  Err :: "string option"

record Variable =
  v_Name :: string
  v_Value :: string

record EvalScope =
  GoroutineID :: int
  Frame :: int

definition scopeFromState :: "DebuggerState \<Rightarrow> EvalScope" where
  "scopeFromState state =
     (case SelectedGoroutine state of
        Some g \<Rightarrow> \<lparr>GoroutineID = g_ID g, Frame = 0\<rparr>
      | None \<Rightarrow> \<lparr>GoroutineID = - 1, Frame = 0\<rparr>)"

section \<open>\<^verbatim>\<open>printState\<close>\<close>

text \<open>The text written to standard output; the function always returns \<^verbatim>\<open>nil\<close>.\<close>

definition goroutineLoc :: "Goroutine \<Rightarrow> Location" where
  "goroutineLoc g = (if File (UserCurrentLoc g) = [] then CurrentLoc g else UserCurrentLoc g)"

definition fnName :: "Location \<Rightarrow> string" where
  "fnName loc = (case Function loc of None \<Rightarrow> ''???'' | Some n \<Rightarrow> n)"

definition goroutineLine :: "Goroutine \<Rightarrow> string" where
  "goroutineLine g =
     ''goroutine '' @ fmt_d (g_ID g) @ '' at '' @ File (goroutineLoc g) @ '':''
     @ fmt_d (Line (goroutineLoc g)) @ '' ('' @ fnName (goroutineLoc g) @ '')'' @ [CHR 0x0A]"

definition threadLine :: "Thread \<Rightarrow> Breakpoint \<Rightarrow> string" where
  "threadLine t b =
     ''  thread '' @ fmt_d (th_ID t) @ '' at breakpoint '' @ fmt_d (bp_ID b) @ '': ''
     @ th_File t @ '':'' @ fmt_d (th_Line t) @ [CHR 0x0A]"

text \<open>The loop over \<^verbatim>\<open>state.Threads\<close>, carrying the output and the \<^verbatim>\<open>printed\<close> flag.\<close>

fun printThreads :: "Thread list \<Rightarrow> string \<times> bool \<Rightarrow> string \<times> bool" where
  "printThreads [] acc = acc"
| "printThreads (t # ts) (outp, printed) =
     (case th_Breakpoint t of
        Some b \<Rightarrow> printThreads ts (outp @ threadLine t b, True)
      | None \<Rightarrow> printThreads ts (outp, printed))"

definition printState :: "DebuggerState \<Rightarrow> string" where
  "printState state =
     (if Exited state then ''Process exited with status '' @ fmt_d (ExitStatus state) @ [CHR 0x0A]
      else if Running state then ''Process is running.'' @ [CHR 0x0A]
      else (let start = (case SelectedGoroutine state of
                           Some g \<Rightarrow> (goroutineLine g, True)
                         | None \<Rightarrow> ([], False));
                res = printThreads (Threads state) start
            in if \<not> snd res then fst res @ ''stopped'' @ [CHR 0x0A] else fst res))"

section \<open>The engine and the session commands\<close>

text \<open>
  The engine is an external collaborator: each RPC is an answer that may depend on the
  engine's state \<^typ>\<open>'s\<close>, and the calls that change the engine return its next state. A Go
  result pair \<^verbatim>\<open>(value, err)\<close> is a sum; the commands read the value only when \<^verbatim>\<open>err\<close> is
  \<^verbatim>\<open>nil\<close>. \<^verbatim>\<open>Continue\<close> delivers a state whose \<^verbatim>\<open>Err\<close> field carries the error.
\<close>

record 's engine =
  rpc_GetState :: "'s \<Rightarrow> string + DebuggerState"
  rpc_FindLocation :: "'s \<Rightarrow> EvalScope \<Rightarrow> string \<Rightarrow> string + Location list"
  rpc_CreateBreakpoint :: "'s \<Rightarrow> Breakpoint \<Rightarrow> (string + Breakpoint) \<times> 's"
  rpc_ListBreakpoints :: "'s \<Rightarrow> string + Breakpoint list"
  rpc_ClearBreakpoint :: "'s \<Rightarrow> int \<Rightarrow> string option \<times> 's"
  rpc_Continue :: "'s \<Rightarrow> DebuggerState \<times> 's"
  rpc_Next :: "'s \<Rightarrow> (string + DebuggerState) \<times> 's"
  rpc_Step :: "'s \<Rightarrow> (string + DebuggerState) \<times> 's"
  rpc_StepOut :: "'s \<Rightarrow> (string + DebuggerState) \<times> 's"
  rpc_EvalVariable :: "'s \<Rightarrow> EvalScope \<Rightarrow> string \<Rightarrow> string + Variable option"
  rpc_ListLocalVariables :: "'s \<Rightarrow> EvalScope \<Rightarrow> string + Variable list"
  rpc_ListFunctionArgs :: "'s \<Rightarrow> EvalScope \<Rightarrow> string + Variable list"
  rpc_Stacktrace :: "'s \<Rightarrow> int \<Rightarrow> int \<Rightarrow> string + Location list"
  rpc_ListGoroutines :: "'s \<Rightarrow> int \<Rightarrow> int \<Rightarrow> string + Goroutine list"

text \<open>The requests a command sends, in order, as the logging client sees them.\<close>

datatype request =
    GetState
  | FindLocation EvalScope string
  | CreateBreakpoint Breakpoint
  | ListBreakpoints
  | ClearBreakpoint int
  | Continue
  | Next
  | Step
  | StepOut
  | EvalVariable EvalScope string
  | ListLocalVariables EvalScope
  | ListFunctionArgs EvalScope
  | Stacktrace int int
  | ListGoroutines int int

text \<open>
  What a command leaves behind: the text on standard output, the error it returns
  (\<open>None\<close> is \<^verbatim>\<open>nil\<close>), the requests it sent and the engine's state.
\<close>

record 's result =
  out :: string
  err :: "string option"
  reqs :: "request list"
  eng :: 's

definition exitLine :: "DebuggerState \<Rightarrow> string" where
  "exitLine state = ''Process exited with status '' @ fmt_d (ExitStatus state) @ [CHR 0x0A]"

definition breakAddr :: "Location \<Rightarrow> nat" where
  "breakAddr loc = (if PC loc = 0 \<and> length (PCs loc) > 0 then hd (PCs loc) else PC loc)"

definition breakRequest :: "string \<Rightarrow> Location \<Rightarrow> Breakpoint" where
  "breakRequest cond loc =
     \<lparr>bp_ID = 0, bp_Addr = breakAddr loc, bp_File = File loc, bp_Line = Line loc,
      bp_Cond = cond, bp_Disabled = False\<rparr>"

definition breakMsg :: "string \<Rightarrow> Breakpoint \<Rightarrow> string" where
  "breakMsg cond created =
     ''breakpoint '' @ fmt_d (bp_ID created) @ '' at '' @ bp_File created @ '':''
     @ fmt_d (bp_Line created) @ '' (addr '' @ fmt_x (bp_Addr created) @ '')''
     @ (if cond \<noteq> [] then '' if '' @ cond else [])
     @ [CHR 0x0A]"

text \<open>The loop of \<^verbatim>\<open>cmdBreak\<close> over the resolved locations.\<close>

fun cmdBreak_loop :: "'s engine \<Rightarrow> string \<Rightarrow> Location list \<Rightarrow> 's result \<Rightarrow> 's result" where
  "cmdBreak_loop e cond [] r = r"
| "cmdBreak_loop e cond (loc # locs) r =
     (if breakAddr loc = 0 then cmdBreak_loop e cond locs r
      else (case rpc_CreateBreakpoint e (eng r) (breakRequest cond loc) of
              (Inl er, s') \<Rightarrow>
                r\<lparr>err := Some er, reqs := reqs r @ [CreateBreakpoint (breakRequest cond loc)],
                  eng := s'\<rparr>
            | (Inr created, s') \<Rightarrow>
                cmdBreak_loop e cond locs
                  (r\<lparr>out := out r @ breakMsg cond created,
                     reqs := reqs r @ [CreateBreakpoint (breakRequest cond loc)],
                     eng := s'\<rparr>)))"

text \<open>The split of the joined arguments at the first \<^verbatim>\<open>" if "\<close>.\<close>

definition splitCond :: "string \<Rightarrow> string \<times> string" where
  "splitCond locspec =
     (let idx = Index locspec '' if ''
      in if idx \<ge> 0
         then (TrimSpace (take (nat idx) locspec), TrimSpace (drop (nat (idx + 4)) locspec))
         else (locspec, []))"

definition cmdBreak :: "'s engine \<Rightarrow> 's \<Rightarrow> DebuggerState \<Rightarrow> string list \<Rightarrow> 's result" where
  "cmdBreak e s state args =
     (if length args < 1
      then \<lparr>out = [], err = Some ''usage: break <locspec> [if <condition>]'', reqs = [], eng = s\<rparr>
      else (let locspec = fst (splitCond (Join args '' ''));
                cond = snd (splitCond (Join args '' ''));
                scope = scopeFromState state
            in case rpc_FindLocation e s scope locspec of
                 Inl er \<Rightarrow>
                   \<lparr>out = [], err = Some er, reqs = [FindLocation scope locspec], eng = s\<rparr>
               | Inr locs \<Rightarrow>
                   (if length locs = 0
                    then \<lparr>out = [], err = Some (''no location found for '' @ Quote locspec),
                          reqs = [FindLocation scope locspec], eng = s\<rparr>
                    else cmdBreak_loop e cond locs
                           \<lparr>out = [], err = None, reqs = [FindLocation scope locspec],
                            eng = s\<rparr>)))"

definition bpLine :: "Breakpoint \<Rightarrow> string" where
  "bpLine bp =
     (if bp_ID bp = 0 then []
      else fmt_d (bp_ID bp) @ '': '' @ bp_File bp @ '':'' @ fmt_d (bp_Line bp)
           @ (if bp_Disabled bp then '' (disabled)'' else []) @ [CHR 0x0A])"

definition cmdBreakpoints :: "'s engine \<Rightarrow> 's \<Rightarrow> 's result" where
  "cmdBreakpoints e s =
     (case rpc_ListBreakpoints e s of
        Inl er \<Rightarrow> \<lparr>out = [], err = Some er, reqs = [ListBreakpoints], eng = s\<rparr>
      | Inr bps \<Rightarrow>
          \<lparr>out = concat (map bpLine bps), err = None, reqs = [ListBreakpoints], eng = s\<rparr>)"

definition cmdClear :: "'s engine \<Rightarrow> 's \<Rightarrow> string list \<Rightarrow> 's result" where
  "cmdClear e s args =
     (if length args < 1
      then \<lparr>out = [], err = Some ''usage: clear <id>'', reqs = [], eng = s\<rparr>
      else (case Atoi (hd args) of
              Inl er \<Rightarrow> \<lparr>out = [], err = Some er, reqs = [], eng = s\<rparr>
            | Inr n \<Rightarrow>
                (case rpc_ClearBreakpoint e s n of
                   (Some er, s') \<Rightarrow>
                     \<lparr>out = [], err = Some er, reqs = [ClearBreakpoint n], eng = s'\<rparr>
                 | (None, s') \<Rightarrow>
                     \<lparr>out = ''cleared breakpoint '' @ fmt_d n @ [CHR 0x0A], err = None,
                      reqs = [ClearBreakpoint n], eng = s'\<rparr>)))"

definition isExitError :: "string option \<Rightarrow> bool" where
  "isExitError er = (case er of None \<Rightarrow> False | Some t \<Rightarrow> Contains t ''has exited with status'')"

definition cmdContinue :: "'s engine \<Rightarrow> 's \<Rightarrow> 's result" where
  "cmdContinue e s =
     (case rpc_Continue e s of
        (state, s') \<Rightarrow>
          (case Err state of
             Some t \<Rightarrow>
               (if isExitError (Some t)
                then \<lparr>out = t @ [CHR 0x0A], err = None, reqs = [Continue], eng = s'\<rparr>
                else \<lparr>out = [], err = Some t, reqs = [Continue], eng = s'\<rparr>)
           | None \<Rightarrow>
               (if Exited state
                then \<lparr>out = exitLine state, err = None, reqs = [Continue], eng = s'\<rparr>
                else \<lparr>out = printState state, err = None, reqs = [Continue], eng = s'\<rparr>)))"

text \<open>
  \<^verbatim>\<open>cmdStep\<close> is called with \<^verbatim>\<open>api.Next\<close>, \<^verbatim>\<open>api.Step\<close> or \<^verbatim>\<open>api.StepOut\<close>; any other
  name is the \<^verbatim>\<open>default\<close> branch of its switch.
\<close>

definition cmdStep :: "'s engine \<Rightarrow> 's \<Rightarrow> string \<Rightarrow> 's result" where
  "cmdStep e s name =
     (if name \<noteq> ''next'' \<and> name \<noteq> ''step'' \<and> name \<noteq> ''stepOut''
      then \<lparr>out = [], err = Some (''unknown step command: '' @ name), reqs = [], eng = s\<rparr>
      else (let call = (if name = ''next'' then rpc_Next e s
                        else if name = ''step'' then rpc_Step e s
                        else rpc_StepOut e s);
                req = (if name = ''next'' then Next else if name = ''step'' then Step else StepOut)
            in case call of
                 (Inl t, s') \<Rightarrow>
                   (if isExitError (Some t)
                    then \<lparr>out = t @ [CHR 0x0A], err = None, reqs = [req], eng = s'\<rparr>
                    else \<lparr>out = [], err = Some t, reqs = [req], eng = s'\<rparr>)
               | (Inr state, s') \<Rightarrow>
                   (if Exited state
                    then \<lparr>out = exitLine state, err = None, reqs = [req], eng = s'\<rparr>
                    else \<lparr>out = printState state, err = None, reqs = [req], eng = s'\<rparr>)))"

definition varLine :: "Variable \<Rightarrow> string" where
  "varLine v = v_Name v @ '' = '' @ v_Value v @ [CHR 0x0A]"

definition cmdPrint :: "'s engine \<Rightarrow> 's \<Rightarrow> DebuggerState \<Rightarrow> string list \<Rightarrow> 's result" where
  "cmdPrint e s state args =
     (if length args < 1
      then \<lparr>out = [], err = Some ''usage: print <expr>'', reqs = [], eng = s\<rparr>
      else (let expr = Join args '' ''; scope = scopeFromState state
            in case rpc_EvalVariable e s scope expr of
                 Inl er \<Rightarrow> \<lparr>out = [], err = Some er, reqs = [EvalVariable scope expr], eng = s\<rparr>
               | Inr None \<Rightarrow>
                   \<lparr>out = [], err = Some ''expression evaluated to nothing'',
                    reqs = [EvalVariable scope expr], eng = s\<rparr>
               | Inr (Some v) \<Rightarrow>
                   \<lparr>out = varLine v, err = None, reqs = [EvalVariable scope expr], eng = s\<rparr>))"

definition cmdLocals :: "'s engine \<Rightarrow> 's \<Rightarrow> DebuggerState \<Rightarrow> 's result" where
  "cmdLocals e s state =
     (let scope = scopeFromState state
      in case rpc_ListLocalVariables e s scope of
           Inl er \<Rightarrow> \<lparr>out = [], err = Some er, reqs = [ListLocalVariables scope], eng = s\<rparr>
         | Inr vars \<Rightarrow>
             \<lparr>out = concat (map varLine vars), err = None, reqs = [ListLocalVariables scope],
              eng = s\<rparr>)"

definition cmdArgs :: "'s engine \<Rightarrow> 's \<Rightarrow> DebuggerState \<Rightarrow> 's result" where
  "cmdArgs e s state =
     (let scope = scopeFromState state
      in case rpc_ListFunctionArgs e s scope of
           Inl er \<Rightarrow> \<lparr>out = [], err = Some er, reqs = [ListFunctionArgs scope], eng = s\<rparr>
         | Inr vars \<Rightarrow>
             \<lparr>out = concat (map varLine vars), err = None, reqs = [ListFunctionArgs scope],
              eng = s\<rparr>)"

definition frameLine :: "nat \<times> Location \<Rightarrow> string" where
  "frameLine p =
     ''#'' @ fmt_d (int (fst p)) @ '' '' @ fnName (snd p) @ '' '' @ File (snd p) @ '':''
     @ fmt_d (Line (snd p)) @ [CHR 0x0A]"

definition cmdStack :: "'s engine \<Rightarrow> 's \<Rightarrow> DebuggerState \<Rightarrow> 's result" where
  "cmdStack e s state =
     (let goroutineID = (case SelectedGoroutine state of Some g \<Rightarrow> g_ID g | None \<Rightarrow> - 1)
      in case rpc_Stacktrace e s goroutineID 20 of
           Inl er \<Rightarrow> \<lparr>out = [], err = Some er, reqs = [Stacktrace goroutineID 20], eng = s\<rparr>
         | Inr frames \<Rightarrow>
             \<lparr>out = concat (map frameLine (enumerate 0 frames)), err = None,
              reqs = [Stacktrace goroutineID 20], eng = s\<rparr>)"

definition goroutineEntry :: "Goroutine \<Rightarrow> string" where
  "goroutineEntry g =
     ''goroutine '' @ fmt_d (g_ID g) @ '' ['' @ File (goroutineLoc g) @ '':''
     @ fmt_d (Line (goroutineLoc g)) @ '' '' @ fnName (goroutineLoc g) @ '']'' @ [CHR 0x0A]"

definition cmdGoroutines :: "'s engine \<Rightarrow> 's \<Rightarrow> 's result" where
  "cmdGoroutines e s =
     (case rpc_ListGoroutines e s 0 100 of
        Inl er \<Rightarrow> \<lparr>out = [], err = Some er, reqs = [ListGoroutines 0 100], eng = s\<rparr>
      | Inr gs \<Rightarrow>
          \<lparr>out = concat (map goroutineEntry gs), err = None, reqs = [ListGoroutines 0 100],
           eng = s\<rparr>)"

section \<open>\<^verbatim>\<open>Run\<close>, the command dispatcher\<close>

text \<open>
  The lifecycle and report commands are handed to their handlers before any connection is
  made: \<open>Delegated\<close> names the handler and its arguments. \<^verbatim>\<open>rpc2.NewClient\<close> ends the
  process when it cannot reach the address: \<open>Fatal\<close>. Otherwise the invocation runs to
  \<open>Done\<close>. Usage text goes to standard error and is not part of \<open>out\<close>.
\<close>

datatype 's outcome = Delegated string "string list" | Fatal | Done "'s result"

definition lifecycleCommands :: "(string \<times> string) list" where
  "lifecycleCommands =
     [(''start'', ''cmdStart''), (''stop'', ''cmdStop''),
      (''install-templates'', ''cmdInstallTemplates''), (''report-build'', ''cmdReportBuild''),
      (''report-init'', ''cmdReportInit''), (''report-hypothesis'', ''cmdReportHypothesis''),
      (''report-trace-row'', ''cmdReportTraceRow''), (''report-evidence'', ''cmdReportEvidence''),
      (''report-root-cause'', ''cmdReportRootCause''), (''report-fix'', ''cmdReportFix''),
      (''report-verification'', ''cmdReportVerification'')]"

text \<open>The \<^verbatim>\<open>switch cmd\<close> of \<^verbatim>\<open>Run\<close>, entered with the state the first query returned.\<close>

definition dispatch ::
  "'s engine \<Rightarrow> 's \<Rightarrow> DebuggerState \<Rightarrow> string \<Rightarrow> string list \<Rightarrow> 's result" where
  "dispatch e s state cmd args =
     (if cmd = ''state'' then \<lparr>out = printState state, err = None, reqs = [], eng = s\<rparr>
      else if cmd = ''break'' then cmdBreak e s state args
      else if cmd = ''breakpoints'' \<or> cmd = ''bp'' then cmdBreakpoints e s
      else if cmd = ''clear'' then cmdClear e s args
      else if cmd = ''continue'' \<or> cmd = ''c'' then cmdContinue e s
      else if cmd = ''next'' \<or> cmd = ''n'' then cmdStep e s ''next''
      else if cmd = ''step'' \<or> cmd = ''s'' then cmdStep e s ''step''
      else if cmd = ''stepout'' \<or> cmd = ''so'' then cmdStep e s ''stepOut''
      else if cmd = ''print'' \<or> cmd = ''p'' then cmdPrint e s state args
      else if cmd = ''locals'' then cmdLocals e s state
      else if cmd = ''args'' then cmdArgs e s state
      else if cmd = ''stack'' \<or> cmd = ''bt'' then cmdStack e s state
      else if cmd = ''goroutines'' \<or> cmd = ''grs'' then cmdGoroutines e s
      else \<lparr>out = [], err = Some (''unknown command: '' @ cmd), reqs = [], eng = s\<rparr>)"

definition Run ::
  "world \<Rightarrow> (string \<Rightarrow> bool) \<Rightarrow> 's engine \<Rightarrow> 's \<Rightarrow> string list \<Rightarrow> 's outcome" where
  "Run w dial e s argv =
     (if length argv < 2 then Done \<lparr>out = [], err = None, reqs = [], eng = s\<rparr>
      else (let cmd = ToLower (argv ! 1); args = drop 2 argv
            in case map_of lifecycleCommands cmd of
                 Some handler \<Rightarrow> Delegated handler args
               | None \<Rightarrow>
                   (case newClient w of
                      Inl er \<Rightarrow> Done \<lparr>out = [], err = Some er, reqs = [], eng = s\<rparr>
                    | Inr addr \<Rightarrow>
                        (if \<not> dial addr then Fatal
                         else (case rpc_GetState e s of
                                 Inl t \<Rightarrow>
                                   (if Contains t ''has exited with status''
                                    then Done \<lparr>out = t @ [CHR 0x0A], err = None,
                                               reqs = [GetState], eng = s\<rparr>
                                    else Done \<lparr>out = [], err = Some t, reqs = [GetState],
                                               eng = s\<rparr>)
                               | Inr state \<Rightarrow>
                                   (let r = dispatch e s state cmd args
                                    in Done (r\<lparr>reqs := GetState # reqs r\<rparr>)))))))"

text \<open>\<^verbatim>\<open>main\<close>: exit status 1 when \<^verbatim>\<open>Run\<close> returns an error, 0 otherwise.\<close>

definition exitCode :: "'s result \<Rightarrow> int" where
  "exitCode r = (case err r of None \<Rightarrow> 0 | Some t \<Rightarrow> 1)"

section \<open>Statements and scenarios for the session commands\<close>

text \<open>
  What \<^verbatim>\<open>printState\<close> reports for one thread: its breakpoint line when it is parked at a
  breakpoint, nothing otherwise.
\<close>

definition threadReport :: "Thread \<Rightarrow> string" where
  "threadReport t = (case th_Breakpoint t of Some b \<Rightarrow> threadLine t b | None \<Rightarrow> [])"

definition anyParked :: "Thread list \<Rightarrow> bool" where
  "anyParked ts = list_ex (\<lambda>t. th_Breakpoint t \<noteq> None) ts"

text \<open>
  The state summary as the specification words it, a chain of exclusive cases: exited, else
  running, else a thread parked at a breakpoint, else a selected goroutine, else stopped.
\<close>

definition summaryByPriority :: "DebuggerState \<Rightarrow> string" where
  "summaryByPriority state =
     (if Exited state then exitLine state
      else if Running state then ''Process is running.'' @ [CHR 0x0A]
      else if anyParked (Threads state) then concat (map threadReport (Threads state))
      else (case SelectedGoroutine state of
              Some g \<Rightarrow> goroutineLine g
            | None \<Rightarrow> ''stopped'' @ [CHR 0x0A]))"

text \<open>A stop at the example's conditional breakpoint: goroutine 1 selected, thread 7 parked.\<close>

definition clampLoc :: Location where
  "clampLoc = \<lparr>PC = 4198400, File = ''pipeline.go'', Line = 27,
               Function = Some ''main.Window'', PCs = []\<rparr>"

definition clampBreakpoint :: Breakpoint where
  "clampBreakpoint = \<lparr>bp_ID = 1, bp_Addr = 4198400, bp_File = ''pipeline.go'', bp_Line = 27,
                      bp_Cond = ''start == 12'', bp_Disabled = False\<rparr>"

definition stoppedAtClamp :: DebuggerState where
  "stoppedAtClamp =
     \<lparr>Running = False, Exited = False, ExitStatus = 0,
      SelectedGoroutine = Some \<lparr>g_ID = 1, CurrentLoc = clampLoc, UserCurrentLoc = clampLoc\<rparr>,
      Threads = [\<lparr>th_ID = 7, th_File = ''pipeline.go'', th_Line = 27,
                  th_Breakpoint = Some clampBreakpoint\<rparr>],
      Err = None\<rparr>"

text \<open>
  An invocation that reaches the engine: it names a command, the command is not one of the
  lifecycle and report commands, an address is resolved and the connection is made.
\<close>

definition sessionInvocation :: "world \<Rightarrow> (string \<Rightarrow> bool) \<Rightarrow> string list \<Rightarrow> bool" where
  "sessionInvocation w dial argv =
     (length argv \<ge> 2 \<and> map_of lifecycleCommands (ToLower (argv ! 1)) = None
      \<and> (case newClient w of Inl er \<Rightarrow> False | Inr addr \<Rightarrow> dial addr))"

text \<open>The invocation ran to its end with this output, this returned error and this exit status.\<close>

definition finishes :: "'s outcome \<Rightarrow> string \<Rightarrow> string option \<Rightarrow> int \<Rightarrow> bool" where
  "finishes oc outp er code =
     (case oc of
        Done r \<Rightarrow> out r = outp \<and> err r = er \<and> exitCode r = code
      | Delegated h a \<Rightarrow> False
      | Fatal \<Rightarrow> False)"

text \<open>
  Sending a list of breakpoint requests to the engine one after the other, up to the first
  one it refuses: the breakpoints it created and, if one was refused, the error.
\<close>

fun createAll ::
  "'s engine \<Rightarrow> 's \<Rightarrow> Breakpoint list \<Rightarrow> Breakpoint list \<times> string option \<times> 's" where
  "createAll e s [] = ([], None, s)"
| "createAll e s (bp # bps) =
     (case rpc_CreateBreakpoint e s bp of
        (Inl er, s') \<Rightarrow> ([], Some er, s')
      | (Inr created, s') \<Rightarrow>
          (case createAll e s' bps of (cs, er, s'') \<Rightarrow> (created # cs, er, s'')))"

text \<open>
  Scenario engines. The state of \<open>countingEngine\<close> is the number of breakpoints it has
  created; it numbers them from 1 and refuses an address it has already been given. It
  resolves \<^verbatim>\<open>pipeline.go:27\<close> to one address, \<^verbatim>\<open>main.Filter\<close> to two locations and
  \<^verbatim>\<open>runtime.nowhere\<close> to a location without an address, and knows no other location. Its
  tracee has exited when it is asked to continue or to step over; a step into fails with a
  broken connection.
\<close>

definition exitText :: string where
  "exitText = ''Process 4242 has exited with status 0''"

definition filterLocs :: "Location list" where
  "filterLocs =
     [\<lparr>PC = 4198000, File = ''pipeline.go'', Line = 12, Function = Some ''main.Filter'', PCs = []\<rparr>,
      \<lparr>PC = 0, File = ''pipeline.go'', Line = 12, Function = Some ''main.Filter'',
       PCs = [4199000, 4199008]\<rparr>]"

definition noAddrLoc :: Location where
  "noAddrLoc = \<lparr>PC = 0, File = ''asm.s'', Line = 1, Function = None, PCs = []\<rparr>"

definition countingEngine :: "nat engine" where
  "countingEngine =
     \<lparr>rpc_GetState = (\<lambda>s. Inr stoppedAtClamp),
      rpc_FindLocation = (\<lambda>s scope spec.
         if spec = ''pipeline.go:27'' then Inr [clampLoc]
         else if spec = ''main.Filter'' then Inr filterLocs
         else if spec = ''runtime.nowhere'' then Inr [noAddrLoc]
         else if spec = ''main.missing'' then Inr []
         else Inl (''location '' @ spec @ '' not found'')),
      rpc_CreateBreakpoint = (\<lambda>s bp. (Inr (bp\<lparr>bp_ID := int s + 1\<rparr>), s + 1)),
      rpc_ListBreakpoints = (\<lambda>s. Inr []),
      rpc_ClearBreakpoint = (\<lambda>s n. (Some (''Breakpoint does not exist''), s)),
      rpc_Continue = (\<lambda>s. (stoppedAtClamp\<lparr>Err := Some exitText\<rparr>, s)),
      rpc_Next = (\<lambda>s. (Inl exitText, s)),
      rpc_Step = (\<lambda>s. (Inl ''connection is shut down'', s)),
      rpc_StepOut = (\<lambda>s. (Inr stoppedAtClamp, s)),
      rpc_EvalVariable = (\<lambda>s scope expr. Inr None),
      rpc_ListLocalVariables = (\<lambda>s scope. Inr []),
      rpc_ListFunctionArgs = (\<lambda>s scope. Inr []),
      rpc_Stacktrace = (\<lambda>s g d. Inr []),
      rpc_ListGoroutines = (\<lambda>s a b. Inr [])\<rparr>"

definition exitedEngine :: "nat engine" where
  "exitedEngine = countingEngine\<lparr>rpc_GetState := (\<lambda>s. Inl exitText)\<rparr>"

text \<open>
  Scenario worlds: a project directory whose session handle lives under the artifact
  directory named by \<^verbatim>\<open>DBG_DIR\<close>.
\<close>

definition sessionWorld :: world where
  "sessionWorld =
     \<lparr>cwd = ''/home/dev/proj'',
      getenv = (\<lambda>k. if k = ''DBG_DIR'' then ''.debug_2026-02-27T09-08-40'' else []),
      files = [''/home/dev/proj/.debug_2026-02-27T09-08-40/.dlv/addr''
                 \<mapsto> ''127.0.0.1:38697'' @ [CHR 0x0A]],
      denied = (\<lambda>p. False)\<rparr>"

section \<open>The document assembler: \<^verbatim>\<open>fixMarkdownTables\<close>\<close>












section \<open>The report fragments: \<^verbatim>\<open>appendToFile\<close>, \<^verbatim>\<open>cmdReportTraceRow\<close>\<close>

definition reportTraceFile :: string where
  "reportTraceFile = ''10_trace.md''"

definition rfile :: "string \<Rightarrow> string \<Rightarrow> string" where
  "rfile dir name = FJoin [dir, name]"

text \<open>
  \<^verbatim>\<open>appendToFile\<close> opens the file write-only, in append mode, creating it when it is absent.
  Only a failure to open is modelled; a write that fails after the file was opened is not.
\<close>

definition appendToFile :: "world \<Rightarrow> string \<Rightarrow> string \<Rightarrow> string option \<times> world" where
  "appendToFile w path content =
     (if denied w (resolve w path)
      then (Some (''open '' @ path @ '': open '' @ path @ '': permission denied''), w)
      else (None,
            w\<lparr>files := (files w)(resolve w path \<mapsto>
                 (case files w (resolve w path) of None \<Rightarrow> [] | Some old \<Rightarrow> old) @ content)\<rparr>))"

text \<open>\<^verbatim>\<open>fileContains\<close> drops the error of \<^verbatim>\<open>os.ReadFile\<close> and searches what was read.\<close>

definition fileContains :: "world \<Rightarrow> string \<Rightarrow> string \<Rightarrow> bool" where
  "fileContains w path s =
     (case ReadFile w path of Inl e \<Rightarrow> Contains [] s | Inr b \<Rightarrow> Contains b s)"

text \<open>
  The flags of \<^verbatim>\<open>report-trace-row\<close> after \<^verbatim>\<open>fs.Parse\<close>. Parsing is the library's: the model
  of the command starts from its result, the error or the flag values with the remaining
  arguments.
\<close>

record traceRowFlags =
  f_n :: int
  f_action :: string
  f_loc :: string
  f_reason :: string

definition traceHeader :: string where
  "traceHeader =
     ''## Debugging Trace'' @ [CHR 0x0A, CHR 0x0A]
     @ ''| # | Action | Location | Reasoning |'' @ [CHR 0x0A]
     @ ''| - | ------ | -------- | --------- |'' @ [CHR 0x0A]"

definition traceRowText :: "traceRowFlags \<Rightarrow> string" where
  "traceRowText f =
     ''| '' @ fmt_d (f_n f) @ '' | '' @ f_action f @ '' | '' @ [CHR 0x60] @ f_loc f @ [CHR 0x60]
     @ '' | '' @ f_reason f @ '' |'' @ [CHR 0x0A]"

definition cmdReportTraceRow ::
  "world \<Rightarrow> string + traceRowFlags \<times> string list \<Rightarrow> (string \<times> string option) \<times> world" where
  "cmdReportTraceRow w parsed =
     (case parsed of
        Inl e \<Rightarrow> (([], Some e), w)
      | Inr (f, rest) \<Rightarrow>
          (if length rest \<noteq> 1
           then (([], Some (''usage: report-trace-row -n N -action ACTION -loc LOC ''
                            @ ''-reason REASON <dbgdir>'')), w)
           else (let path = rfile (hd rest) reportTraceFile;
                     row = (if \<not> fileContains w path ''## Debugging Trace''
                            then traceHeader @ traceRowText f else traceRowText f)
                 in case appendToFile w path row of
                      (Some e, w') \<Rightarrow> (([], Some e), w')
                    | (None, w') \<Rightarrow>
                        ((''appended trace row '' @ fmt_d (f_n f) @ '' ('' @ f_action f @ '')''
                          @ [CHR 0x0A], None), w'))))"

text \<open>
  A sequence of separate \<^verbatim>\<open>report-trace-row\<close> invocations on one artifact directory, each
  starting in the world the one before left: what each printed and returned, and the final
  world.
\<close>

fun traceRowRuns ::
  "world \<Rightarrow> string \<Rightarrow> traceRowFlags list \<Rightarrow> (string \<times> string option) list \<times> world" where
  "traceRowRuns w dir [] = ([], w)"
| "traceRowRuns w dir (f # fs) =
     (case cmdReportTraceRow w (Inr (f, [dir])) of
        (res, w') \<Rightarrow> (case traceRowRuns w' dir fs of (ress, w'') \<Rightarrow> (res # ress, w'')))"

definition contentOf :: "world \<Rightarrow> string \<Rightarrow> string" where
  "contentOf w p = (case files w p of None \<Rightarrow> [] | Some b \<Rightarrow> b)"

definition traceRowDone :: "traceRowFlags \<Rightarrow> string \<times> string option" where
  "traceRowDone f =
     (''appended trace row '' @ fmt_d (f_n f) @ '' ('' @ f_action f @ '')'' @ [CHR 0x0A], None)"

section \<open>The document assembler: the fragments read by \<^verbatim>\<open>MDToTex\<close>\<close>

text \<open>
  A directory entry as \<^verbatim>\<open>os.ReadDir\<close> returns it. The listing is an answer of the operating
  system and enters as a function from the directory to the error or the entries.
\<close>

record dirEntry =
  d_Name :: string
  d_IsDir :: bool

text \<open>The loop over \<^verbatim>\<open>entries\<close>, carrying \<^verbatim>\<open>mdFiles\<close>; each skip is a \<^verbatim>\<open>continue\<close>.\<close>

fun selectLoop :: "dirEntry list \<Rightarrow> string list \<Rightarrow> string list" where
  "selectLoop [] mdFiles = mdFiles"
| "selectLoop (entry # entries) mdFiles =
     (if d_IsDir entry then selectLoop entries mdFiles
      else if HasPrefix (d_Name entry) ''.'' then selectLoop entries mdFiles
      else if HasSuffix (ToLower (d_Name entry)) ''.md'' then
        (if HasPrefix (d_Name entry) ''frag_'' then selectLoop entries mdFiles
         else if d_Name entry = ''99_checklist.md'' then selectLoop entries mdFiles
         else selectLoop entries (mdFiles @ [d_Name entry]))
      else selectLoop entries mdFiles)"

text \<open>
  The loop over the sorted \<^verbatim>\<open>mdFiles\<close>, carrying the index test \<^verbatim>\<open>i > 0\<close> and the builder
  \<^verbatim>\<open>mdBody\<close>; a file that cannot be read ends \<^verbatim>\<open>MDToTex\<close> with an error.
\<close>

fun bodyLoop :: "world \<Rightarrow> string \<Rightarrow> string list \<Rightarrow> nat \<Rightarrow> string \<Rightarrow> string + string" where
  "bodyLoop w dbgDir [] i mdBody = Inr mdBody"
| "bodyLoop w dbgDir (name # names) i mdBody =
     (case ReadFile w (FJoin [dbgDir, name]) of
        Inl e \<Rightarrow> Inl (''read '' @ name @ '': '' @ e)
      | Inr content \<Rightarrow>
          bodyLoop w dbgDir names (Suc i)
            ((if i > 0 then mdBody @ [CHR 0x0A, CHR 0x0A] else mdBody) @ content))"

text \<open>
  \<^verbatim>\<open>MDToTex\<close> from its entry to \<^verbatim>\<open>mdStr := mdBody.String()\<close>: the error it returns there, or
  the concatenated Markdown and the number of fragments. The text then goes through
  \<^verbatim>\<open>fixMarkdownTables\<close> to the external transform.
\<close>

definition MDToTex_fragments ::
  "world \<Rightarrow> (string \<Rightarrow> string + dirEntry list) \<Rightarrow> string \<Rightarrow> string + string \<times> nat" where
  "MDToTex_fragments w readDir dbgDir =
     (case readDir dbgDir of
        Inl e \<Rightarrow> Inl (''read dir '' @ dbgDir @ '': '' @ e)
      | Inr entries \<Rightarrow>
          (let mdFiles = selectLoop entries []
           in if length mdFiles = 0 then Inl (''no .md files found in '' @ dbgDir)
              else (case bodyLoop w dbgDir (sort mdFiles) 0 [] of
                      Inl e \<Rightarrow> Inl e
                    | Inr mdBody \<Rightarrow> Inr (mdBody, length mdFiles))))"

text \<open>
  The fragments the specification names: the files of the directory whose name ends in
  \<^verbatim>\<open>.md\<close>, in any letter case, that are no dot-file, no template fragment (\<^verbatim>\<open>frag_\<close>) and
  not the checklist.
\<close>

definition isReportFragment :: "dirEntry \<Rightarrow> bool" where
  "isReportFragment e =
     (\<not> d_IsDir e \<and> HasSuffix (ToLower (d_Name e)) ''.md''
      \<and> \<not> HasPrefix (d_Name e) ''.''
      \<and> \<not> HasPrefix (d_Name e) ''frag_''
      \<and> d_Name e \<noteq> ''99_checklist.md'')"

definition fragmentText :: "world \<Rightarrow> string \<Rightarrow> string \<Rightarrow> string" where
  "fragmentText w dbgDir name = contentOf w (resolve w (FJoin [dbgDir, name]))"

definition artifactListing :: "string \<Rightarrow> string + dirEntry list" where
  "artifactListing d =
     (if d = ''.debug_1'' then
        Inr [\<lparr>d_Name = ''90_conclusion.md'', d_IsDir = False\<rparr>,
             \<lparr>d_Name = ''.dlv'', d_IsDir = True\<rparr>,
             \<lparr>d_Name = ''.notes.md'', d_IsDir = False\<rparr>,
             \<lparr>d_Name = ''00_report.md'', d_IsDir = False\<rparr>,
             \<lparr>d_Name = ''99_checklist.md'', d_IsDir = False\<rparr>,
             \<lparr>d_Name = ''frag_breakpoint.md'', d_IsDir = False\<rparr>,
             \<lparr>d_Name = ''debug_report.tex'', d_IsDir = False\<rparr>,
             \<lparr>d_Name = ''10_TRACE.MD'', d_IsDir = False\<rparr>]
      else if d = ''.debug_2'' then
        Inr [\<lparr>d_Name = ''99_checklist.md'', d_IsDir = False\<rparr>,
             \<lparr>d_Name = ''styles.tex'', d_IsDir = False\<rparr>]
      else Inl (''open '' @ d @ '': no such file or directory''))"

definition artifactWorld :: world where
  "artifactWorld =
     \<lparr>cwd = ''/home/dev/proj'',
      getenv = (\<lambda>k. []),
      files = [''/home/dev/proj/.debug_1/00_report.md'' \<mapsto> ''# Debug Report'' @ [CHR 0x0A],
               ''/home/dev/proj/.debug_1/10_TRACE.MD'' \<mapsto> ''## Debugging Trace'' @ [CHR 0x0A],
               ''/home/dev/proj/.debug_1/90_conclusion.md'' \<mapsto> ''## Root Cause'' @ [CHR 0x0A]],
      denied = (\<lambda>p. False)\<rparr>"

section \<open>The document assembler: \<^verbatim>\<open>TexToPDF\<close>\<close>

text \<open>
  The embedded template files are not part of the sources at hand: \<open>templateFS\<close> gives the
  content of an embedded path, if there is such a file. \<^verbatim>\<open>exec.LookPath\<close> and the run of an
  external command are answers of the operating system: \<open>lookPath\<close> gives the executable
  found for a name, and \<open>runCmd\<close> gives, for the argument vector and the working directory
  of the child, what the child writes to standard output and the files it leaves.
\<close>

record procs =
  templateFS :: "string \<Rightarrow> string option"
  lookPath :: "string \<Rightarrow> string option"
  runCmd :: "string list \<Rightarrow> string \<Rightarrow> (string \<Rightarrow> string option)
             \<Rightarrow> string \<times> (string \<Rightarrow> string option)"

text \<open>The loop of \<^verbatim>\<open>ensureReportTemplates\<close> over the two template names.\<close>

fun ensureLoop :: "procs \<Rightarrow> string \<Rightarrow> string list \<Rightarrow> world \<Rightarrow> string option \<times> world" where
  "ensureLoop ps dbgDir [] w = (None, w)"
| "ensureLoop ps dbgDir (name # names) w =
     (case templateFS ps (''templates/tex/'' @ name) of
        None \<Rightarrow>
          (Some (''read embedded '' @ name @ '': open templates/tex/'' @ name
                 @ '': file does not exist''), w)
      | Some content \<Rightarrow>
          (case WriteFile w (FJoin [dbgDir, name]) content of
             (Some e, w') \<Rightarrow> (Some (''write '' @ FJoin [dbgDir, name] @ '': '' @ e), w')
           | (None, w') \<Rightarrow> ensureLoop ps dbgDir names w'))"

definition ensureReportTemplates :: "procs \<Rightarrow> world \<Rightarrow> string \<Rightarrow> string option \<times> world" where
  "ensureReportTemplates ps w dbgDir =
     ensureLoop ps dbgDir [''debug_report_preamble.tex'', ''styles.tex''] w"

text \<open>
  What \<^verbatim>\<open>TexToPDF\<close> leaves: the text on standard output, the error it returns, the external
  commands it ran, each with its working directory, and the world.
\<close>

record texResult =
  t_out :: string
  t_err :: "string option"
  t_runs :: "(string list \<times> string) list"
  t_world :: world

definition pdflatexArgv :: "string list" where
  "pdflatexArgv = [''pdflatex'', ''-shell-escape'', ''-interaction=nonstopmode'', ''debug_report.tex'']"

text \<open>
  The \<^verbatim>\<open>for i := 0; i < 2; i++\<close> loop: each pass runs the compiler in \<^verbatim>\<open>dbgDir\<close> with its
  standard output on the helper's, and drops the result of \<^verbatim>\<open>cmd.Run\<close>.
\<close>

function compileLoop :: "procs \<Rightarrow> string \<Rightarrow> nat \<Rightarrow> texResult \<Rightarrow> texResult" where
  "compileLoop ps dbgDir i r =
     (if i < 2
      then (case runCmd ps pdflatexArgv dbgDir (files (t_world r)) of
              (printed, fs') \<Rightarrow>
                compileLoop ps dbgDir (Suc i)
                  (r\<lparr>t_out := t_out r @ printed,
                     t_runs := t_runs r @ [(pdflatexArgv, dbgDir)],
                     t_world := (t_world r)\<lparr>files := fs'\<rparr>\<rparr>))
      else r)"
  by pat_completeness auto
termination
  by (relation "measure (\<lambda>(ps, dbgDir, i, r). 2 - i)") auto

declare compileLoop.simps [simp del]

definition TexToPDF :: "procs \<Rightarrow> world \<Rightarrow> string \<Rightarrow> texResult" where
  "TexToPDF ps w dbgDir =
     (case ensureReportTemplates ps w dbgDir of
        (Some e, w1) \<Rightarrow> \<lparr>t_out = [], t_err = Some e, t_runs = [], t_world = w1\<rparr>
      | (None, w1) \<Rightarrow>
          (case lookPath ps ''pdflatex'' of
             None \<Rightarrow>
               \<lparr>t_out = [],
                t_err = Some (''pdflatex is required to compile PDF: exec: '' @ Quote ''pdflatex''
                              @ '': executable file not found in $PATH''),
                t_runs = [], t_world = w1\<rparr>
           | Some exe \<Rightarrow>
               (let pdfPath = FJoin [dbgDir, ''debug_report.pdf''];
                    r = compileLoop ps dbgDir 0 \<lparr>t_out = [], t_err = None, t_runs = [], t_world = w1\<rparr>
                in case Stat (t_world r) pdfPath of
                     Some e \<Rightarrow> r\<lparr>t_err := Some (''pdflatex did not produce '' @ pdfPath @ '': '' @ e)\<rparr>
                   | None \<Rightarrow> r\<lparr>t_out := t_out r @ ''compiled '' @ pdfPath @ [CHR 0x0A]\<rparr>)))"

text \<open>
  The check as the specification words it: a non-trivial artifact is a file that is there
  and is not empty.
\<close>

definition nonTrivialArtifact :: "world \<Rightarrow> string \<Rightarrow> bool" where
  "nonTrivialArtifact w p = (case files w (resolve w p) of None \<Rightarrow> False | Some b \<Rightarrow> b \<noteq> [])"

text \<open>
  Scenario compilers: one that leaves an empty \<^verbatim>\<open>debug_report.pdf\<close>, one that fails without
  writing anything, and one that writes a document.
\<close>

definition reportTemplates :: "string \<Rightarrow> string option" where
  "reportTemplates =
     [''templates/tex/debug_report_preamble.tex'' \<mapsto> ''% preamble'',
      ''templates/tex/styles.tex'' \<mapsto> ''% styles'']"

definition emptyPdfCompiler :: procs where
  "emptyPdfCompiler =
     \<lparr>templateFS = reportTemplates,
      lookPath = (\<lambda>n. Some (''/usr/bin/'' @ n)),
      runCmd = (\<lambda>argv dir fs.
         (''! Emergency stop.'' @ [CHR 0x0A],
          fs(''/home/dev/proj/.debug_1/debug_report.pdf'' \<mapsto> [])))\<rparr>"

definition failingCompiler :: procs where
  "failingCompiler = emptyPdfCompiler\<lparr>runCmd := (\<lambda>argv dir fs. (''! Emergency stop.'' @ [CHR 0x0A], fs))\<rparr>"

definition workingCompiler :: procs where
  "workingCompiler =
     emptyPdfCompiler\<lparr>runCmd := (\<lambda>argv dir fs.
        (''Output written on debug_report.pdf'' @ [CHR 0x0A],
         fs(''/home/dev/proj/.debug_1/debug_report.pdf'' \<mapsto> ''%PDF-1.5 report'')))\<rparr>"

definition stalePdfWorld :: world where
  "stalePdfWorld =
     artifactWorld\<lparr>files := (files artifactWorld)
        (''/home/dev/proj/.debug_1/debug_report.pdf'' \<mapsto> ''%PDF-1.5 of an earlier run'')\<rparr>"

section \<open>The process launcher: \<^verbatim>\<open>findDlv\<close>, \<^verbatim>\<open>cmdStart\<close>, \<^verbatim>\<open>Start\<close>\<close>

text \<open>
  What the launcher asks of the operating system beyond the files: the executable found for
  a name, the result of \<^verbatim>\<open>go env GOPATH\<close>, the temporary directory and the clock (they name
  the debug binary), the temporary file created for the engine's output, the result of
  opening it, the result of starting the detached engine (its process id) for an argument
  vector and a working directory, and what each poll of the output file finds before the
  deadline: a failing seek, no line yet, or the first line. The output file is not kept
  among \<open>files\<close>; it is removed when the launcher returns.
\<close>

datatype poll = SeekFailed string | NoLine | FirstLine string

record launchEnv =
  l_lookPath :: "string \<Rightarrow> string option"
  l_gopath :: "string + string"
  l_tempDir :: string
  l_nanos :: int
  l_createTemp :: "string + string"
  l_open :: "string option"
  l_spawn :: "string list \<Rightarrow> string \<Rightarrow> string + int"
  l_polls :: "poll list"

definition findDlv :: "launchEnv \<Rightarrow> world \<Rightarrow> string + string" where
  "findDlv env w =
     (case l_lookPath env ''dlv'' of
        Some path \<Rightarrow> Inr path
      | None \<Rightarrow>
          (case l_gopath env of
             Inl e \<Rightarrow> Inl (''dlv not in PATH and could not get GOPATH: '' @ e)
           | Inr outp \<Rightarrow>
               (let gopath = TrimSpace outp
                in if gopath = [] then Inl ''dlv not in PATH and GOPATH is empty''
                   else (let first = takeWhile (\<lambda>c. c \<noteq> CHR '':'' \<and> c \<noteq> CHR '';'') gopath;
                             path = FJoin [first, ''bin'', ''dlv'']
                         in case Stat w path of
                              Some e \<Rightarrow>
                                Inl (''dlv not in PATH and not found at '' @ path
                                     @ '': run '' @ [CHR 0x27] @ ''make install-delve''
                                     @ [CHR 0x27] @ '' or '' @ [CHR 0x27] @ ''go install ''
                                     @ ''github.com/go-delve/delve/cmd/dlv@latest'' @ [CHR 0x27])
                            | None \<Rightarrow> Inr path))))"

text \<open>The flags of \<^verbatim>\<open>start\<close> after \<^verbatim>\<open>fs.Parse\<close>, with the remaining arguments.\<close>

record startFlags =
  testMode :: bool
  execMode :: bool

definition dlvArgs :: "startFlags \<Rightarrow> string \<Rightarrow> string \<Rightarrow> string list \<Rightarrow> string list" where
  "dlvArgs fl debugBin target rest =
     [''--headless'', ''--accept-multiclient'', ''--api-version=2'']
     @ (if execMode fl then [''exec'', target] @ (if length rest > 1 then ''--'' # tl rest else [])
        else if testMode fl
          then [''test'', ''--output'', debugBin, target] @ (if length rest > 1 then tl rest else [])
        else [''debug'', ''--output'', debugBin, target] @ (if length rest > 1 then tl rest else []))"

text \<open>
  The polling loop: it ends with the address when the first line starts with the announced
  prefix, with an error when another non-empty line comes first or the seek fails, and with
  the empty address when the deadline passes.
\<close>

fun pollLoop :: "poll list \<Rightarrow> string + string" where
  "pollLoop [] = Inr []"
| "pollLoop (SeekFailed e # ps) = Inl (''seek dlv output: '' @ e)"
| "pollLoop (NoLine # ps) = pollLoop ps"
| "pollLoop (FirstLine line # ps) =
     (if HasPrefix line ''API server listening at: ''
      then Inr (TrimSpace (drop (length ''API server listening at: '') line))
      else if line \<noteq> [] then Inl (''unexpected dlv output: '' @ line)
      else pollLoop ps)"

datatype event = Chdir string | Spawn "string list" string

record startResult =
  s_out :: string
  s_err :: "string option"
  s_events :: "event list"
  s_world :: world

text \<open>A launcher that returns the error \<open>e\<close>, having printed nothing.\<close>

definition failed :: "string \<Rightarrow> event list \<Rightarrow> world \<Rightarrow> startResult" where
  "failed e ev w = \<lparr>s_out = [], s_err = Some e, s_events = ev, s_world = w\<rparr>"

text \<open>
  What the two launchers share, in two parts. \<open>harvest\<close> runs from \<^verbatim>\<open>findDlv\<close> to the end of
  the polling loop: it returns the error with which the launcher returns, or the address
  and the engine's process id with the events so far. \<open>launch\<close> runs from the parsed flags
  to the change of directory and then harvests; with the address and the process id it
  returns whether it changed into the target, and the world.
\<close>

definition harvest ::
  "launchEnv \<Rightarrow> world \<Rightarrow> event list \<Rightarrow> startFlags \<Rightarrow> string \<Rightarrow> string list
     \<Rightarrow> startResult + string \<times> int \<times> event list" where
  "harvest env w ev fl target rest =
     (case findDlv env w of
        Inl e \<Rightarrow> Inl (failed e ev w)
      | Inr dlvPath \<Rightarrow>
          (let debugBin = FJoin [l_tempDir env, ''dlv-'' @ fmt_d (l_nanos env)];
               argv = dlvPath # dlvArgs fl debugBin target rest
           in case l_createTemp env of
                Inl e \<Rightarrow> Inl (failed (''create temp file for dlv stdout: '' @ e) ev w)
              | Inr tmpPath \<Rightarrow>
                  (case l_spawn env argv (cwd w) of
                     Inl e \<Rightarrow> Inl (failed e ev w)
                   | Inr pid \<Rightarrow>
                       (case l_open env of
                          Some e \<Rightarrow>
                            Inl (failed (''open dlv output file: '' @ e)
                                   (ev @ [Spawn argv (cwd w)]) w)
                        | None \<Rightarrow>
                            (case pollLoop (l_polls env) of
                               Inl e \<Rightarrow> Inl (failed e (ev @ [Spawn argv (cwd w)]) w)
                             | Inr addr \<Rightarrow>
                                 (if addr = []
                                  then Inl (failed ''timed out waiting for dlv to start''
                                              (ev @ [Spawn argv (cwd w)]) w)
                                  else Inr (addr, pid, ev @ [Spawn argv (cwd w)])))))))"

definition launch ::
  "launchEnv \<Rightarrow> world \<Rightarrow> string + startFlags \<times> string list
     \<Rightarrow> startResult + string \<times> int \<times> bool \<times> event list \<times> world" where
  "launch env w parsed =
     (case parsed of
        Inl e \<Rightarrow> Inl (failed e [] w)
      | Inr (fl, rest) \<Rightarrow>
          (if testMode fl \<and> execMode fl
           then Inl (failed ''cannot use -test and -exec together'' [] w)
           else (let target = (if length rest > 0 then hd rest else ''.'');
                     enter = (target \<noteq> ''.'' \<and> \<not> execMode fl
                              \<and> Stat w (FJoin [target, ''go.mod'']) = None)
                 in if enter
                    then (if denied w (resolve w target)
                          then Inl (failed (''chdir '' @ target @ '': chdir '' @ target
                                            @ '': permission denied'') [] w)
                          else (case harvest env (w\<lparr>cwd := resolve w target\<rparr>)
                                       [Chdir (resolve w target)] fl ''.'' rest of
                                  Inl r \<Rightarrow> Inl r
                                | Inr (addr, pid, ev) \<Rightarrow>
                                    Inr (addr, pid, True, ev, w\<lparr>cwd := resolve w target\<rparr>)))
                    else (case harvest env w [] fl target rest of
                            Inl r \<Rightarrow> Inl r
                          | Inr (addr, pid, ev) \<Rightarrow> Inr (addr, pid, False, ev, w)))))"

text \<open>
  \<^verbatim>\<open>cmdStart\<close>, the launcher of the command line: after the launch it writes the handle.
  \<^verbatim>\<open>origCWD\<close> is the working directory at entry. The error of writing the pid file and the
  errors of the second pair of writes are dropped by the source.
\<close>

definition cmdStart ::
  "launchEnv \<Rightarrow> world \<Rightarrow> string + startFlags \<times> string list \<Rightarrow> startResult" where
  "cmdStart env w parsed =
     (case launch env w parsed of
        Inl r \<Rightarrow> r
      | Inr (addr, pid, didChdir, ev, w1) \<Rightarrow>
          (let origCWD = cwd w;
               dlvDir = (if didChdir then FJoin [origCWD, getDlvDir w1] else getDlvDir w1)
           in case MkdirAll w1 dlvDir of
                Some e \<Rightarrow> failed e ev w1
              | None \<Rightarrow>
                  (let addrFile = FJoin [dlvDir, ''addr''];
                       pidFile = FJoin [dlvDir, ''pid'']
                   in case WriteFile w1 addrFile (addr @ [CHR 0x0A]) of
                        (Some e, w2) \<Rightarrow> failed e ev w2
                      | (None, w2) \<Rightarrow>
                          (let w3 = snd (WriteFile w2 pidFile (fmt_d pid @ [CHR 0x0A]));
                               callerDlv = FJoin [origCWD, ''.dlv''];
                               w4 = (if didChdir \<and> getenv w3 ''DBG_DIR'' = []
                                        \<and> MkdirAll w3 callerDlv = None
                                     then snd (WriteFile
                                            (snd (WriteFile w3 (FJoin [callerDlv, ''addr''])
                                                    (addr @ [CHR 0x0A])))
                                            (FJoin [callerDlv, ''pid'']) (fmt_d pid @ [CHR 0x0A]))
                                     else w3)
                           in \<lparr>s_out = ''headless dlv started, address written to '' @ addrFile
                                       @ [CHR 0x0A] @ addr @ [CHR 0x0A],
                               s_err = None, s_events = ev, s_world = w4\<rparr>))))"

text \<open>
  \<^verbatim>\<open>Start\<close> of package \<^verbatim>\<open>delve\<close>: the same launch, then the handle at \<^verbatim>\<open>DefaultAddrFile\<close>, a
  constant that is not among the sources at hand and enters as a parameter, and, after a
  change of directory, also at that path under the original working directory.
\<close>

definition Start ::
  "string \<Rightarrow> launchEnv \<Rightarrow> world \<Rightarrow> string + startFlags \<times> string list \<Rightarrow> startResult" where
  "Start DefaultAddrFile env w parsed =
     (case launch env w parsed of
        Inl r \<Rightarrow> r
      | Inr (addr, pid, didChdir, ev, w1) \<Rightarrow>
          (let origCWD = cwd w
           in case MkdirAll w1 (Dir DefaultAddrFile) of
                Some e \<Rightarrow> failed e ev w1
              | None \<Rightarrow>
                  (case WriteFile w1 DefaultAddrFile (addr @ [CHR 0x0A]) of
                     (Some e, w2) \<Rightarrow> failed e ev w2
                   | (None, w2) \<Rightarrow>
                       (let pidFile = FJoin [Dir DefaultAddrFile, ''pid''];
                            w3 = snd (WriteFile w2 pidFile (fmt_d pid @ [CHR 0x0A]));
                            callerAddrFile = FJoin [origCWD, DefaultAddrFile];
                            w4 = (if didChdir \<and> MkdirAll w3 (Dir callerAddrFile) = None
                                  then snd (WriteFile
                                         (snd (WriteFile w3 callerAddrFile (addr @ [CHR 0x0A])))
                                         (FJoin [origCWD, Dir DefaultAddrFile, ''pid''])
                                         (fmt_d pid @ [CHR 0x0A]))
                                  else w3)
                        in \<lparr>s_out = ''headless dlv started, address written to '' @ DefaultAddrFile
                                    @ [CHR 0x0A] @ addr @ [CHR 0x0A],
                            s_err = None, s_events = ev, s_world = w4\<rparr>))))"

text \<open>
  Scenario: the project holds the example \<^verbatim>\<open>examples/failing_test\<close>, a module of its own;
  \<^verbatim>\<open>dlv\<close> is on the path and announces its address at the third poll.
\<close>

definition moduleWorld :: world where
  "moduleWorld =
     \<lparr>cwd = ''/home/dev/proj'',
      getenv = (\<lambda>k. []),
      files = [''/home/dev/proj/go.mod'' \<mapsto> ''module proj'',
               ''/home/dev/proj/examples/failing_test/go.mod'' \<mapsto> ''module failing_test''],
      denied = (\<lambda>p. False)\<rparr>"

definition moduleEnv :: launchEnv where
  "moduleEnv =
     \<lparr>l_lookPath = (\<lambda>n. Some (''/usr/local/bin/'' @ n)),
      l_gopath = Inr (''/home/dev/go'' @ [CHR 0x0A]),
      l_tempDir = ''/tmp'',
      l_nanos = 1772010316000000000,
      l_createTemp = Inr ''/tmp/dlv-stdout-1'',
      l_open = None,
      l_spawn = (\<lambda>argv dir. Inr 4242),
      l_polls = [NoLine, NoLine, FirstLine ''API server listening at: 127.0.0.1:38697'']\<rparr>"

section \<open>The example pipeline: \<open>Window\<close>\<close>

text \<open>
  \<^verbatim>\<open>filtered16\<close> is the dataset of the example's tests. Go's \<^verbatim>\<open>int\<close> is modelled by
  \<^typ>\<open>int\<close>: every value below stays far inside 64 bits.
\<close>

definition filtered16 :: "int list" where
  "filtered16 = [42, 63, 28, 71, 39, 14, 55, 33, 77, 48, 60, 25, 69, 36, 52, 18]"

datatype panic = SliceBoundsOutOfRange

text \<open>
  The slice expression \<^verbatim>\<open>data[start:end]\<close>: Go panics unless
  \<open>0 \<le> start \<le> end \<le> cap data\<close>; the capacity of the slices passed here is their length.
\<close>

definition slice :: "int list \<Rightarrow> int \<Rightarrow> int \<Rightarrow> panic + int list" where
  "slice data lo hi =
     (if 0 \<le> lo \<and> lo \<le> hi \<and> hi \<le> int (length data)
      then Inr (take (nat hi - nat lo) (drop (nat lo) data))
      else Inl SliceBoundsOutOfRange)"

text \<open>\<^verbatim>\<open>end := start + size\<close>, the value before the guard.\<close>

definition Window_end :: "int \<Rightarrow> int \<Rightarrow> int" where
  "Window_end start sz = start + sz"

text \<open>\<^verbatim>\<open>if end > len(data)-1 { end = len(data) - 1 }\<close>, the guard as the example ships it.\<close>

definition Window_clamp :: "int list \<Rightarrow> int \<Rightarrow> int" where
  "Window_clamp data e = (if e > int (length data) - 1 then int (length data) - 1 else e)"

text \<open>
  \<^verbatim>\<open>if end > len(data) { end = len(data) }\<close>, the guard after the patch that the
  end-to-end test applies to \<^verbatim>\<open>pipeline.go\<close>.
\<close>

definition Window_clamp_patched :: "int list \<Rightarrow> int \<Rightarrow> int" where
  "Window_clamp_patched data e = (if e > int (length data) then int (length data) else e)"

text \<open>
  The \<^verbatim>\<open>for start := 0; start < len(data); start += step\<close> loop, entered with the current
  \<^verbatim>\<open>start\<close> and the windows appended so far. With \<open>step \<le> 0\<close> the source does not
  leave the loop by its condition; \<open>None\<close> is the run that never returns.
\<close>

partial_function (option) Window_loop ::
  "int list \<Rightarrow> int \<Rightarrow> int \<Rightarrow> int \<Rightarrow> int list list \<Rightarrow> (panic + int list list) option" where
  "Window_loop data sz step start windows =
     (if start < int (length data) then
        (case slice data start (Window_clamp data (Window_end start sz)) of
           Inl p \<Rightarrow> Some (Inl p)
         | Inr w \<Rightarrow> Window_loop data sz step (start + step) (windows @ [w]))
      else Some (Inr windows))"

definition Window :: "int list \<Rightarrow> int \<Rightarrow> int \<Rightarrow> (panic + int list list) option" where
  "Window data sz step = Window_loop data sz step 0 []"

partial_function (option) Window_loop_patched ::
  "int list \<Rightarrow> int \<Rightarrow> int \<Rightarrow> int \<Rightarrow> int list list \<Rightarrow> (panic + int list list) option" where
  "Window_loop_patched data sz step start windows =
     (if start < int (length data) then
        (case slice data start (Window_clamp_patched data (Window_end start sz)) of
           Inl p \<Rightarrow> Some (Inl p)
         | Inr w \<Rightarrow> Window_loop_patched data sz step (start + step) (windows @ [w]))
      else Some (Inr windows))"

definition Window_patched :: "int list \<Rightarrow> int \<Rightarrow> int \<Rightarrow> (panic + int list list) option" where
  "Window_patched data sz step = Window_loop_patched data sz step 0 []"


section \<open>Verified properties\<close>

subsection \<open>The windowing example\<close>

text \<open>
  Claim C10. With the 16 filtered readings, \<^verbatim>\<open>size = 4\<close> and \<^verbatim>\<open>step = 2\<close>, the loop reaches
  \<^verbatim>\<open>start = 12\<close> with six windows appended, so that iteration builds the window of index 6.
  There \<^verbatim>\<open>end\<close> is 16 before the guard and, since \<open>16 > 16 - 1\<close>, 15 after it: window 6 is
  \<^verbatim>\<open>[69 36 52]\<close>, three elements instead of four. With the guard's threshold replaced by the
  length, \<^verbatim>\<open>end\<close> stays 16 at that iteration and window 6 keeps its four elements.
\<close>

theorem C10_window_clamp_at_start_12:
  "length filtered16 = 16
   \<and> Window_loop filtered16 4 2 0 [] =
       Window_loop filtered16 4 2 12
         [[42, 63, 28, 71], [28, 71, 39, 14], [39, 14, 55, 33],
          [55, 33, 77, 48], [77, 48, 60, 25], [60, 25, 69, 36]]
   \<and> Window_end 12 4 = 16
   \<and> Window_clamp filtered16 (Window_end 12 4) = 15
   \<and> Window filtered16 4 2 =
       Some (Inr [[42, 63, 28, 71], [28, 71, 39, 14], [39, 14, 55, 33],
                  [55, 33, 77, 48], [77, 48, 60, 25], [60, 25, 69, 36],
                  [69, 36, 52], [52]])
   \<and> Window_clamp_patched filtered16 (Window_end 12 4) = 16
   \<and> Window_patched filtered16 4 2 =
       Some (Inr [[42, 63, 28, 71], [28, 71, 39, 14], [39, 14, 55, 33],
                  [55, 33, 77, 48], [77, 48, 60, 25], [60, 25, 69, 36],
                  [69, 36, 52, 18], [52, 18]])"
proof -
  have len: "length filtered16 = 16"
    by (simp add: filtered16_def)
  have reach: "Window_loop filtered16 4 2 0 [] =
       Window_loop filtered16 4 2 12
         [[42, 63, 28, 71], [28, 71, 39, 14], [39, 14, 55, 33],
          [55, 33, 77, 48], [77, 48, 60, 25], [60, 25, 69, 36]]"
    by (simp add: Window_loop.simps [of _ _ _ 0] Window_loop.simps [of _ _ _ 2]
        Window_loop.simps [of _ _ _ 4] Window_loop.simps [of _ _ _ 6]
        Window_loop.simps [of _ _ _ 8] Window_loop.simps [of _ _ _ 10]
        slice_def Window_clamp_def Window_end_def filtered16_def)
  have ends: "Window_end 12 4 = 16" "Window_clamp filtered16 (Window_end 12 4) = 15"
    "Window_clamp_patched filtered16 (Window_end 12 4) = 16"
    by (simp_all add: Window_clamp_def Window_clamp_patched_def Window_end_def filtered16_def)
  have buggy: "Window filtered16 4 2 =
       Some (Inr [[42, 63, 28, 71], [28, 71, 39, 14], [39, 14, 55, 33],
                  [55, 33, 77, 48], [77, 48, 60, 25], [60, 25, 69, 36],
                  [69, 36, 52], [52]])"
    unfolding Window_def
    by (simp add: Window_loop.simps slice_def Window_clamp_def Window_end_def filtered16_def)
  have patched: "Window_patched filtered16 4 2 =
       Some (Inr [[42, 63, 28, 71], [28, 71, 39, 14], [39, 14, 55, 33],
                  [55, 33, 77, 48], [77, 48, 60, 25], [60, 25, 69, 36],
                  [69, 36, 52, 18], [52, 18]])"
    unfolding Window_patched_def
    by (simp add: Window_loop_patched.simps slice_def Window_clamp_patched_def Window_end_def
        filtered16_def)
  from len reach ends buggy patched show ?thesis
    by (intro conjI)
qed

subsection \<open>Facts about the string functions\<close>

lemma HasPrefix_append: "HasPrefix (p @ s) p"
  by (simp add: HasPrefix_def)

lemma HasPrefix_Contains: "HasPrefix s p \<Longrightarrow> Contains s p"
  by (cases s) (auto simp: HasPrefix_def)

lemma Contains_prefix: "Contains (p @ s) p"
  by (rule HasPrefix_Contains) (rule HasPrefix_append)

lemma Contains_append: "Contains (a @ p @ s) p"
proof (induction a)
  case Nil
  show ?case by (simp add: Contains_prefix)
next
  case (Cons c a)
  then show ?case by simp
qed

lemma Contains_nonempty: "Contains s sub \<Longrightarrow> sub \<noteq> [] \<Longrightarrow> s \<noteq> []"
  by (cases s) auto

subsection \<open>The state summary\<close>

lemma printThreads_eq:
  "printThreads ts (outp, printed) =
     (outp @ concat (map threadReport ts), printed \<or> anyParked ts)"
proof (induction ts arbitrary: outp printed)
  case Nil
  show ?case by (simp add: anyParked_def)
next
  case (Cons t ts)
  show ?case
  proof (cases "th_Breakpoint t")
    case None
    then show ?thesis
      using Cons.IH [of outp printed] by (simp add: threadReport_def anyParked_def)
  next
    case (Some b)
    then show ?thesis
      using Cons.IH [of "outp @ threadLine t b" True]
      by (simp add: threadReport_def anyParked_def)
  qed
qed

lemma goroutineLine_nonempty: "goroutineLine g \<noteq> []"
  by (simp add: goroutineLine_def)

lemma threadLine_nonempty: "threadLine t b \<noteq> []"
  by (simp add: threadLine_def)

lemma anyParked_report: "anyParked ts \<Longrightarrow> concat (map threadReport ts) \<noteq> []"
proof (induction ts)
  case Nil
  then show ?case by (simp add: anyParked_def)
next
  case (Cons t ts)
  then show ?case
    by (cases "th_Breakpoint t") (auto simp: anyParked_def threadReport_def threadLine_nonempty)
qed

text \<open>
  Claim C3, as the claim states it, fails: at a stop with a goroutine selected and a thread
  parked at a breakpoint the command prints the goroutine's line and then the breakpoint
  line, not the breakpoint alone.
\<close>

theorem C3_priority_order_counterexample:
  "printState stoppedAtClamp \<noteq> summaryByPriority stoppedAtClamp
   \<and> printState stoppedAtClamp =
       ''goroutine 1 at pipeline.go:27 (main.Window)'' @ [CHR 0x0A]
       @ ''  thread 7 at breakpoint 1: pipeline.go:27'' @ [CHR 0x0A]
   \<and> summaryByPriority stoppedAtClamp =
       ''  thread 7 at breakpoint 1: pipeline.go:27'' @ [CHR 0x0A]"
  by (simp add: printState_def summaryByPriority_def stoppedAtClamp_def clampLoc_def
      clampBreakpoint_def goroutineLine_def goroutineLoc_def fnName_def threadLine_def
      threadReport_def anyParked_def fmt_d_def digitChar_def)

text \<open>
  Claim C3, amended. An exited tracee is reported by its exit status alone; otherwise a
  running one by the running line alone; otherwise the output is the selected goroutine's
  location, when one is selected, followed by one breakpoint line for every thread parked
  at a breakpoint, and the line \<^verbatim>\<open>stopped\<close> exactly when neither was printed. The output is
  never empty.
\<close>

theorem C3_printState_summary:
  "printState state =
     (if Exited state then ''Process exited with status '' @ fmt_d (ExitStatus state) @ [CHR 0x0A]
      else if Running state then ''Process is running.'' @ [CHR 0x0A]
      else (case SelectedGoroutine state of Some g \<Rightarrow> goroutineLine g | None \<Rightarrow> [])
           @ concat (map threadReport (Threads state))
           @ (if SelectedGoroutine state = None \<and> \<not> anyParked (Threads state)
              then ''stopped'' @ [CHR 0x0A] else []))
   \<and> printState state \<noteq> []"
proof -
  have shape: "printState state =
     (if Exited state then ''Process exited with status '' @ fmt_d (ExitStatus state) @ [CHR 0x0A]
      else if Running state then ''Process is running.'' @ [CHR 0x0A]
      else (case SelectedGoroutine state of Some g \<Rightarrow> goroutineLine g | None \<Rightarrow> [])
           @ concat (map threadReport (Threads state))
           @ (if SelectedGoroutine state = None \<and> \<not> anyParked (Threads state)
              then ''stopped'' @ [CHR 0x0A] else []))"
    by (cases "SelectedGoroutine state") (simp_all add: printState_def printThreads_eq)
  have nonempty: "printState state \<noteq> []"
  proof (cases "Exited state \<or> Running state")
    case True
    then show ?thesis by (auto simp: printState_def)
  next
    case False
    show ?thesis
    proof (cases "SelectedGoroutine state")
      case (Some g)
      with False show ?thesis
        by (simp add: shape goroutineLine_nonempty)
    next
      case None
      show ?thesis
      proof (cases "anyParked (Threads state)")
        case True
        with False None anyParked_report [of "Threads state"] show ?thesis
          by (simp add: shape)
      next
        case False
        with \<open>\<not> (Exited state \<or> Running state)\<close> None show ?thesis
          by (simp add: shape)
      qed
    qed
  qed
  from shape nonempty show ?thesis by (rule conjI)
qed

subsection \<open>Exit of the tracee is not a failure\<close>

text \<open>
  Claim C1. Take an invocation that reaches the engine. If the initial state query fails
  with a text containing \<^verbatim>\<open>has exited with status\<close>, the text is printed and the invocation
  ends without an error, exit status 0; any other text is returned as the error, exit
  status 1. The same holds for the error delivered by \<^verbatim>\<open>continue\<close> and for the error of
  \<^verbatim>\<open>next\<close>, \<^verbatim>\<open>step\<close> and \<^verbatim>\<open>stepout\<close>. The error of every other RPC (location lookup,
  breakpoint creation, listing and clearing, evaluation, locals, arguments, stack,
  goroutines) is returned as the command's error.
\<close>

theorem C1_exit_reclassified_errors_propagated:
  assumes sess: "sessionInvocation w dial argv"
    and cmd: "cmd = ToLower (argv ! 1)"
    and args: "args = drop 2 argv"
    and R: "R = Run w dial e s argv"
  shows
   "(rpc_GetState e s = Inl t \<longrightarrow>
       (if Contains t ''has exited with status'' then finishes R (t @ [CHR 0x0A]) None 0
        else finishes R [] (Some t) 1))
    \<and> (rpc_GetState e s = Inr state \<and> (cmd = ''continue'' \<or> cmd = ''c'')
         \<and> Err (fst (rpc_Continue e s)) = Some t \<longrightarrow>
       (if Contains t ''has exited with status'' then finishes R (t @ [CHR 0x0A]) None 0
        else finishes R [] (Some t) 1))
    \<and> (rpc_GetState e s = Inr state
         \<and> ((cmd = ''next'' \<or> cmd = ''n'') \<and> fst (rpc_Next e s) = Inl t
            \<or> (cmd = ''step'' \<or> cmd = ''s'') \<and> fst (rpc_Step e s) = Inl t
            \<or> (cmd = ''stepout'' \<or> cmd = ''so'') \<and> fst (rpc_StepOut e s) = Inl t) \<longrightarrow>
       (if Contains t ''has exited with status'' then finishes R (t @ [CHR 0x0A]) None 0
        else finishes R [] (Some t) 1))
    \<and> (rpc_GetState e s = Inr state
         \<and> (cmd = ''break'' \<and> args \<noteq> []
              \<and> rpc_FindLocation e s (scopeFromState state) (fst (splitCond (Join args '' '')))
                  = Inl t
            \<or> (cmd = ''breakpoints'' \<or> cmd = ''bp'') \<and> rpc_ListBreakpoints e s = Inl t
            \<or> cmd = ''clear'' \<and> args \<noteq> [] \<and> Atoi (hd args) = Inr n
              \<and> fst (rpc_ClearBreakpoint e s n) = Some t
            \<or> (cmd = ''print'' \<or> cmd = ''p'') \<and> args \<noteq> []
              \<and> rpc_EvalVariable e s (scopeFromState state) (Join args '' '') = Inl t
            \<or> cmd = ''locals'' \<and> rpc_ListLocalVariables e s (scopeFromState state) = Inl t
            \<or> cmd = ''args'' \<and> rpc_ListFunctionArgs e s (scopeFromState state) = Inl t
            \<or> (cmd = ''stack'' \<or> cmd = ''bt'')
              \<and> rpc_Stacktrace e s
                   (case SelectedGoroutine state of Some g \<Rightarrow> g_ID g | None \<Rightarrow> - 1) 20 = Inl t
            \<or> (cmd = ''goroutines'' \<or> cmd = ''grs'') \<and> rpc_ListGoroutines e s 0 100 = Inl t)
         \<longrightarrow> finishes R [] (Some t) 1)
    \<and> (breakAddr loc \<noteq> 0 \<and> fst (rpc_CreateBreakpoint e (eng r) (breakRequest cond loc)) = Inl t
         \<longrightarrow> err (cmdBreak_loop e cond (loc # locs) r) = Some t
             \<and> exitCode (cmdBreak_loop e cond (loc # locs) r) = 1)"
proof -
  from sess obtain addr where nc: "newClient w = Inr addr" and d: "dial addr"
    and len: "\<not> length argv < 2" and lc: "map_of lifecycleCommands (ToLower (argv ! 1)) = None"
    by (auto simp: sessionInvocation_def split: sum.splits)
  have run_err: "rpc_GetState e s = Inl t \<Longrightarrow>
      R = Done (if Contains t ''has exited with status''
                then \<lparr>out = t @ [CHR 0x0A], err = None, reqs = [GetState], eng = s\<rparr>
                else \<lparr>out = [], err = Some t, reqs = [GetState], eng = s\<rparr>)"
    using nc d len lc by (simp add: R Run_def Let_def)
  have run_ok: "rpc_GetState e s = Inr state \<Longrightarrow>
      R = Done ((dispatch e s state cmd args)\<lparr>reqs := GetState # reqs (dispatch e s state cmd args)\<rparr>)"
    using nc d len lc by (simp add: R Run_def Let_def cmd args)
  have c1: "rpc_GetState e s = Inl t \<longrightarrow>
       (if Contains t ''has exited with status'' then finishes R (t @ [CHR 0x0A]) None 0
        else finishes R [] (Some t) 1)"
    using run_err by (simp add: finishes_def exitCode_def)
  have c2: "rpc_GetState e s = Inr state \<and> (cmd = ''continue'' \<or> cmd = ''c'')
         \<and> Err (fst (rpc_Continue e s)) = Some t \<longrightarrow>
       (if Contains t ''has exited with status'' then finishes R (t @ [CHR 0x0A]) None 0
        else finishes R [] (Some t) 1)"
    using run_ok
    by (cases "rpc_Continue e s")
       (auto simp: finishes_def exitCode_def dispatch_def cmdContinue_def isExitError_def)
  have step: "fst call = Inl t \<Longrightarrow>
      (case call of
         (Inl t, s') \<Rightarrow>
           (if isExitError (Some t)
            then \<lparr>out = t @ [CHR 0x0A], err = None, reqs = [req], eng = s'\<rparr>
            else \<lparr>out = [], err = Some t, reqs = [req], eng = s'\<rparr>)
       | (Inr state, s') \<Rightarrow>
           (if Exited state
            then \<lparr>out = exitLine state, err = None, reqs = [req], eng = s'\<rparr>
            else \<lparr>out = printState state, err = None, reqs = [req], eng = s'\<rparr>))
      = (if Contains t ''has exited with status''
         then \<lparr>out = t @ [CHR 0x0A], err = None, reqs = [req], eng = snd call\<rparr>
         else \<lparr>out = [], err = Some t, reqs = [req], eng = snd call\<rparr>)"
    for call :: "(string + DebuggerState) \<times> 's" and req
    by (cases call) (simp add: isExitError_def)
  have c3: "rpc_GetState e s = Inr state
         \<and> ((cmd = ''next'' \<or> cmd = ''n'') \<and> fst (rpc_Next e s) = Inl t
            \<or> (cmd = ''step'' \<or> cmd = ''s'') \<and> fst (rpc_Step e s) = Inl t
            \<or> (cmd = ''stepout'' \<or> cmd = ''so'') \<and> fst (rpc_StepOut e s) = Inl t) \<longrightarrow>
       (if Contains t ''has exited with status'' then finishes R (t @ [CHR 0x0A]) None 0
        else finishes R [] (Some t) 1)"
    using run_ok
    by (auto simp: finishes_def exitCode_def dispatch_def cmdStep_def Let_def step)
  have c4: "rpc_GetState e s = Inr state
         \<and> (cmd = ''break'' \<and> args \<noteq> []
              \<and> rpc_FindLocation e s (scopeFromState state) (fst (splitCond (Join args '' '')))
                  = Inl t
            \<or> (cmd = ''breakpoints'' \<or> cmd = ''bp'') \<and> rpc_ListBreakpoints e s = Inl t
            \<or> cmd = ''clear'' \<and> args \<noteq> [] \<and> Atoi (hd args) = Inr n
              \<and> fst (rpc_ClearBreakpoint e s n) = Some t
            \<or> (cmd = ''print'' \<or> cmd = ''p'') \<and> args \<noteq> []
              \<and> rpc_EvalVariable e s (scopeFromState state) (Join args '' '') = Inl t
            \<or> cmd = ''locals'' \<and> rpc_ListLocalVariables e s (scopeFromState state) = Inl t
            \<or> cmd = ''args'' \<and> rpc_ListFunctionArgs e s (scopeFromState state) = Inl t
            \<or> (cmd = ''stack'' \<or> cmd = ''bt'')
              \<and> rpc_Stacktrace e s
                   (case SelectedGoroutine state of Some g \<Rightarrow> g_ID g | None \<Rightarrow> - 1) 20 = Inl t
            \<or> (cmd = ''goroutines'' \<or> cmd = ''grs'') \<and> rpc_ListGoroutines e s 0 100 = Inl t)
         \<longrightarrow> finishes R [] (Some t) 1"
  proof
    assume h: "rpc_GetState e s = Inr state
         \<and> (cmd = ''break'' \<and> args \<noteq> []
              \<and> rpc_FindLocation e s (scopeFromState state) (fst (splitCond (Join args '' '')))
                  = Inl t
            \<or> (cmd = ''breakpoints'' \<or> cmd = ''bp'') \<and> rpc_ListBreakpoints e s = Inl t
            \<or> cmd = ''clear'' \<and> args \<noteq> [] \<and> Atoi (hd args) = Inr n
              \<and> fst (rpc_ClearBreakpoint e s n) = Some t
            \<or> (cmd = ''print'' \<or> cmd = ''p'') \<and> args \<noteq> []
              \<and> rpc_EvalVariable e s (scopeFromState state) (Join args '' '') = Inl t
            \<or> cmd = ''locals'' \<and> rpc_ListLocalVariables e s (scopeFromState state) = Inl t
            \<or> cmd = ''args'' \<and> rpc_ListFunctionArgs e s (scopeFromState state) = Inl t
            \<or> (cmd = ''stack'' \<or> cmd = ''bt'')
              \<and> rpc_Stacktrace e s
                   (case SelectedGoroutine state of Some g \<Rightarrow> g_ID g | None \<Rightarrow> - 1) 20 = Inl t
            \<or> (cmd = ''goroutines'' \<or> cmd = ''grs'') \<and> rpc_ListGoroutines e s 0 100 = Inl t)"
    then have eq: "R = Done ((dispatch e s state cmd args)\<lparr>reqs := GetState # reqs (dispatch e s state cmd args)\<rparr>)"
      using run_ok by blast
    have fin: "out (dispatch e s state cmd args) = [] \<and> err (dispatch e s state cmd args) = Some t"
      using h
      by (elim conjE disjE)
         (auto simp: dispatch_def cmdBreak_def cmdBreakpoints_def cmdClear_def cmdPrint_def
           cmdLocals_def cmdArgs_def cmdStack_def cmdGoroutines_def Let_def
           split: prod.splits)
    then show "finishes R [] (Some t) 1"
      by (simp add: eq finishes_def exitCode_def)
  qed
  have c5: "breakAddr loc \<noteq> 0 \<and> fst (rpc_CreateBreakpoint e (eng r) (breakRequest cond loc)) = Inl t
         \<longrightarrow> err (cmdBreak_loop e cond (loc # locs) r) = Some t
             \<and> exitCode (cmdBreak_loop e cond (loc # locs) r) = 1"
    by (cases "rpc_CreateBreakpoint e (eng r) (breakRequest cond loc)")
       (auto simp: exitCode_def)
  from c1 c2 c3 c4 c5 show ?thesis
    by (intro conjI)
qed

text \<open>
  C1 at the scenario engines: the tracee has exited at the state query, at \<^verbatim>\<open>continue\<close> and
  at \<^verbatim>\<open>next\<close>; \<^verbatim>\<open>step\<close> meets a broken connection and \<^verbatim>\<open>break\<close> an unknown location.
\<close>

theorem C1_exit_reclassified_witness:
  "sessionInvocation sessionWorld (\<lambda>a. a = ''127.0.0.1:38697'') [''delve-helper'', ''state'']
   \<and> rpc_GetState exitedEngine 0 = Inl exitText
   \<and> Contains exitText ''has exited with status''
   \<and> finishes (Run sessionWorld (\<lambda>a. a = ''127.0.0.1:38697'') exitedEngine 0
                  [''delve-helper'', ''state''])
         (''Process 4242 has exited with status 0'' @ [CHR 0x0A]) None 0
   \<and> finishes (Run sessionWorld (\<lambda>a. a = ''127.0.0.1:38697'') countingEngine 0
                  [''delve-helper'', ''Continue''])
         (''Process 4242 has exited with status 0'' @ [CHR 0x0A]) None 0
   \<and> finishes (Run sessionWorld (\<lambda>a. a = ''127.0.0.1:38697'') countingEngine 0
                  [''delve-helper'', ''next''])
         (''Process 4242 has exited with status 0'' @ [CHR 0x0A]) None 0
   \<and> \<not> Contains ''connection is shut down'' ''has exited with status''
   \<and> finishes (Run sessionWorld (\<lambda>a. a = ''127.0.0.1:38697'') countingEngine 0
                  [''delve-helper'', ''step''])
         [] (Some ''connection is shut down'') 1
   \<and> finishes (Run sessionWorld (\<lambda>a. a = ''127.0.0.1:38697'') countingEngine 0
                  [''delve-helper'', ''break'', ''nowhere.go:1''])
         [] (Some ''location nowhere.go:1 not found'') 1"
proof -
  let ?d = "\<lambda>a. a = ''127.0.0.1:38697''"
  have addr: "newClient sessionWorld = Inr ''127.0.0.1:38697''"
    by (simp add: newClient_def getAddr_def getAddrFilePath_def getDlvDir_def newRPCLogger_def
        ReadFile_def resolve_def sessionWorld_def FJoin_def Clean_def HasPrefix_def cleanPush_def
        TrimSpace_def stripRunes.simps spaceRunes_def HasPrefix_def)
  have sess: "sessionInvocation sessionWorld ?d [''delve-helper'', c]"
    if "map_of lifecycleCommands (ToLower c) = None" for c
    using that by (simp add: sessionInvocation_def addr)
  have lower: "ToLower ''state'' = ''state''" "ToLower ''Continue'' = ''continue''"
    "ToLower ''next'' = ''next''" "ToLower ''step'' = ''step''" "ToLower ''break'' = ''break''"
    by (simp_all add: ToLower.simps HasPrefix_def lowerByte_def)
  have s1: "sessionInvocation sessionWorld ?d [''delve-helper'', ''state'']"
    by (rule sess) (simp add: lower lifecycleCommands_def)
  have s2: "sessionInvocation sessionWorld ?d [''delve-helper'', ''Continue'']"
    by (rule sess) (simp add: lower lifecycleCommands_def)
  have s3: "sessionInvocation sessionWorld ?d [''delve-helper'', ''next'']"
    by (rule sess) (simp add: lower lifecycleCommands_def)
  have s4: "sessionInvocation sessionWorld ?d [''delve-helper'', ''step'']"
    by (rule sess) (simp add: lower lifecycleCommands_def)
  have s5: "sessionInvocation sessionWorld ?d [''delve-helper'', ''break'', ''nowhere.go:1'']"
    by (simp add: sessionInvocation_def addr lower lifecycleCommands_def)
  have g0: "rpc_GetState exitedEngine 0 = Inl exitText"
    by (simp add: exitedEngine_def)
  have g1: "rpc_GetState countingEngine 0 = Inr stoppedAtClamp"
    by (simp add: countingEngine_def)
  have m: "Contains exitText ''has exited with status''"
    by (simp add: exitText_def HasPrefix_def)
  have nm: "\<not> Contains ''connection is shut down'' ''has exited with status''"
    by (simp add: HasPrefix_def)
  have w1: "finishes (Run sessionWorld ?d exitedEngine 0 [''delve-helper'', ''state''])
       (exitText @ [CHR 0x0A]) None 0"
    using C1_exit_reclassified_errors_propagated
      [OF s1 refl refl refl, where e = exitedEngine and s = 0 and t = exitText] g0 m
    by simp
  have w2: "finishes (Run sessionWorld ?d countingEngine 0 [''delve-helper'', ''Continue''])
       (exitText @ [CHR 0x0A]) None 0"
    using C1_exit_reclassified_errors_propagated
      [OF s2 refl refl refl, where e = countingEngine and s = 0 and t = exitText
        and state = stoppedAtClamp] g1 m
    by (simp add: lower countingEngine_def)
  have w3: "finishes (Run sessionWorld ?d countingEngine 0 [''delve-helper'', ''next''])
       (exitText @ [CHR 0x0A]) None 0"
    using C1_exit_reclassified_errors_propagated
      [OF s3 refl refl refl, where e = countingEngine and s = 0 and t = exitText
        and state = stoppedAtClamp] g1 m
    by (simp add: lower countingEngine_def)
  have w4: "finishes (Run sessionWorld ?d countingEngine 0 [''delve-helper'', ''step''])
       [] (Some ''connection is shut down'') 1"
    using C1_exit_reclassified_errors_propagated
      [OF s4 refl refl refl, where e = countingEngine and s = 0
        and t = "''connection is shut down''" and state = stoppedAtClamp] g1 nm
    by (simp add: lower countingEngine_def)
  have w5: "finishes (Run sessionWorld ?d countingEngine 0
       [''delve-helper'', ''break'', ''nowhere.go:1'']) [] (Some ''location nowhere.go:1 not found'') 1"
    using C1_exit_reclassified_errors_propagated
      [OF s5 refl refl refl, where e = countingEngine and s = 0
        and t = "''location nowhere.go:1 not found''" and state = stoppedAtClamp] g1
    by (simp add: lower countingEngine_def splitCond_def HasPrefix_def)
  from s1 g0 m w1 w2 w3 nm w4 w5 show ?thesis
    unfolding exitText_def by (intro conjI)
qed

subsection \<open>Setting breakpoints\<close>

lemma Index_ge: "- 1 \<le> Index s sub"
  by (induction s) (auto simp: Let_def)

lemma Index_Contains: "(0 \<le> Index s sub) = Contains s sub"
proof (induction s)
  case Nil
  show ?case by simp
next
  case (Cons c cs)
  then show ?case
    using Index_ge [of cs sub] by (auto simp: Let_def)
qed

lemma Index_split:
  "0 \<le> Index s sub \<Longrightarrow>
     s = take (nat (Index s sub)) s @ sub @ drop (nat (Index s sub) + length sub) s"
proof (induction s)
  case Nil
  then show ?case by (simp split: if_splits)
next
  case (Cons c cs)
  show ?case
  proof (cases "HasPrefix (c # cs) sub")
    case True
    then have "take (length sub) (c # cs) = sub"
      by (simp add: HasPrefix_def)
    then have "c # cs = sub @ drop (length sub) (c # cs)"
      by (metis append_take_drop_id)
    with True show ?thesis by simp
  next
    case False
    with Cons.prems have nn: "0 \<le> Index cs sub"
      by (simp add: Let_def split: if_splits)
    with False have idx: "Index (c # cs) sub = Index cs sub + 1"
      by (simp add: Let_def)
    from nn have n: "nat (Index cs sub + 1) = Suc (nat (Index cs sub))"
      by simp
    from Cons.IH [OF nn] show ?thesis
      unfolding idx n by simp
  qed
qed

lemma splitCond_cases:
  "(\<not> Contains joined '' if '' \<longrightarrow> splitCond joined = (joined, []))
   \<and> (Contains joined '' if '' \<longrightarrow>
        (\<exists>pre post. joined = pre @ '' if '' @ post
           \<and> splitCond joined = (TrimSpace pre, TrimSpace post)))"
proof (cases "Contains joined '' if ''")
  case False
  then have "\<not> 0 \<le> Index joined '' if ''"
    by (simp add: Index_Contains)
  with False show ?thesis
    by (simp add: splitCond_def Let_def)
next
  case True
  then have nn: "0 \<le> Index joined '' if ''"
    by (simp add: Index_Contains)
  let ?i = "nat (Index joined '' if '')"
  have "joined = take ?i joined @ '' if '' @ drop (?i + length '' if '') joined"
    by (rule Index_split [OF nn])
  moreover have "splitCond joined =
      (TrimSpace (take ?i joined), TrimSpace (drop (?i + length '' if '') joined))"
    using nn by (simp add: splitCond_def Let_def nat_add_distrib eval_nat_numeral)
  ultimately show ?thesis
    using True by blast
qed

lemma cmdBreak_loop_createAll:
  "createAll e (eng r) (map (breakRequest cond) (filter (\<lambda>l. breakAddr l \<noteq> 0) locs))
     = (cs, er, s') \<Longrightarrow>
   out (cmdBreak_loop e cond locs r) = out r @ concat (map (breakMsg cond) cs)
   \<and> err (cmdBreak_loop e cond locs r) = (case er of None \<Rightarrow> err r | Some t \<Rightarrow> Some t)
   \<and> eng (cmdBreak_loop e cond locs r) = s'
   \<and> reqs (cmdBreak_loop e cond locs r) =
       reqs r @ map CreateBreakpoint
         (take (length cs + (case er of None \<Rightarrow> 0 | Some t \<Rightarrow> 1))
            (map (breakRequest cond) (filter (\<lambda>l. breakAddr l \<noteq> 0) locs)))
   \<and> (er = None \<longrightarrow>
        length cs = length (filter (\<lambda>l. breakAddr l \<noteq> 0) locs))"
proof (induction locs arbitrary: r cs er s')
  case Nil
  then show ?case by auto
next
  case (Cons loc locs)
  show ?case
  proof (cases "breakAddr loc = 0")
    case True
    with Cons.prems Cons.IH [of r cs er s'] show ?thesis by simp
  next
    case False
    obtain ans s1 where call: "rpc_CreateBreakpoint e (eng r) (breakRequest cond loc) = (ans, s1)"
      by (cases "rpc_CreateBreakpoint e (eng r) (breakRequest cond loc)")
    show ?thesis
    proof (cases ans)
      case (Inl t)
      with False call Cons.prems show ?thesis by auto
    next
      case (Inr created)
      let ?r1 = "r\<lparr>out := out r @ breakMsg cond created,
                   reqs := reqs r @ [CreateBreakpoint (breakRequest cond loc)], eng := s1\<rparr>"
      obtain cs1 where rest: "createAll e s1 (map (breakRequest cond)
            (filter (\<lambda>l. breakAddr l \<noteq> 0) locs)) = (cs1, er, s')" and cs: "cs = created # cs1"
        using Cons.prems False call Inr by (auto split: prod.splits)
      have "createAll e (eng ?r1) (map (breakRequest cond)
            (filter (\<lambda>l. breakAddr l \<noteq> 0) locs)) = (cs1, er, s')"
        using rest by simp
      from Cons.IH [OF this] False call Inr cs show ?thesis
        by (cases er) simp_all
    qed
  qed
qed


text \<open>
  Claim C2, as the claim states it, fails: the engine resolves \<^verbatim>\<open>runtime.nowhere\<close> to one
  location, the location carries no address, and the command neither creates a breakpoint
  nor fails.
\<close>

theorem C2_location_without_address_counterexample:
  "rpc_FindLocation countingEngine 0 (scopeFromState stoppedAtClamp) ''runtime.nowhere''
     = Inr [noAddrLoc]
   \<and> cmdBreak countingEngine 0 stoppedAtClamp [''runtime.nowhere''] =
       \<lparr>out = [], err = None,
        reqs = [FindLocation (scopeFromState stoppedAtClamp) ''runtime.nowhere''], eng = 0\<rparr>"
  by (simp add: cmdBreak_def countingEngine_def splitCond_def HasPrefix_def noAddrLoc_def
      breakAddr_def)

text \<open>
  Claim C2, amended. The joined arguments are split at the first \<^verbatim>\<open>" if "\<close>: what precedes
  it, trimmed, is the location sent to the engine for resolution, and what follows it,
  trimmed, is the condition. If no location resolves the command fails. Otherwise one
  breakpoint request is sent, in order, for every resolved location that carries an address
  (its \<^verbatim>\<open>PC\<close>, or else the first of its \<^verbatim>\<open>PCs\<close>); a location without an address is skipped.
  Every request carries the condition. As long as the engine accepts the requests, each
  created breakpoint is reported with the id and location the engine returned; the first
  refusal ends the command with the engine's error.
\<close>

theorem C2_break_per_location:
  assumes nonempty: "args \<noteq> []"
    and joined: "joined = Join args '' ''"
    and locspec: "locspec = fst (splitCond joined)"
    and cond: "cond = snd (splitCond joined)"
    and scope: "scope = scopeFromState state"
    and found: "rpc_FindLocation e s scope locspec = Inr locs"
    and bps: "bps = map (breakRequest cond) (filter (\<lambda>l. breakAddr l \<noteq> 0) locs)"
    and created: "createAll e s bps = (cs, er, s')"
    and R: "R = cmdBreak e s state args"
  shows
   "(\<not> Contains joined '' if '' \<longrightarrow> locspec = joined \<and> cond = [])
    \<and> (Contains joined '' if '' \<longrightarrow>
         (\<exists>pre post. joined = pre @ '' if '' @ post
            \<and> locspec = TrimSpace pre \<and> cond = TrimSpace post))
    \<and> (locs = [] \<longrightarrow>
         R = \<lparr>out = [], err = Some (''no location found for '' @ Quote locspec),
              reqs = [FindLocation scope locspec], eng = s\<rparr>)
    \<and> (locs \<noteq> [] \<and> er = None \<longrightarrow>
         length cs = length (filter (\<lambda>l. breakAddr l \<noteq> 0) locs)
         \<and> R = \<lparr>out = concat (map (breakMsg cond) cs), err = None,
                 reqs = FindLocation scope locspec # map CreateBreakpoint bps, eng = s'\<rparr>)
    \<and> (locs \<noteq> [] \<and> er = Some t \<longrightarrow>
         R = \<lparr>out = concat (map (breakMsg cond) cs), err = Some t,
              reqs = FindLocation scope locspec
                     # map CreateBreakpoint (take (Suc (length cs)) bps),
              eng = s'\<rparr>)
    \<and> (\<forall>bp \<in> set bps. bp_Cond bp = cond \<and> bp_Addr bp \<noteq> 0)"
proof -
  have split: "(\<not> Contains joined '' if '' \<longrightarrow> locspec = joined \<and> cond = [])
    \<and> (Contains joined '' if '' \<longrightarrow>
         (\<exists>pre post. joined = pre @ '' if '' @ post
            \<and> locspec = TrimSpace pre \<and> cond = TrimSpace post))"
  proof (cases "Contains joined '' if ''")
    case False
    with splitCond_cases [of joined] have "splitCond joined = (joined, [])"
      by blast
    with False show ?thesis
      by (simp add: locspec cond)
  next
    case True
    with splitCond_cases [of joined] obtain pre post
      where "joined = pre @ '' if '' @ post"
        and "splitCond joined = (TrimSpace pre, TrimSpace post)"
      by blast
    then have "joined = pre @ '' if '' @ post \<and> locspec = TrimSpace pre
        \<and> cond = TrimSpace post"
      by (simp add: locspec cond)
    then have "\<exists>pre post. joined = pre @ '' if '' @ post \<and> locspec = TrimSpace pre
        \<and> cond = TrimSpace post"
      by blast
    with True show ?thesis
      by blast
  qed
  have none: "locs = [] \<longrightarrow>
         R = \<lparr>out = [], err = Some (''no location found for '' @ Quote locspec),
              reqs = [FindLocation scope locspec], eng = s\<rparr>"
    using nonempty found
    by (simp add: R cmdBreak_def Let_def joined [symmetric] locspec [symmetric]
        scope [symmetric])
  let ?r0 = "\<lparr>out = [], err = None, reqs = [FindLocation scope locspec], eng = s\<rparr>"
  have loop: "locs \<noteq> [] \<Longrightarrow> R = cmdBreak_loop e cond locs ?r0"
    using nonempty found
    by (simp add: R cmdBreak_def Let_def joined [symmetric] locspec [symmetric]
        scope [symmetric] cond [symmetric])
  have "createAll e (eng ?r0) (map (breakRequest cond) (filter (\<lambda>l. breakAddr l \<noteq> 0) locs))
      = (cs, er, s')"
    using created bps by simp
  note fields = cmdBreak_loop_createAll [OF this]
  have ok: "locs \<noteq> [] \<and> er = None \<longrightarrow>
         length cs = length (filter (\<lambda>l. breakAddr l \<noteq> 0) locs)
         \<and> R = \<lparr>out = concat (map (breakMsg cond) cs), err = None,
                 reqs = FindLocation scope locspec # map CreateBreakpoint bps, eng = s'\<rparr>"
  proof
    assume h: "locs \<noteq> [] \<and> er = None"
    with fields have len: "length cs = length (filter (\<lambda>l. breakAddr l \<noteq> 0) locs)"
      by simp
    from h fields len have "out R = concat (map (breakMsg cond) cs)" "err R = None"
      "reqs R = FindLocation scope locspec # map CreateBreakpoint bps" "eng R = s'"
      by (simp_all add: loop bps)
    then have "R = \<lparr>out = concat (map (breakMsg cond) cs), err = None,
                 reqs = FindLocation scope locspec # map CreateBreakpoint bps, eng = s'\<rparr>"
      by (cases R) simp
    with len show "length cs = length (filter (\<lambda>l. breakAddr l \<noteq> 0) locs)
         \<and> R = \<lparr>out = concat (map (breakMsg cond) cs), err = None,
                 reqs = FindLocation scope locspec # map CreateBreakpoint bps, eng = s'\<rparr>"
      by simp
  qed
  have refused: "locs \<noteq> [] \<and> er = Some t \<longrightarrow>
         R = \<lparr>out = concat (map (breakMsg cond) cs), err = Some t,
              reqs = FindLocation scope locspec
                     # map CreateBreakpoint (take (Suc (length cs)) bps),
              eng = s'\<rparr>"
  proof
    assume h: "locs \<noteq> [] \<and> er = Some t"
    with fields have "out R = concat (map (breakMsg cond) cs)" "err R = Some t"
      "reqs R = FindLocation scope locspec # map CreateBreakpoint (take (Suc (length cs)) bps)"
      "eng R = s'"
      by (simp_all add: loop bps)
    then show "R = \<lparr>out = concat (map (breakMsg cond) cs), err = Some t,
              reqs = FindLocation scope locspec
                     # map CreateBreakpoint (take (Suc (length cs)) bps),
              eng = s'\<rparr>"
      by (cases R) simp
  qed
  have carried: "\<forall>bp \<in> set bps. bp_Cond bp = cond \<and> bp_Addr bp \<noteq> 0"
    by (auto simp: bps breakRequest_def)
  from split have s1: "\<not> Contains joined '' if '' \<longrightarrow> locspec = joined \<and> cond = []"
    and s2: "Contains joined '' if '' \<longrightarrow>
         (\<exists>pre post. joined = pre @ '' if '' @ post
            \<and> locspec = TrimSpace pre \<and> cond = TrimSpace post)"
    by blast+
  from s1 s2 none ok refused carried show ?thesis
    by (intro conjI)
qed



text \<open>
  C2 at the scenario engine: \<^verbatim>\<open>break main.Filter if lo == 10\<close> resolves to two locations,
  the second with its address in \<^verbatim>\<open>PCs\<close>, and creates the breakpoints 1 and 2.
\<close>

theorem C2_break_per_location_witness:
  "[''main.Filter'', ''if'', ''lo'', ''=='', ''10''] \<noteq> []
   \<and> Contains ''main.Filter if lo == 10'' '' if ''
   \<and> rpc_FindLocation countingEngine 0 (scopeFromState stoppedAtClamp) ''main.Filter''
       = Inr filterLocs
   \<and> filterLocs \<noteq> []
   \<and> cmdBreak countingEngine 0 stoppedAtClamp [''main.Filter'', ''if'', ''lo'', ''=='', ''10''] =
       \<lparr>out = ''breakpoint 1 at pipeline.go:12 (addr 0x400e70) if lo == 10'' @ [CHR 0x0A]
              @ ''breakpoint 2 at pipeline.go:12 (addr 0x401258) if lo == 10'' @ [CHR 0x0A],
        err = None,
        reqs = [FindLocation (scopeFromState stoppedAtClamp) ''main.Filter'',
                CreateBreakpoint \<lparr>bp_ID = 0, bp_Addr = 4198000, bp_File = ''pipeline.go'',
                   bp_Line = 12, bp_Cond = ''lo == 10'', bp_Disabled = False\<rparr>,
                CreateBreakpoint \<lparr>bp_ID = 0, bp_Addr = 4199000, bp_File = ''pipeline.go'',
                   bp_Line = 12, bp_Cond = ''lo == 10'', bp_Disabled = False\<rparr>],
        eng = 2\<rparr>"
proof -
  let ?args = "[''main.Filter'', ''if'', ''lo'', ''=='', ''10'']"
  let ?scope = "scopeFromState stoppedAtClamp"
  let ?b1 = "\<lparr>bp_ID = 0, bp_Addr = 4198000, bp_File = ''pipeline.go'',
                   bp_Line = 12, bp_Cond = ''lo == 10'', bp_Disabled = False\<rparr>"
  let ?b2 = "\<lparr>bp_ID = 0, bp_Addr = 4199000, bp_File = ''pipeline.go'',
                   bp_Line = 12, bp_Cond = ''lo == 10'', bp_Disabled = False\<rparr>"
  let ?c1 = "\<lparr>bp_ID = 1, bp_Addr = 4198000, bp_File = ''pipeline.go'',
                   bp_Line = 12, bp_Cond = ''lo == 10'', bp_Disabled = False\<rparr>"
  let ?c2 = "\<lparr>bp_ID = 2, bp_Addr = 4199000, bp_File = ''pipeline.go'',
                   bp_Line = 12, bp_Cond = ''lo == 10'', bp_Disabled = False\<rparr>"
  have a: "?args \<noteq> []" by simp
  have j: "''main.Filter if lo == 10'' = Join ?args '' ''"
    by simp
  have sc: "splitCond ''main.Filter if lo == 10'' = (''main.Filter'', ''lo == 10'')"
    by (simp add: splitCond_def HasPrefix_def TrimSpace_def stripRunes.simps spaceRunes_def)
  have l: "''main.Filter'' = fst (splitCond ''main.Filter if lo == 10'')"
    and k: "''lo == 10'' = snd (splitCond ''main.Filter if lo == 10'')"
    by (simp_all add: sc)
  have c: "Contains ''main.Filter if lo == 10'' '' if ''"
    by (simp add: HasPrefix_def)
  have f: "rpc_FindLocation countingEngine 0 ?scope ''main.Filter'' = Inr filterLocs"
    by (simp add: countingEngine_def)
  have ne: "filterLocs \<noteq> []"
    by (simp add: filterLocs_def)
  have b: "[?b1, ?b2] = map (breakRequest ''lo == 10'') (filter (\<lambda>l. breakAddr l \<noteq> 0) filterLocs)"
    by (simp add: filterLocs_def breakAddr_def breakRequest_def)
  have e1: "rpc_CreateBreakpoint countingEngine 0 ?b1 = (Inr ?c1, Suc 0)"
    by (simp add: countingEngine_def)
  have e2: "rpc_CreateBreakpoint countingEngine (Suc 0) ?b2 = (Inr ?c2, 2)"
    by (simp add: countingEngine_def)
  have cr: "createAll countingEngine 0 [?b1, ?b2] = ([?c1, ?c2], None, 2)"
    by (simp add: e1 e2)
  note th = C2_break_per_location [OF a j l k refl f b cr refl]
  have pre: "filterLocs \<noteq> [] \<and> (None :: string option) = None"
    using ne by simp
  note th4 = th [THEN conjunct2, THEN conjunct2, THEN conjunct2, THEN conjunct1]
  have "cmdBreak countingEngine 0 stoppedAtClamp ?args =
          \<lparr>out = concat (map (breakMsg ''lo == 10'') [?c1, ?c2]), err = None,
           reqs = FindLocation ?scope ''main.Filter'' # map CreateBreakpoint [?b1, ?b2],
           eng = 2\<rparr>"
    by (rule th4 [THEN mp, OF pre, THEN conjunct2])
  moreover have "concat (map (breakMsg ''lo == 10'') [?c1, ?c2]) =
      ''breakpoint 1 at pipeline.go:12 (addr 0x400e70) if lo == 10'' @ [CHR 0x0A]
      @ ''breakpoint 2 at pipeline.go:12 (addr 0x401258) if lo == 10'' @ [CHR 0x0A]"
    by (simp add: breakMsg_def fmt_d_def fmt_x_def digitChar_def)
  ultimately have r: "cmdBreak countingEngine 0 stoppedAtClamp ?args =
       \<lparr>out = ''breakpoint 1 at pipeline.go:12 (addr 0x400e70) if lo == 10'' @ [CHR 0x0A]
              @ ''breakpoint 2 at pipeline.go:12 (addr 0x401258) if lo == 10'' @ [CHR 0x0A],
        err = None,
        reqs = [FindLocation ?scope ''main.Filter'', CreateBreakpoint ?b1, CreateBreakpoint ?b2],
        eng = 2\<rparr>"
    by simp
  from a c f ne r show ?thesis
    by (intro conjI)
qed

subsection \<open>The table repair pass\<close>











subsection \<open>Trace rows\<close>

lemma HasPrefix_appendI: "HasPrefix a s \<Longrightarrow> HasPrefix (a @ b) s"
proof -
  assume "HasPrefix a s"
  then have t: "take (length s) a = s"
    by (simp add: HasPrefix_def)
  have "length (take (length s) a) = min (length a) (length s)"
    by simp
  with t have "length s \<le> length a"
    by simp
  with t show ?thesis
    by (simp add: HasPrefix_def)
qed

lemma Contains_appendI: "Contains a s \<Longrightarrow> Contains (a @ b) s"
proof (induction a)
  case Nil
  then show ?case by (cases b) (simp_all add: HasPrefix_def)
next
  case (Cons c a)
  then show ?case
    using HasPrefix_appendI [of "c # a" s b] by auto
qed

lemma traceHeader_Contains: "Contains (old @ traceHeader @ t) ''## Debugging Trace''"
proof -
  have "old @ traceHeader @ t = old @ ''## Debugging Trace''
      @ ([CHR 0x0A, CHR 0x0A] @ ''| # | Action | Location | Reasoning |'' @ [CHR 0x0A]
         @ ''| - | ------ | -------- | --------- |'' @ [CHR 0x0A] @ t)"
    by (simp add: traceHeader_def)
  then show ?thesis
    by (simp only: Contains_append)
qed

lemma fileContains_contentOf:
  "fileContains w path s = Contains (contentOf w (resolve w path)) s"
  by (simp add: fileContains_def ReadFile_def contentOf_def split: option.splits)

lemma cmdReportTraceRow_step:
  "\<not> denied w (resolve w (rfile dir reportTraceFile)) \<Longrightarrow>
   cmdReportTraceRow w (Inr (f, [dir])) =
     (traceRowDone f,
      w\<lparr>files := (files w)(resolve w (rfile dir reportTraceFile) \<mapsto>
           contentOf w (resolve w (rfile dir reportTraceFile))
           @ (if Contains (contentOf w (resolve w (rfile dir reportTraceFile)))
                   ''## Debugging Trace''
              then [] else traceHeader)
           @ traceRowText f)\<rparr>)"
  by (simp add: cmdReportTraceRow_def appendToFile_def fileContains_contentOf Let_def
      traceRowDone_def contentOf_def)


lemma traceRowRuns_general:
  "\<not> denied w (resolve w (rfile dir reportTraceFile)) \<Longrightarrow>
   traceRowRuns w dir fs =
     (map traceRowDone fs,
      if fs = [] then w
      else w\<lparr>files := (files w)(resolve w (rfile dir reportTraceFile) \<mapsto>
             contentOf w (resolve w (rfile dir reportTraceFile))
             @ (if Contains (contentOf w (resolve w (rfile dir reportTraceFile)))
                     ''## Debugging Trace''
                then [] else traceHeader)
             @ concat (map traceRowText fs))\<rparr>)"
proof (induction fs arbitrary: w)
  case Nil
  show ?case by simp
next
  case (Cons f fs)
  let ?p = "resolve w (rfile dir reportTraceFile)"
  let ?old = "contentOf w ?p"
  let ?h = "if Contains ?old ''## Debugging Trace'' then [] else traceHeader"
  let ?w1 = "w\<lparr>files := (files w)(?p \<mapsto> ?old @ ?h @ traceRowText f)\<rparr>"
  have step: "cmdReportTraceRow w (Inr (f, [dir])) = (traceRowDone f, ?w1)"
    using Cons.prems by (rule cmdReportTraceRow_step)
  have res: "resolve ?w1 = resolve w"
    by (simp add: resolve_def fun_eq_iff)
  have den: "\<not> denied ?w1 (resolve ?w1 (rfile dir reportTraceFile))"
    using Cons.prems by (simp add: res)
  have c1: "contentOf ?w1 ?p = ?old @ ?h @ traceRowText f"
    by (simp add: contentOf_def)
  have has: "Contains (?old @ ?h @ traceRowText f) ''## Debugging Trace''"
  proof (cases "Contains ?old ''## Debugging Trace''")
    case True
    then show ?thesis
      by (simp add: Contains_appendI)
  next
    case False
    then show ?thesis
      using traceHeader_Contains [of ?old "traceRowText f"] by simp
  qed
  show ?case
  proof (cases "fs = []")
    case True
    then show ?thesis
      by (simp add: step)
  next
    case False
    from Cons.IH [OF den] False
    have "traceRowRuns ?w1 dir fs =
       (map traceRowDone fs,
        ?w1\<lparr>files := (files ?w1)(?p \<mapsto>
            (?old @ ?h @ traceRowText f) @ concat (map traceRowText fs))\<rparr>)"
      unfolding res c1 using has by simp
    then show ?thesis
      by (simp add: step)
  qed
qed


text \<open>
  Claim C5. Let the trace fragment of a directory be writable. \<open>N \<ge> 1\<close> separate
  \<^verbatim>\<open>report-trace-row\<close> invocations on a fragment that does not yet hold the section header
  all succeed and leave what the fragment held before, then the section header with the
  table's header and separator rows once, then the \<open>N\<close> rows in invocation order; on an
  absent fragment that is the header followed by the rows. A single invocation keeps what
  the fragment holds and appends a text that depends on it only through the header-presence
  check: the row, preceded by the header when the check fails.
\<close>

theorem C5_trace_rows_one_header:
  assumes writable: "\<not> denied w p"
    and p: "p = resolve w (rfile dir reportTraceFile)"
  shows
   "(fs \<noteq> [] \<and> \<not> fileContains w (rfile dir reportTraceFile) ''## Debugging Trace'' \<longrightarrow>
       traceRowRuns w dir fs =
         (map traceRowDone fs,
          w\<lparr>files := (files w)(p \<mapsto>
               contentOf w p @ traceHeader @ concat (map traceRowText fs))\<rparr>))
    \<and> (fs \<noteq> [] \<and> files w p = None \<longrightarrow>
       files (snd (traceRowRuns w dir fs)) p
         = Some (traceHeader @ concat (map traceRowText fs)))
    \<and> cmdReportTraceRow w (Inr (f, [dir])) =
         (traceRowDone f,
          w\<lparr>files := (files w)(p \<mapsto>
               contentOf w p
               @ (if fileContains w (rfile dir reportTraceFile) ''## Debugging Trace''
                  then [] else traceHeader)
               @ traceRowText f)\<rparr>)"
proof -
  from writable p have d: "\<not> denied w (resolve w (rfile dir reportTraceFile))"
    by simp
  note runs = traceRowRuns_general [OF d, of fs]
  have many: "fs \<noteq> [] \<and> \<not> fileContains w (rfile dir reportTraceFile) ''## Debugging Trace''
      \<longrightarrow> traceRowRuns w dir fs =
         (map traceRowDone fs,
          w\<lparr>files := (files w)(p \<mapsto>
               contentOf w p @ traceHeader @ concat (map traceRowText fs))\<rparr>)"
    using runs by (simp add: p fileContains_contentOf)
  have fresh: "fs \<noteq> [] \<and> files w p = None \<longrightarrow>
       files (snd (traceRowRuns w dir fs)) p
         = Some (traceHeader @ concat (map traceRowText fs))"
    using runs by (simp add: p contentOf_def)
  have one: "cmdReportTraceRow w (Inr (f, [dir])) =
         (traceRowDone f,
          w\<lparr>files := (files w)(p \<mapsto>
               contentOf w p
               @ (if fileContains w (rfile dir reportTraceFile) ''## Debugging Trace''
                  then [] else traceHeader)
               @ traceRowText f)\<rparr>)"
    using cmdReportTraceRow_step [OF d, of f] by (simp add: p fileContains_contentOf)
  from many fresh one show ?thesis
    by (intro conjI)
qed

text \<open>
  C5 in the scenario world: two invocations on a new artifact directory leave the header
  once and the two rows in order.
\<close>

theorem C5_trace_rows_witness:
  "\<not> denied sessionWorld ''/home/dev/proj/.debug_1/10_trace.md''
   \<and> files sessionWorld ''/home/dev/proj/.debug_1/10_trace.md'' = None
   \<and> files (snd (traceRowRuns sessionWorld ''.debug_1''
          [\<lparr>f_n = 1, f_action = ''set'', f_loc = ''pipeline.go:27'', f_reason = ''clamp guard''\<rparr>,
           \<lparr>f_n = 2, f_action = ''hit'', f_loc = ''pipeline.go:27'', f_reason = ''start=12''\<rparr>]))
        ''/home/dev/proj/.debug_1/10_trace.md''
     = Some (''## Debugging Trace'' @ [CHR 0x0A, CHR 0x0A]
             @ ''| # | Action | Location | Reasoning |'' @ [CHR 0x0A]
             @ ''| - | ------ | -------- | --------- |'' @ [CHR 0x0A]
             @ ''| 1 | set | '' @ [CHR 0x60] @ ''pipeline.go:27'' @ [CHR 0x60]
             @ '' | clamp guard |'' @ [CHR 0x0A]
             @ ''| 2 | hit | '' @ [CHR 0x60] @ ''pipeline.go:27'' @ [CHR 0x60]
             @ '' | start=12 |'' @ [CHR 0x0A])"
proof -
  let ?p = "''/home/dev/proj/.debug_1/10_trace.md''"
  let ?fs = "[\<lparr>f_n = 1, f_action = ''set'', f_loc = ''pipeline.go:27'', f_reason = ''clamp guard''\<rparr>,
           \<lparr>f_n = 2, f_action = ''hit'', f_loc = ''pipeline.go:27'', f_reason = ''start=12''\<rparr>]"
  have w: "\<not> denied sessionWorld ?p"
    by (simp add: sessionWorld_def)
  have p: "?p = resolve sessionWorld (rfile ''.debug_1'' reportTraceFile)"
    by (simp add: resolve_def rfile_def reportTraceFile_def sessionWorld_def FJoin_def
        Clean_def HasPrefix_def cleanPush_def)
  have a: "files sessionWorld ?p = None"
    by (simp add: sessionWorld_def)
  have pre: "?fs \<noteq> [] \<and> files sessionWorld ?p = None"
    using a by simp
  note th = C5_trace_rows_one_header [OF w p, of ?fs]
  have "files (snd (traceRowRuns sessionWorld ''.debug_1'' ?fs)) ?p
      = Some (traceHeader @ concat (map traceRowText ?fs))"
    by (rule th [THEN conjunct2, THEN conjunct1, THEN mp, OF pre])
  then have r: "files (snd (traceRowRuns sessionWorld ''.debug_1'' ?fs)) ?p
     = Some (''## Debugging Trace'' @ [CHR 0x0A, CHR 0x0A]
             @ ''| # | Action | Location | Reasoning |'' @ [CHR 0x0A]
             @ ''| - | ------ | -------- | --------- |'' @ [CHR 0x0A]
             @ ''| 1 | set | '' @ [CHR 0x60] @ ''pipeline.go:27'' @ [CHR 0x60]
             @ '' | clamp guard |'' @ [CHR 0x0A]
             @ ''| 2 | hit | '' @ [CHR 0x60] @ ''pipeline.go:27'' @ [CHR 0x60]
             @ '' | start=12 |'' @ [CHR 0x0A])"
    by (simp add: traceHeader_def traceRowText_def fmt_d_def digitChar_def)
  from w a r show ?thesis
    by (intro conjI)
qed

subsection \<open>The fragments of the report\<close>

lemma selectLoop_filter:
  "selectLoop entries mdFiles = mdFiles @ map d_Name (filter isReportFragment entries)"
  by (induction entries arbitrary: mdFiles) (auto simp: isReportFragment_def)

lemma Join_snoc: "xs \<noteq> [] \<Longrightarrow> Join (xs @ [x]) sep = Join xs sep @ sep @ x"
proof (induction xs)
  case Nil
  then show ?case by simp
next
  case (Cons y ys)
  then show ?case by (cases ys) auto
qed

lemma bodyLoop_Join:
  "\<forall>name \<in> set names. files w (resolve w (FJoin [dbgDir, name])) \<noteq> None \<Longrightarrow>
   length seen = i \<Longrightarrow> mdBody = Join (map (fragmentText w dbgDir) seen) [CHR 0x0A, CHR 0x0A] \<Longrightarrow>
   bodyLoop w dbgDir names i mdBody
     = Inr (Join (map (fragmentText w dbgDir) (seen @ names)) [CHR 0x0A, CHR 0x0A])"
proof (induction names arbitrary: i mdBody seen)
  case Nil
  then show ?case by simp
next
  case (Cons name names)
  from Cons.prems(1) obtain c where c: "files w (resolve w (FJoin [dbgDir, name])) = Some c"
    by auto
  then have t: "fragmentText w dbgDir name = c"
    by (simp add: fragmentText_def contentOf_def)
  let ?b = "(if i > 0 then mdBody @ [CHR 0x0A, CHR 0x0A] else mdBody) @ c"
  have b: "?b = Join (map (fragmentText w dbgDir) (seen @ [name])) [CHR 0x0A, CHR 0x0A]"
  proof (cases "seen = []")
    case True
    with Cons.prems show ?thesis by (simp add: t)
  next
    case False
    with Cons.prems have "i > 0" by auto
    with False Cons.prems show ?thesis
      by (simp add: t Join_snoc)
  qed
  have "bodyLoop w dbgDir names (Suc i) ?b
      = Inr (Join (map (fragmentText w dbgDir) ((seen @ [name]) @ names)) [CHR 0x0A, CHR 0x0A])"
    using Cons.prems by (intro Cons.IH) (simp_all add: b)
  then show ?case
    using c by (simp add: ReadFile_def)
qed


text \<open>
  Claim C6. From the entries of the directory the assembler selects, in listing order,
  exactly the report fragments: the files whose name ends in \<^verbatim>\<open>.md\<close> that are no
  dot-file, no \<^verbatim>\<open>frag_\<close> template and not \<^verbatim>\<open>99_checklist.md\<close>. If none is left it fails with
  an error that names the directory. Otherwise it sorts the names in byte order and, when
  every selected file can be read, returns their contents in that order with a blank line
  (two line feeds) between consecutive fragments, and their number.
\<close>

theorem C6_fragments_selected_sorted_joined:
  assumes listing: "readDir dbgDir = Inr entries"
    and names: "names = map d_Name (filter isReportFragment entries)"
  shows
   "selectLoop entries [] = names
    \<and> (names = [] \<longrightarrow>
         MDToTex_fragments w readDir dbgDir = Inl (''no .md files found in '' @ dbgDir))
    \<and> (names \<noteq> []
         \<and> (\<forall>name \<in> set names. files w (resolve w (FJoin [dbgDir, name])) \<noteq> None) \<longrightarrow>
         MDToTex_fragments w readDir dbgDir =
           Inr (Join (map (fragmentText w dbgDir) (sort names)) [CHR 0x0A, CHR 0x0A],
                length names))
    \<and> sorted (sort names) \<and> set (sort names) = set names
    \<and> length (sort names) = length names"
proof -
  have sel: "selectLoop entries [] = names"
    by (simp add: selectLoop_filter names)
  have none: "names = [] \<longrightarrow>
         MDToTex_fragments w readDir dbgDir = Inl (''no .md files found in '' @ dbgDir)"
    by (simp add: MDToTex_fragments_def listing sel)
  have some: "names \<noteq> []
         \<and> (\<forall>name \<in> set names. files w (resolve w (FJoin [dbgDir, name])) \<noteq> None) \<longrightarrow>
         MDToTex_fragments w readDir dbgDir =
           Inr (Join (map (fragmentText w dbgDir) (sort names)) [CHR 0x0A, CHR 0x0A],
                length names)"
  proof
    assume h: "names \<noteq> []
         \<and> (\<forall>name \<in> set names. files w (resolve w (FJoin [dbgDir, name])) \<noteq> None)"
    then have "\<forall>name \<in> set (sort names). files w (resolve w (FJoin [dbgDir, name])) \<noteq> None"
      by simp
    then have "bodyLoop w dbgDir (sort names) 0 []
        = Inr (Join (map (fragmentText w dbgDir) ([] @ sort names)) [CHR 0x0A, CHR 0x0A])"
      by (rule bodyLoop_Join) simp_all
    with h show "MDToTex_fragments w readDir dbgDir =
           Inr (Join (map (fragmentText w dbgDir) (sort names)) [CHR 0x0A, CHR 0x0A],
                length names)"
      by (simp add: MDToTex_fragments_def listing sel)
  qed
  have ord: "sorted (sort names) \<and> set (sort names) = set names
      \<and> length (sort names) = length names"
    by simp
  from sel none some ord show ?thesis
    by (intro conjI) simp_all
qed

text \<open>
  C6 on an artifact directory that holds three fragments among other entries, and on one
  that holds the checklist only.
\<close>

theorem C6_fragments_witness:
  "artifactListing ''.debug_1'' \<noteq> Inr []
   \<and> MDToTex_fragments artifactWorld artifactListing ''.debug_1'' =
       Inr (''# Debug Report'' @ [CHR 0x0A] @ [CHR 0x0A, CHR 0x0A]
            @ ''## Debugging Trace'' @ [CHR 0x0A] @ [CHR 0x0A, CHR 0x0A]
            @ ''## Root Cause'' @ [CHR 0x0A], 3)
   \<and> MDToTex_fragments artifactWorld artifactListing ''.debug_2'' =
       Inl ''no .md files found in .debug_2''"
proof -
  let ?es = "[\<lparr>d_Name = ''90_conclusion.md'', d_IsDir = False\<rparr>,
             \<lparr>d_Name = ''.dlv'', d_IsDir = True\<rparr>,
             \<lparr>d_Name = ''.notes.md'', d_IsDir = False\<rparr>,
             \<lparr>d_Name = ''00_report.md'', d_IsDir = False\<rparr>,
             \<lparr>d_Name = ''99_checklist.md'', d_IsDir = False\<rparr>,
             \<lparr>d_Name = ''frag_breakpoint.md'', d_IsDir = False\<rparr>,
             \<lparr>d_Name = ''debug_report.tex'', d_IsDir = False\<rparr>,
             \<lparr>d_Name = ''10_TRACE.MD'', d_IsDir = False\<rparr>]"
  let ?es2 = "[\<lparr>d_Name = ''99_checklist.md'', d_IsDir = False\<rparr>,
             \<lparr>d_Name = ''styles.tex'', d_IsDir = False\<rparr>]"
  let ?names = "[''90_conclusion.md'', ''00_report.md'', ''10_TRACE.MD'']"
  have l1: "artifactListing ''.debug_1'' = Inr ?es"
    by (simp add: artifactListing_def)
  have l2: "artifactListing ''.debug_2'' = Inr ?es2"
    by (simp add: artifactListing_def)
  have n1: "?names = map d_Name (filter isReportFragment ?es)"
    by (simp add: isReportFragment_def HasPrefix_def HasSuffix_def ToLower.simps lowerByte_def)
  have n2: "[] = map d_Name (filter isReportFragment ?es2)"
    by (simp add: isReportFragment_def HasPrefix_def HasSuffix_def ToLower.simps lowerByte_def)
  have srt: "sort ?names = [''00_report.md'', ''10_TRACE.MD'', ''90_conclusion.md'']"
    by simp
  have rd: "?names \<noteq> [] \<and> (\<forall>name \<in> set ?names.
      files artifactWorld (resolve artifactWorld (FJoin [''.debug_1'', name])) \<noteq> None)"
    by (simp add: artifactWorld_def resolve_def FJoin_def Clean_def HasPrefix_def cleanPush_def)
  note th1 = C6_fragments_selected_sorted_joined
    [where readDir = artifactListing and dbgDir = "''.debug_1''" and w = artifactWorld,
      OF l1 n1]
  have "MDToTex_fragments artifactWorld artifactListing ''.debug_1'' =
      Inr (Join (map (fragmentText artifactWorld ''.debug_1'') (sort ?names)) [CHR 0x0A, CHR 0x0A],
           length ?names)"
    by (rule th1 [THEN conjunct2, THEN conjunct2, THEN conjunct1, THEN mp, OF rd])
  then have w1: "MDToTex_fragments artifactWorld artifactListing ''.debug_1'' =
       Inr (''# Debug Report'' @ [CHR 0x0A] @ [CHR 0x0A, CHR 0x0A]
            @ ''## Debugging Trace'' @ [CHR 0x0A] @ [CHR 0x0A, CHR 0x0A]
            @ ''## Root Cause'' @ [CHR 0x0A], 3)"
    unfolding srt
    by (simp add: fragmentText_def contentOf_def artifactWorld_def resolve_def FJoin_def
        Clean_def HasPrefix_def cleanPush_def)
  note th2 = C6_fragments_selected_sorted_joined
    [where readDir = artifactListing and dbgDir = "''.debug_2''" and w = artifactWorld,
      OF l2 n2]
  have "MDToTex_fragments artifactWorld artifactListing ''.debug_2'' =
      Inl (''no .md files found in '' @ ''.debug_2'')"
    by (rule th2 [THEN conjunct2, THEN conjunct1, THEN mp, OF refl])
  then have w2: "MDToTex_fragments artifactWorld artifactListing ''.debug_2'' =
       Inl ''no .md files found in .debug_2''"
    by simp
  have ne: "artifactListing ''.debug_1'' \<noteq> Inr []"
    by (simp add: l1)
  from ne w1 w2 show ?thesis
    by (intro conjI)
qed

subsection \<open>Compiling the report\<close>

lemma compileLoop_twice:
  "compileLoop ps dbgDir 0 r =
     (let a = runCmd ps pdflatexArgv dbgDir (files (t_world r));
          b = runCmd ps pdflatexArgv dbgDir (snd a)
      in r\<lparr>t_out := t_out r @ fst a @ fst b,
           t_runs := t_runs r @ [(pdflatexArgv, dbgDir), (pdflatexArgv, dbgDir)],
           t_world := (t_world r)\<lparr>files := snd b\<rparr>\<rparr>)"
proof -
  obtain pa fa where a: "runCmd ps pdflatexArgv dbgDir (files (t_world r)) = (pa, fa)"
    by (cases "runCmd ps pdflatexArgv dbgDir (files (t_world r))")
  obtain pb fb where b: "runCmd ps pdflatexArgv dbgDir fa = (pb, fb)"
    by (cases "runCmd ps pdflatexArgv dbgDir fa")
  have two: "\<not> (2::nat) < 2" "Suc (Suc 0) = 2"
    by simp_all
  show ?thesis
    by (simp add: compileLoop.simps [of _ _ 0] compileLoop.simps [of _ _ "Suc 0"]
        compileLoop.simps [of _ _ "Suc (Suc 0)"] a b Let_def)
qed


lemma resolve_files [simp]: "resolve (w\<lparr>files := fs\<rparr>) p = resolve w p"
  by (simp add: resolve_def)

text \<open>
  Claim C8, as the claim states it, fails. A compiler that leaves an empty
  \<^verbatim>\<open>debug_report.pdf\<close> passes the check although the artifact is trivial; and when a
  document of an earlier run is there, a compiler that fails twice and writes nothing
  passes it as well, although nothing was produced.
\<close>

theorem C8_existence_only_counterexample:
  "t_err (TexToPDF emptyPdfCompiler artifactWorld ''.debug_1'') = None
   \<and> \<not> nonTrivialArtifact (t_world (TexToPDF emptyPdfCompiler artifactWorld ''.debug_1''))
         ''.debug_1/debug_report.pdf''
   \<and> t_err (TexToPDF failingCompiler stalePdfWorld ''.debug_1'') = None
   \<and> files (t_world (TexToPDF failingCompiler stalePdfWorld ''.debug_1''))
         ''/home/dev/proj/.debug_1/debug_report.pdf''
       = files stalePdfWorld ''/home/dev/proj/.debug_1/debug_report.pdf''"
  by (simp add: TexToPDF_def ensureReportTemplates_def reportTemplates_def emptyPdfCompiler_def
      failingCompiler_def stalePdfWorld_def artifactWorld_def WriteFile_def Stat_def
      compileLoop_twice nonTrivialArtifact_def resolve_def FJoin_def Clean_def HasPrefix_def
      cleanPush_def Let_def)


text \<open>
  Claim C8, amended. If the templates cannot be written or \<^verbatim>\<open>pdflatex\<close> is not found, the
  assembler fails without running the compiler. Otherwise it runs \<^verbatim>\<open>pdflatex\<close> on
  \<^verbatim>\<open>debug_report.tex\<close> in the artifact directory exactly twice, the second run on the files
  the first one left, whatever the runs report, and then checks that a file exists at
  \<^verbatim>\<open>debug_report.pdf\<close> in that directory: if none exists it fails with an error that names
  that path; if one exists, of any size and whether or not these runs wrote it, it reports
  the document compiled.
\<close>

theorem C8_TexToPDF_two_runs_then_exists:
  assumes w1: "w1 = snd (ensureReportTemplates ps w dbgDir)"
    and a: "a = runCmd ps pdflatexArgv dbgDir (files w1)"
    and b: "b = runCmd ps pdflatexArgv dbgDir (snd a)"
    and pdf: "pdfPath = FJoin [dbgDir, ''debug_report.pdf'']"
    and R: "R = TexToPDF ps w dbgDir"
  shows
   "(fst (ensureReportTemplates ps w dbgDir) = Some e \<longrightarrow>
       t_err R = Some e \<and> t_runs R = [])
    \<and> (fst (ensureReportTemplates ps w dbgDir) = None \<and> lookPath ps ''pdflatex'' = None \<longrightarrow>
       t_err R \<noteq> None \<and> t_runs R = [])
    \<and> (fst (ensureReportTemplates ps w dbgDir) = None \<and> lookPath ps ''pdflatex'' = Some exe \<longrightarrow>
       t_runs R = [(pdflatexArgv, dbgDir), (pdflatexArgv, dbgDir)]
       \<and> t_world R = w1\<lparr>files := snd b\<rparr>
       \<and> (snd b (resolve w1 pdfPath) = None \<longrightarrow>
            t_err R = Some (''pdflatex did not produce '' @ pdfPath @ '': stat '' @ pdfPath
                            @ '': no such file or directory'')
            \<and> t_out R = fst a @ fst b)
       \<and> (snd b (resolve w1 pdfPath) \<noteq> None \<longrightarrow>
            t_err R = None
            \<and> t_out R = fst a @ fst b @ ''compiled '' @ pdfPath @ [CHR 0x0A]))"
proof -
  obtain r0 where e: "ensureReportTemplates ps w dbgDir = (r0, w1)"
    using w1 by (cases "ensureReportTemplates ps w dbgDir") simp
  have c1: "fst (ensureReportTemplates ps w dbgDir) = Some e \<longrightarrow>
       t_err R = Some e \<and> t_runs R = []"
    by (simp add: R TexToPDF_def e)
  have c2: "fst (ensureReportTemplates ps w dbgDir) = None \<and> lookPath ps ''pdflatex'' = None \<longrightarrow>
       t_err R \<noteq> None \<and> t_runs R = []"
    by (simp add: R TexToPDF_def e)
  have c3: "fst (ensureReportTemplates ps w dbgDir) = None \<and> lookPath ps ''pdflatex'' = Some exe \<longrightarrow>
       t_runs R = [(pdflatexArgv, dbgDir), (pdflatexArgv, dbgDir)]
       \<and> t_world R = w1\<lparr>files := snd b\<rparr>
       \<and> (snd b (resolve w1 pdfPath) = None \<longrightarrow>
            t_err R = Some (''pdflatex did not produce '' @ pdfPath @ '': stat '' @ pdfPath
                            @ '': no such file or directory'')
            \<and> t_out R = fst a @ fst b)
       \<and> (snd b (resolve w1 pdfPath) \<noteq> None \<longrightarrow>
            t_err R = None
            \<and> t_out R = fst a @ fst b @ ''compiled '' @ pdfPath @ [CHR 0x0A])"
  proof
    assume h: "fst (ensureReportTemplates ps w dbgDir) = None \<and> lookPath ps ''pdflatex'' = Some exe"
    with e have e': "ensureReportTemplates ps w dbgDir = (None, w1)"
      by simp
    obtain pa fa where a': "runCmd ps pdflatexArgv dbgDir (files w1) = (pa, fa)"
      by (cases "runCmd ps pdflatexArgv dbgDir (files w1)")
    obtain pb fb where b': "runCmd ps pdflatexArgv dbgDir fa = (pb, fb)"
      by (cases "runCmd ps pdflatexArgv dbgDir fa")
    from a a' have av: "a = (pa, fa)" by simp
    from b b' av have bv: "b = (pb, fb)" by simp
    have loop: "compileLoop ps dbgDir 0 \<lparr>t_out = [], t_err = None, t_runs = [], t_world = w1\<rparr>
        = \<lparr>t_out = pa @ pb, t_err = None,
           t_runs = [(pdflatexArgv, dbgDir), (pdflatexArgv, dbgDir)],
           t_world = w1\<lparr>files := fb\<rparr>\<rparr>"
      by (simp add: compileLoop_twice a' b')
    have run: "R = (case Stat (w1\<lparr>files := fb\<rparr>) pdfPath of
                     Some e \<Rightarrow>
                       \<lparr>t_out = pa @ pb,
                        t_err = Some (''pdflatex did not produce '' @ pdfPath @ '': '' @ e),
                        t_runs = [(pdflatexArgv, dbgDir), (pdflatexArgv, dbgDir)],
                        t_world = w1\<lparr>files := fb\<rparr>\<rparr>
                   | None \<Rightarrow>
                       \<lparr>t_out = pa @ pb @ ''compiled '' @ pdfPath @ [CHR 0x0A], t_err = None,
                        t_runs = [(pdflatexArgv, dbgDir), (pdflatexArgv, dbgDir)],
                        t_world = w1\<lparr>files := fb\<rparr>\<rparr>)"
      using h by (simp add: R TexToPDF_def e' Let_def loop pdf [symmetric] split: option.splits)
    show "t_runs R = [(pdflatexArgv, dbgDir), (pdflatexArgv, dbgDir)]
       \<and> t_world R = w1\<lparr>files := snd b\<rparr>
       \<and> (snd b (resolve w1 pdfPath) = None \<longrightarrow>
            t_err R = Some (''pdflatex did not produce '' @ pdfPath @ '': stat '' @ pdfPath
                            @ '': no such file or directory'')
            \<and> t_out R = fst a @ fst b)
       \<and> (snd b (resolve w1 pdfPath) \<noteq> None \<longrightarrow>
            t_err R = None
            \<and> t_out R = fst a @ fst b @ ''compiled '' @ pdfPath @ [CHR 0x0A])"
    proof (cases "fb (resolve w1 pdfPath)")
      case None
      then show ?thesis
        by (simp add: run Stat_def av bv)
    next
      case (Some content)
      then show ?thesis
        by (simp add: run Stat_def av bv)
    qed
  qed
  from c1 c2 c3 show ?thesis
    by (intro conjI)
qed


text \<open>
  C8 in the scenario world: a compiler that fails twice and leaves no document is run twice
  and the error names \<^verbatim>\<open>.debug_1/debug_report.pdf\<close>; a working compiler is run twice and the
  document is reported.
\<close>

theorem C8_TexToPDF_witness:
  "fst (ensureReportTemplates failingCompiler artifactWorld ''.debug_1'') = None
   \<and> lookPath failingCompiler ''pdflatex'' = Some ''/usr/bin/pdflatex''
   \<and> t_runs (TexToPDF failingCompiler artifactWorld ''.debug_1'')
       = [(pdflatexArgv, ''.debug_1''), (pdflatexArgv, ''.debug_1'')]
   \<and> t_err (TexToPDF failingCompiler artifactWorld ''.debug_1'')
       = Some (''pdflatex did not produce .debug_1/debug_report.pdf: ''
               @ ''stat .debug_1/debug_report.pdf: no such file or directory'')
   \<and> t_runs (TexToPDF workingCompiler artifactWorld ''.debug_1'')
       = [(pdflatexArgv, ''.debug_1''), (pdflatexArgv, ''.debug_1'')]
   \<and> t_err (TexToPDF workingCompiler artifactWorld ''.debug_1'') = None"
proof -
  let ?d = "''.debug_1''"
  let ?pdf = "''.debug_1/debug_report.pdf''"
  have pdf: "?pdf = FJoin [?d, ''debug_report.pdf'']"
    by (simp add: FJoin_def Clean_def HasPrefix_def cleanPush_def)
  have ef: "fst (ensureReportTemplates failingCompiler artifactWorld ?d) = None"
    by (simp add: ensureReportTemplates_def failingCompiler_def emptyPdfCompiler_def
        reportTemplates_def WriteFile_def artifactWorld_def)
  have ew: "fst (ensureReportTemplates workingCompiler artifactWorld ?d) = None"
    by (simp add: ensureReportTemplates_def workingCompiler_def emptyPdfCompiler_def
        reportTemplates_def WriteFile_def artifactWorld_def)
  have lf: "lookPath failingCompiler ''pdflatex'' = Some ''/usr/bin/pdflatex''"
    by (simp add: failingCompiler_def emptyPdfCompiler_def)
  have lw: "lookPath workingCompiler ''pdflatex'' = Some ''/usr/bin/pdflatex''"
    by (simp add: workingCompiler_def emptyPdfCompiler_def)
  note tf = C8_TexToPDF_two_runs_then_exists
    [where ps = failingCompiler and w = artifactWorld and dbgDir = ?d
      and exe = "''/usr/bin/pdflatex''" and pdfPath = ?pdf, OF refl refl refl pdf refl]
  note tw = C8_TexToPDF_two_runs_then_exists
    [where ps = workingCompiler and w = artifactWorld and dbgDir = ?d
      and exe = "''/usr/bin/pdflatex''" and pdfPath = ?pdf, OF refl refl refl pdf refl]
  note tf3 = tf [THEN conjunct2, THEN conjunct2, THEN mp, OF conjI [OF ef lf]]
  note tw3 = tw [THEN conjunct2, THEN conjunct2, THEN mp, OF conjI [OF ew lw]]
  have rf: "t_runs (TexToPDF failingCompiler artifactWorld ?d)
      = [(pdflatexArgv, ?d), (pdflatexArgv, ?d)]"
    by (rule tf3 [THEN conjunct1])
  have rw: "t_runs (TexToPDF workingCompiler artifactWorld ?d)
      = [(pdflatexArgv, ?d), (pdflatexArgv, ?d)]"
    by (rule tw3 [THEN conjunct1])
  have gone: "snd (runCmd failingCompiler pdflatexArgv ?d
        (snd (runCmd failingCompiler pdflatexArgv ?d
           (files (snd (ensureReportTemplates failingCompiler artifactWorld ?d))))))
      (resolve (snd (ensureReportTemplates failingCompiler artifactWorld ?d)) ?pdf) = None"
    by (simp add: ensureReportTemplates_def failingCompiler_def emptyPdfCompiler_def
        reportTemplates_def WriteFile_def artifactWorld_def resolve_def FJoin_def Clean_def
        HasPrefix_def cleanPush_def)
  have there: "snd (runCmd workingCompiler pdflatexArgv ?d
        (snd (runCmd workingCompiler pdflatexArgv ?d
           (files (snd (ensureReportTemplates workingCompiler artifactWorld ?d))))))
      (resolve (snd (ensureReportTemplates workingCompiler artifactWorld ?d)) ?pdf) \<noteq> None"
    by (simp add: ensureReportTemplates_def workingCompiler_def emptyPdfCompiler_def
        reportTemplates_def WriteFile_def artifactWorld_def resolve_def FJoin_def Clean_def
        HasPrefix_def cleanPush_def)
  have "t_err (TexToPDF failingCompiler artifactWorld ?d)
      = Some (''pdflatex did not produce '' @ ?pdf @ '': stat '' @ ?pdf
              @ '': no such file or directory'')"
    by (rule tf3 [THEN conjunct2, THEN conjunct2, THEN conjunct1, THEN mp, OF gone,
          THEN conjunct1])
  then have errf: "t_err (TexToPDF failingCompiler artifactWorld ?d)
       = Some (''pdflatex did not produce .debug_1/debug_report.pdf: ''
               @ ''stat .debug_1/debug_report.pdf: no such file or directory'')"
    by simp
  have errw: "t_err (TexToPDF workingCompiler artifactWorld ?d) = None"
    by (rule tw3 [THEN conjunct2, THEN conjunct2, THEN conjunct2, THEN mp, OF there,
          THEN conjunct1])
  from ef lf rf errf rw errw show ?thesis
    by (intro conjI)
qed

subsection \<open>White space\<close>

lemma stripRunes_done:
  "find (\<lambda>r. r \<noteq> [] \<and> HasPrefix (stripRunes runes s) r) runes = None"
proof (induction runes s rule: stripRunes.induct)
  case (1 runes s)
  show ?case
  proof (cases "find (\<lambda>r. r \<noteq> [] \<and> HasPrefix s r) runes")
    case None
    then have "stripRunes runes s = s"
      by (subst stripRunes.simps) simp
    with None show ?thesis by simp
  next
    case (Some r)
    then have "stripRunes runes s = stripRunes runes (drop (length r) s)"
      by (subst stripRunes.simps) simp
    with "1.IH" [OF Some] show ?thesis by simp
  qed
qed

lemma stripRunes_decomp:
  "\<exists>rs. set rs \<subseteq> set runes \<and> s = concat rs @ stripRunes runes s"
proof (induction runes s rule: stripRunes.induct)
  case (1 runes s)
  show ?case
  proof (cases "find (\<lambda>r. r \<noteq> [] \<and> HasPrefix s r) runes")
    case None
    then have "stripRunes runes s = s"
      by (subst stripRunes.simps) simp
    then have "set [] \<subseteq> set runes \<and> s = concat [] @ stripRunes runes s"
      by simp
    then show ?thesis by blast
  next
    case (Some r)
    then have eq: "stripRunes runes s = stripRunes runes (drop (length r) s)"
      by (subst stripRunes.simps) simp
    from Some have r: "r \<in> set runes" and p: "take (length r) s = r"
      by (auto simp: find_Some_iff HasPrefix_def)
    from "1.IH" [OF Some] obtain rs where rs: "set rs \<subseteq> set runes"
      and d: "drop (length r) s = concat rs @ stripRunes runes (drop (length r) s)"
      by blast
    have "s = take (length r) s @ drop (length r) s"
      by simp
    with p d eq have "s = concat (r # rs) @ stripRunes runes s"
      by simp
    moreover from r rs have "set (r # rs) \<subseteq> set runes"
      by simp
    ultimately show ?thesis by blast
  qed
qed

lemma HasSuffix_rev: "HasSuffix (rev u) r = HasPrefix u (rev r)"
proof
  assume "HasSuffix (rev u) r"
  then have l: "length r \<le> length u" and d: "drop (length u - length r) (rev u) = r"
    by (simp_all add: HasSuffix_def)
  from d have "rev (take (length r) u) = r"
    by (simp add: rev_take)
  then have "take (length r) u = rev r"
    by (metis rev_rev_ident)
  then show "HasPrefix u (rev r)"
    by (simp add: HasPrefix_def)
next
  assume "HasPrefix u (rev r)"
  then have t: "take (length r) u = rev r"
    by (simp add: HasPrefix_def)
  have "length (take (length r) u) = min (length u) (length r)"
    by simp
  with t have l: "length r \<le> length u"
    by simp
  from t have "rev (take (length r) u) = r"
    by simp
  then have "drop (length u - length r) (rev u) = r"
    by (simp add: rev_take)
  with l show "HasSuffix (rev u) r"
    by (simp add: HasSuffix_def)
qed

lemma TrimSpace_trimmed:
  "(\<exists>ls rs. set ls \<subseteq> set spaceRunes \<and> set rs \<subseteq> set spaceRunes
       \<and> b = concat ls @ TrimSpace b @ concat rs)
   \<and> (\<forall>r \<in> set spaceRunes. \<not> HasPrefix (TrimSpace b) r \<and> \<not> HasSuffix (TrimSpace b) r)"
proof -
  let ?t = "stripRunes spaceRunes b"
  let ?u = "stripRunes (map rev spaceRunes) (rev ?t)"
  have ts: "TrimSpace b = rev ?u"
    by (simp add: TrimSpace_def)
  have nonempty: "r \<noteq> []" if "r \<in> set spaceRunes" for r
    using that by (auto simp: spaceRunes_def)
  obtain ls where ls: "set ls \<subseteq> set spaceRunes" and b: "b = concat ls @ ?t"
    using stripRunes_decomp [of spaceRunes b] by blast
  obtain rs' where rs': "set rs' \<subseteq> set (map rev spaceRunes)" and t: "rev ?t = concat rs' @ ?u"
    using stripRunes_decomp [of "map rev spaceRunes" "rev ?t"] by blast
  from t have "rev (rev ?t) = rev (concat rs' @ ?u)"
    by simp
  then have t': "?t = TrimSpace b @ concat (map rev (rev rs'))"
    by (simp add: ts rev_concat)
  from rs' have rs: "set (map rev (rev rs')) \<subseteq> set spaceRunes"
    by auto
  from b t' have "b = concat ls @ TrimSpace b @ concat (map rev (rev rs'))"
    by simp
  with ls rs have decomp: "\<exists>ls rs. set ls \<subseteq> set spaceRunes \<and> set rs \<subseteq> set spaceRunes
       \<and> b = concat ls @ TrimSpace b @ concat rs"
    by blast
  have tips: "\<forall>r \<in> set spaceRunes. \<not> HasPrefix (TrimSpace b) r \<and> \<not> HasSuffix (TrimSpace b) r"
  proof
    fix r assume r: "r \<in> set spaceRunes"
    then have ne: "r \<noteq> []" by (rule nonempty)
    have "\<not> HasPrefix ?t r"
      using stripRunes_done [of spaceRunes b] r ne by (auto simp: find_None_iff)
    then have front: "\<not> HasPrefix (TrimSpace b) r"
      using HasPrefix_appendI [of "TrimSpace b" r "concat (map rev (rev rs'))"] t' by auto
    from r have "rev r \<in> set (map rev spaceRunes)" by simp
    moreover from ne have "rev r \<noteq> []" by simp
    ultimately have "\<not> HasPrefix ?u (rev r)"
      using stripRunes_done [of "map rev spaceRunes" "rev ?t"] by (auto simp: find_None_iff)
    then have rear: "\<not> HasSuffix (TrimSpace b) r"
      by (simp add: ts HasSuffix_rev)
    from front rear show "\<not> HasPrefix (TrimSpace b) r \<and> \<not> HasSuffix (TrimSpace b) r"
      by simp
  qed
  from decomp tips show ?thesis by simp
qed

subsection \<open>Address resolution\<close>

text \<open>
  Claim C9. \<^verbatim>\<open>getAddr\<close> returns \<^verbatim>\<open>DLV_ADDR\<close> when it is set; otherwise the content of the
  handle file with the surrounding white space trimmed; otherwise an error whose text
  contains the path of the handle file it tried to read. That path is \<^verbatim>\<open>.dlv/addr\<close> under
  the directory named by \<^verbatim>\<open>DBG_DIR\<close> when that variable is set, and \<^verbatim>\<open>.dlv/addr\<close> under the
  current directory otherwise. Trimming takes white-space runes, and nothing else, from both
  ends of the content, and what it returns neither starts nor ends with a white-space rune.
\<close>

theorem C9_getAddr:
  "(getenv w ''DLV_ADDR'' \<noteq> [] \<longrightarrow> getAddr w = Inr (getenv w ''DLV_ADDR''))
   \<and> (getenv w ''DLV_ADDR'' = [] \<and> files w (resolve w (getAddrFilePath w)) = Some b
        \<longrightarrow> getAddr w = Inr (TrimSpace b))
   \<and> (getenv w ''DLV_ADDR'' = [] \<and> files w (resolve w (getAddrFilePath w)) = None
        \<longrightarrow> (\<exists>msg. getAddr w = Inl msg \<and> Contains msg (getAddrFilePath w)
                   \<and> HasPrefix msg (''no DLV_ADDR and '' @ getAddrFilePath w @ '' not found'')))
   \<and> getAddrFilePath w =
       (if getenv w ''DBG_DIR'' \<noteq> []
        then Clean (Clean (getenv w ''DBG_DIR'' @ ''/.dlv'') @ ''/addr'')
        else ''.dlv/addr'')
   \<and> (\<exists>ls rs. set ls \<subseteq> set spaceRunes \<and> set rs \<subseteq> set spaceRunes
          \<and> b = concat ls @ TrimSpace b @ concat rs)
   \<and> (\<forall>r \<in> set spaceRunes. \<not> HasPrefix (TrimSpace b) r \<and> \<not> HasSuffix (TrimSpace b) r)"
proof -
  have override: "getenv w ''DLV_ADDR'' \<noteq> [] \<longrightarrow> getAddr w = Inr (getenv w ''DLV_ADDR'')"
    by (simp add: getAddr_def)
  have persisted: "getenv w ''DLV_ADDR'' = [] \<and> files w (resolve w (getAddrFilePath w)) = Some b
        \<longrightarrow> getAddr w = Inr (TrimSpace b)"
    by (simp add: getAddr_def ReadFile_def Let_def)
  have absent: "getenv w ''DLV_ADDR'' = [] \<and> files w (resolve w (getAddrFilePath w)) = None
        \<longrightarrow> (\<exists>msg. getAddr w = Inl msg \<and> Contains msg (getAddrFilePath w)
                   \<and> HasPrefix msg (''no DLV_ADDR and '' @ getAddrFilePath w @ '' not found''))"
  proof
    assume h: "getenv w ''DLV_ADDR'' = [] \<and> files w (resolve w (getAddrFilePath w)) = None"
    let ?p = "getAddrFilePath w"
    let ?rest = "'' not found: '' @ ''open '' @ ?p @ '': no such file or directory''
                 @ '' (start headless dlv and set DLV_ADDR or write address to '' @ ?p @ '')''"
    let ?msg = "''no DLV_ADDR and '' @ ?p @ ?rest"
    from h have eq: "getAddr w = Inl ?msg"
      by (simp add: getAddr_def ReadFile_def Let_def)
    have c: "Contains ?msg ?p"
      by (rule Contains_append)
    have "HasPrefix ((''no DLV_ADDR and '' @ ?p @ '' not found'') @
            ('': '' @ ''open '' @ ?p @ '': no such file or directory''
             @ '' (start headless dlv and set DLV_ADDR or write address to '' @ ?p @ '')''))
            (''no DLV_ADDR and '' @ ?p @ '' not found'')"
      by (rule HasPrefix_append)
    then have p: "HasPrefix ?msg (''no DLV_ADDR and '' @ ?p @ '' not found'')"
      by simp
    from eq c p show "\<exists>msg. getAddr w = Inl msg \<and> Contains msg ?p
        \<and> HasPrefix msg (''no DLV_ADDR and '' @ ?p @ '' not found'')"
      by blast
  qed
  have clean_nonempty: "Clean p \<noteq> []" for p
    by (simp add: Clean_def Let_def)
  have location: "getAddrFilePath w =
       (if getenv w ''DBG_DIR'' \<noteq> []
        then Clean (Clean (getenv w ''DBG_DIR'' @ ''/.dlv'') @ ''/addr'')
        else ''.dlv/addr'')"
  proof (cases "getenv w ''DBG_DIR'' = []")
    case True
    then show ?thesis
      by (simp add: getAddrFilePath_def getDlvDir_def FJoin_def Clean_def HasPrefix_def
          cleanPush_def)
  next
    case False
    then show ?thesis
      using clean_nonempty [of "getenv w ''DBG_DIR'' @ ''/.dlv''"]
      by (simp add: getAddrFilePath_def getDlvDir_def FJoin_def Let_def)
  qed
  note trimmed = TrimSpace_trimmed [of b]
  from override persisted absent location trimmed [THEN conjunct1] trimmed [THEN conjunct2]
  show ?thesis
    by (intro conjI)
qed

text \<open>
  The cases of C9 at the scenario world: the handle file under the artifact directory, an
  override, a missing handle file, and a handle file whose address stands between a space,
  a tab, a no-break space (U+00A0) and a line feed.
\<close>

theorem C9_getAddr_witness:
  "getenv sessionWorld ''DLV_ADDR'' = []
   \<and> files sessionWorld (resolve sessionWorld (getAddrFilePath sessionWorld))
       = Some (''127.0.0.1:38697'' @ [CHR 0x0A])
   \<and> getAddr sessionWorld = Inr ''127.0.0.1:38697''
   \<and> getAddrFilePath sessionWorld = ''.debug_2026-02-27T09-08-40/.dlv/addr''
   \<and> getAddr (sessionWorld\<lparr>getenv := (\<lambda>k. if k = ''DLV_ADDR'' then ''localhost:2345'' else [])\<rparr>)
       = Inr ''localhost:2345''
   \<and> (\<exists>msg. getAddr (sessionWorld\<lparr>files := Map.empty\<rparr>) = Inl msg
          \<and> Contains msg ''.debug_2026-02-27T09-08-40/.dlv/addr'')
   \<and> getAddr (sessionWorld\<lparr>files :=
          [''/home/dev/proj/.debug_2026-02-27T09-08-40/.dlv/addr''
             \<mapsto> [CHR 0x20, CHR 0x09] @ ''127.0.0.1:38697'' @ [CHR 0xC2, CHR 0xA0, CHR 0x0A]]\<rparr>)
       = Inr ''127.0.0.1:38697''"
proof -
  let ?w = sessionWorld
  let ?n = "sessionWorld\<lparr>files :=
          [''/home/dev/proj/.debug_2026-02-27T09-08-40/.dlv/addr''
             \<mapsto> [CHR 0x20, CHR 0x09] @ ''127.0.0.1:38697'' @ [CHR 0xC2, CHR 0xA0, CHR 0x0A]]\<rparr>"
  let ?nb = "[CHR 0x20, CHR 0x09] @ ''127.0.0.1:38697'' @ [CHR 0xC2, CHR 0xA0, CHR 0x0A]"
  let ?b = "''127.0.0.1:38697'' @ [CHR 0x0A]"
  let ?o = "sessionWorld\<lparr>getenv := (\<lambda>k. if k = ''DLV_ADDR'' then ''localhost:2345'' else [])\<rparr>"
  let ?a = "sessionWorld\<lparr>files := Map.empty\<rparr>"
  have path: "getAddrFilePath ?w = ''.debug_2026-02-27T09-08-40/.dlv/addr''"
    using C9_getAddr [of ?w ?b]
    by (simp add: sessionWorld_def Clean_def HasPrefix_def cleanPush_def)
  have patha: "getAddrFilePath ?a = ''.debug_2026-02-27T09-08-40/.dlv/addr''"
    using path by (simp add: getAddrFilePath_def getDlvDir_def sessionWorld_def)
  have env: "getenv ?w ''DLV_ADDR'' = []"
    by (simp add: sessionWorld_def)
  have stored: "files ?w (resolve ?w (getAddrFilePath ?w)) = Some ?b"
    unfolding path
    by (simp add: sessionWorld_def resolve_def FJoin_def Clean_def HasPrefix_def cleanPush_def)
  have "getAddr ?w = Inr (TrimSpace ?b)"
    using C9_getAddr [of ?w ?b] env stored by blast
  then have got: "getAddr ?w = Inr ''127.0.0.1:38697''"
    by (simp add: TrimSpace_def stripRunes.simps spaceRunes_def HasPrefix_def)
  have "getenv ?o ''DLV_ADDR'' \<noteq> []"
    by (simp add: sessionWorld_def)
  then have "getAddr ?o = Inr (getenv ?o ''DLV_ADDR'')"
    using C9_getAddr [of ?o ?b] by blast
  then have over: "getAddr ?o = Inr ''localhost:2345''"
    by simp
  have "getenv ?a ''DLV_ADDR'' = [] \<and> files ?a (resolve ?a (getAddrFilePath ?a)) = None"
    by (simp add: sessionWorld_def)
  then have "\<exists>msg. getAddr ?a = Inl msg \<and> Contains msg (getAddrFilePath ?a)"
    using C9_getAddr [of ?a ?b] by blast
  then have absent: "\<exists>msg. getAddr ?a = Inl msg \<and> Contains msg ''.debug_2026-02-27T09-08-40/.dlv/addr''"
    unfolding patha .
  have pathn: "getAddrFilePath ?n = ''.debug_2026-02-27T09-08-40/.dlv/addr''"
    using path by (simp add: getAddrFilePath_def getDlvDir_def sessionWorld_def)
  have "getenv ?n ''DLV_ADDR'' = [] \<and> files ?n (resolve ?n (getAddrFilePath ?n)) = Some ?nb"
    unfolding pathn
    by (simp add: sessionWorld_def resolve_def FJoin_def Clean_def HasPrefix_def cleanPush_def)
  then have "getAddr ?n = Inr (TrimSpace ?nb)"
    using C9_getAddr [of ?n ?nb] by blast
  then have nbsp: "getAddr ?n = Inr ''127.0.0.1:38697''"
    by (simp add: TrimSpace_def stripRunes.simps spaceRunes_def HasPrefix_def)
  from env stored got path over absent nbsp show ?thesis
    by (intro conjI)
qed

subsection \<open>The launcher\<close>

lemma harvest_events:
  "harvest env w ev fl target rest = Inr (addr, pid, ev') \<Longrightarrow>
     \<exists>dlvPath. findDlv env w = Inr dlvPath
        \<and> ev' = ev @ [Spawn (dlvPath # dlvArgs fl (FJoin [l_tempDir env, ''dlv-'' @ fmt_d (l_nanos env)])
                                  target rest) (cwd w)]
        \<and> pollLoop (l_polls env) = Inr addr \<and> addr \<noteq> []"
  by (auto simp: harvest_def Let_def failed_def split: sum.splits option.splits if_splits)

lemma update_twice:
  "((f(a \<mapsto> x, b \<mapsto> y))(a \<mapsto> x))(b \<mapsto> y) = f(a \<mapsto> x, b \<mapsto> y)"
  by (auto simp: fun_eq_iff)

lemma launch_entered:
  assumes "\<not> execMode fl" and "rest \<noteq> []" and "hd rest \<noteq> ''.''"
    and "files w (resolve w (FJoin [hd rest, ''go.mod''])) \<noteq> None"
    and "tdir = resolve w (hd rest)" and "\<not> denied w tdir"
    and "harvest env (w\<lparr>cwd := tdir\<rparr>) [Chdir tdir] fl ''.'' rest = Inr (addr, pid, ev)"
  shows "launch env w (Inr (fl, rest)) = Inr (addr, pid, True, ev, w\<lparr>cwd := tdir\<rparr>)"
  using assms by (auto simp: launch_def Let_def Stat_def)


lemma cmdStart_entered:
  assumes l: "launch env w parsed = Inr (addr, pid, True, ev, w\<lparr>cwd := tdir\<rparr>)"
    and dlvDir: "dlvDir = FJoin [cwd w, getDlvDir w]"
    and kA: "kA = resolve (w\<lparr>cwd := tdir\<rparr>) (FJoin [dlvDir, ''addr''])"
    and kP: "kP = resolve (w\<lparr>cwd := tdir\<rparr>) (FJoin [dlvDir, ''pid''])"
    and okDir: "\<not> denied w (resolve (w\<lparr>cwd := tdir\<rparr>) dlvDir)"
    and okA: "\<not> denied w kA"
    and okP: "\<not> denied w kP"
  shows "cmdStart env w parsed =
     \<lparr>s_out = ''headless dlv started, address written to '' @ FJoin [dlvDir, ''addr'']
              @ [CHR 0x0A] @ addr @ [CHR 0x0A],
      s_err = None, s_events = ev,
      s_world = w\<lparr>cwd := tdir,
                  files := (files w)(kA \<mapsto> addr @ [CHR 0x0A], kP \<mapsto> fmt_d pid @ [CHR 0x0A])\<rparr>\<rparr>"
proof -
  let ?w1 = "w\<lparr>cwd := tdir\<rparr>"
  have g: "getDlvDir ?w1 = getDlvDir w"
    by (simp add: getDlvDir_def)
  have mk: "MkdirAll ?w1 dlvDir = None"
    using okDir by (simp add: MkdirAll_def)
  let ?w2 = "?w1\<lparr>files := (files w)(kA \<mapsto> addr @ [CHR 0x0A])\<rparr>"
  have wa: "WriteFile ?w1 (FJoin [dlvDir, ''addr'']) (addr @ [CHR 0x0A]) = (None, ?w2)"
    using okA by (simp add: WriteFile_def kA [symmetric])
  let ?w3 = "?w1\<lparr>files := (files w)(kA \<mapsto> addr @ [CHR 0x0A], kP \<mapsto> fmt_d pid @ [CHR 0x0A])\<rparr>"
  have r2: "resolve ?w2 = resolve ?w1"
    by (simp add: fun_eq_iff)
  have wp: "snd (WriteFile ?w2 (FJoin [dlvDir, ''pid'']) (fmt_d pid @ [CHR 0x0A])) = ?w3"
    using okP by (simp add: WriteFile_def r2 kP [symmetric])
  have r3: "resolve ?w3 = resolve ?w1"
    by (simp add: fun_eq_iff)
  have again: "snd (WriteFile (snd (WriteFile ?w3 (FJoin [dlvDir, ''addr'']) (addr @ [CHR 0x0A])))
       (FJoin [dlvDir, ''pid'']) (fmt_d pid @ [CHR 0x0A])) = ?w3"
    using okA okP by (simp add: WriteFile_def r3 kA [symmetric] kP [symmetric] update_twice)
  have caller: "getenv w ''DBG_DIR'' = [] \<Longrightarrow> FJoin [cwd w, ''.dlv''] = dlvDir"
    by (simp add: dlvDir getDlvDir_def)
  have mk3: "MkdirAll ?w3 dlvDir = None"
    using okDir by (simp add: MkdirAll_def r3)
  have w4: "(if True \<and> getenv ?w3 ''DBG_DIR'' = [] \<and> MkdirAll ?w3 (FJoin [cwd w, ''.dlv'']) = None
             then snd (WriteFile
                    (snd (WriteFile ?w3 (FJoin [FJoin [cwd w, ''.dlv''], ''addr''])
                            (addr @ [CHR 0x0A])))
                    (FJoin [FJoin [cwd w, ''.dlv''], ''pid'']) (fmt_d pid @ [CHR 0x0A]))
             else ?w3) = ?w3"
  proof (cases "getenv w ''DBG_DIR'' = []")
    case True
    then show ?thesis
      by (simp only: caller [OF True] again if_True if_False split: if_splits) simp
  next
    case False
    then show ?thesis by simp
  qed
  show ?thesis
    unfolding cmdStart_def l
    by (simp only: sum.case prod.case Let_def g dlvDir [symmetric] if_True mk option.case wa wp w4)
qed


lemma module_paths:
  "resolve moduleWorld ''examples/failing_test'' = ''/home/dev/proj/examples/failing_test''"
  "resolve moduleWorld (FJoin [''examples/failing_test'', ''go.mod''])
     = ''/home/dev/proj/examples/failing_test/go.mod''"
  "FJoin [cwd moduleWorld, ''.dlv''] = ''/home/dev/proj/.dlv''"
  "FJoin [''/home/dev/proj/.dlv'', ''addr''] = ''/home/dev/proj/.dlv/addr''"
  "FJoin [''/home/dev/proj/.dlv'', ''pid''] = ''/home/dev/proj/.dlv/pid''"
  "FJoin [''.dlv'', ''addr''] = ''.dlv/addr''"
  by (simp_all add: resolve_def FJoin_def Clean_def HasPrefix_def cleanPush_def moduleWorld_def)

lemma module_poll: "pollLoop (l_polls moduleEnv) = Inr ''127.0.0.1:38697''"
  by (simp add: moduleEnv_def HasPrefix_def TrimSpace_def stripRunes.simps spaceRunes_def)

lemma module_debugBin:
  "FJoin [l_tempDir moduleEnv, ''dlv-'' @ fmt_d (l_nanos moduleEnv)] = ''/tmp/dlv-1772010316000000000''"
proof -
  have n: "l_nanos moduleEnv = 1772010316000000000" and t: "l_tempDir moduleEnv = ''/tmp''"
    by (simp_all add: moduleEnv_def)
  have d: "fmt_d 1772010316000000000 = ''1772010316000000000''"
    by (simp add: fmt_d_def digitChar_def)
  have j: "FJoin [''/tmp'', ''dlv-'' @ ''1772010316000000000''] = ''/tmp/dlv-1772010316000000000''"
    by (simp add: FJoin_def Clean_def HasPrefix_def cleanPush_def)
  show ?thesis using j by (simp add: n t d)
qed

lemma module_harvest:
  "harvest moduleEnv (moduleWorld\<lparr>cwd := ''/home/dev/proj/examples/failing_test''\<rparr>)
     [Chdir ''/home/dev/proj/examples/failing_test'']
     \<lparr>testMode = False, execMode = False\<rparr> ''.'' [''examples/failing_test'']
   = Inr (''127.0.0.1:38697'', 4242,
          [Chdir ''/home/dev/proj/examples/failing_test'',
           Spawn [''/usr/local/bin/dlv'', ''--headless'', ''--accept-multiclient'',
                  ''--api-version=2'', ''debug'', ''--output'', ''/tmp/dlv-1772010316000000000'', ''.'']
                 ''/home/dev/proj/examples/failing_test''])"
proof -
  have f: "findDlv moduleEnv (moduleWorld\<lparr>cwd := ''/home/dev/proj/examples/failing_test''\<rparr>)
      = Inr ''/usr/local/bin/dlv''"
    by (simp add: findDlv_def moduleEnv_def)
  have c: "l_createTemp moduleEnv = Inr ''/tmp/dlv-stdout-1''" "l_open moduleEnv = None"
    "l_spawn moduleEnv = (\<lambda>argv dir. Inr 4242)"
    by (simp_all add: moduleEnv_def)
  show ?thesis
    by (simp add: harvest_def f c module_poll module_debugBin [simplified] dlvArgs_def Let_def)
qed


lemma resolve_files_update [simp]: "resolve (w\<lparr>files := f\<rparr>) = resolve w"
  by (simp add: fun_eq_iff resolve_def)

lemma Start_entered:
  assumes l: "launch env w parsed = Inr (addr, pid, True, ev, w\<lparr>cwd := tdir\<rparr>)"
    and tA: "tA = resolve (w\<lparr>cwd := tdir\<rparr>) DefaultAddrFile"
    and tP: "tP = resolve (w\<lparr>cwd := tdir\<rparr>) (FJoin [Dir DefaultAddrFile, ''pid''])"
    and cA: "cA = resolve (w\<lparr>cwd := tdir\<rparr>) (FJoin [cwd w, DefaultAddrFile])"
    and cP: "cP = resolve (w\<lparr>cwd := tdir\<rparr>) (FJoin [cwd w, Dir DefaultAddrFile, ''pid''])"
    and okT: "\<not> denied w (resolve (w\<lparr>cwd := tdir\<rparr>) (Dir DefaultAddrFile))"
    and okC: "\<not> denied w (resolve (w\<lparr>cwd := tdir\<rparr>) (Dir (FJoin [cwd w, DefaultAddrFile])))"
    and ok: "\<not> denied w tA" "\<not> denied w tP" "\<not> denied w cA" "\<not> denied w cP"
  shows "Start DefaultAddrFile env w parsed =
     \<lparr>s_out = ''headless dlv started, address written to '' @ DefaultAddrFile
              @ [CHR 0x0A] @ addr @ [CHR 0x0A],
      s_err = None, s_events = ev,
      s_world = w\<lparr>cwd := tdir,
                  files := (files w)(tA \<mapsto> addr @ [CHR 0x0A], tP \<mapsto> fmt_d pid @ [CHR 0x0A],
                                     cA \<mapsto> addr @ [CHR 0x0A], cP \<mapsto> fmt_d pid @ [CHR 0x0A])\<rparr>\<rparr>"
proof -
  let ?w1 = "w\<lparr>cwd := tdir\<rparr>"
  have mk: "MkdirAll ?w1 (Dir DefaultAddrFile) = None"
    using okT by (simp add: MkdirAll_def)
  let ?w2 = "?w1\<lparr>files := (files w)(tA \<mapsto> addr @ [CHR 0x0A])\<rparr>"
  have wa: "WriteFile ?w1 DefaultAddrFile (addr @ [CHR 0x0A]) = (None, ?w2)"
    using ok by (simp add: WriteFile_def tA [symmetric])
  let ?w3 = "?w1\<lparr>files := (files w)(tA \<mapsto> addr @ [CHR 0x0A], tP \<mapsto> fmt_d pid @ [CHR 0x0A])\<rparr>"
  have wp: "snd (WriteFile ?w2 (FJoin [Dir DefaultAddrFile, ''pid'']) (fmt_d pid @ [CHR 0x0A])) = ?w3"
    using ok by (simp add: WriteFile_def tP [symmetric])
  have mk3: "MkdirAll ?w3 (Dir (FJoin [cwd w, DefaultAddrFile])) = None"
    using okC by (simp add: MkdirAll_def)
  let ?w4 = "?w1\<lparr>files := (files w)(tA \<mapsto> addr @ [CHR 0x0A], tP \<mapsto> fmt_d pid @ [CHR 0x0A],
                                     cA \<mapsto> addr @ [CHR 0x0A], cP \<mapsto> fmt_d pid @ [CHR 0x0A])\<rparr>"
  have wc: "snd (WriteFile (snd (WriteFile ?w3 (FJoin [cwd w, DefaultAddrFile]) (addr @ [CHR 0x0A])))
       (FJoin [cwd w, Dir DefaultAddrFile, ''pid'']) (fmt_d pid @ [CHR 0x0A])) = ?w4"
    using ok by (simp add: WriteFile_def cA [symmetric] cP [symmetric])
  show ?thesis
    unfolding Start_def l
    by (simp only: sum.case prod.case Let_def if_True mk mk3 option.case wa wp wc simp_thms)
qed

lemma module_launch:
  "launch moduleEnv moduleWorld
     (Inr (\<lparr>testMode = False, execMode = False\<rparr>, [''examples/failing_test'']))
   = Inr (''127.0.0.1:38697'', 4242, True,
          [Chdir ''/home/dev/proj/examples/failing_test'',
           Spawn [''/usr/local/bin/dlv'', ''--headless'', ''--accept-multiclient'',
                  ''--api-version=2'', ''debug'', ''--output'', ''/tmp/dlv-1772010316000000000'', ''.'']
                 ''/home/dev/proj/examples/failing_test''],
          moduleWorld\<lparr>cwd := ''/home/dev/proj/examples/failing_test''\<rparr>)"
proof (rule launch_entered)
  show "\<not> execMode \<lparr>testMode = False, execMode = False\<rparr>" by simp
  show "[''examples/failing_test''] \<noteq> []" by simp
  show "hd [''examples/failing_test''] \<noteq> ''.''" by simp
  show "files moduleWorld (resolve moduleWorld (FJoin [hd [''examples/failing_test''], ''go.mod'']))
          \<noteq> None"
    by (simp add: module_paths) (simp add: moduleWorld_def)
  show "''/home/dev/proj/examples/failing_test'' = resolve moduleWorld (hd [''examples/failing_test''])"
    by (simp add: module_paths)
  show "\<not> denied moduleWorld ''/home/dev/proj/examples/failing_test''"
    by (simp add: moduleWorld_def)
  show "harvest moduleEnv (moduleWorld\<lparr>cwd := ''/home/dev/proj/examples/failing_test''\<rparr>)
     [Chdir ''/home/dev/proj/examples/failing_test'']
     \<lparr>testMode = False, execMode = False\<rparr> ''.'' [''examples/failing_test'']
   = Inr (''127.0.0.1:38697'', 4242,
          [Chdir ''/home/dev/proj/examples/failing_test'',
           Spawn [''/usr/local/bin/dlv'', ''--headless'', ''--accept-multiclient'',
                  ''--api-version=2'', ''debug'', ''--output'', ''/tmp/dlv-1772010316000000000'', ''.'']
                 ''/home/dev/proj/examples/failing_test''])"
    by (rule module_harvest)
qed

lemma module_cmdStart:
  "cmdStart moduleEnv moduleWorld
     (Inr (\<lparr>testMode = False, execMode = False\<rparr>, [''examples/failing_test'']))
   = \<lparr>s_out = ''headless dlv started, address written to /home/dev/proj/.dlv/addr''
              @ [CHR 0x0A] @ ''127.0.0.1:38697'' @ [CHR 0x0A],
      s_err = None,
      s_events = [Chdir ''/home/dev/proj/examples/failing_test'',
           Spawn [''/usr/local/bin/dlv'', ''--headless'', ''--accept-multiclient'',
                  ''--api-version=2'', ''debug'', ''--output'', ''/tmp/dlv-1772010316000000000'', ''.'']
                 ''/home/dev/proj/examples/failing_test''],
      s_world = moduleWorld\<lparr>cwd := ''/home/dev/proj/examples/failing_test'',
                  files := (files moduleWorld)
                     (''/home/dev/proj/.dlv/addr'' \<mapsto> ''127.0.0.1:38697'' @ [CHR 0x0A],
                      ''/home/dev/proj/.dlv/pid'' \<mapsto> ''4242'' @ [CHR 0x0A])\<rparr>\<rparr>"
proof -
  have d: "''/home/dev/proj/.dlv'' = FJoin [cwd moduleWorld, getDlvDir moduleWorld]"
    by (simp add: getDlvDir_def) (simp add: moduleWorld_def FJoin_def Clean_def HasPrefix_def cleanPush_def)
  have a: "''/home/dev/proj/.dlv/addr''
       = resolve (moduleWorld\<lparr>cwd := ''/home/dev/proj/examples/failing_test''\<rparr>)
           (FJoin [''/home/dev/proj/.dlv'', ''addr''])"
    by (simp add: module_paths) (simp add: resolve_def Clean_def HasPrefix_def cleanPush_def)
  have p: "''/home/dev/proj/.dlv/pid''
       = resolve (moduleWorld\<lparr>cwd := ''/home/dev/proj/examples/failing_test''\<rparr>)
           (FJoin [''/home/dev/proj/.dlv'', ''pid''])"
    by (simp add: module_paths) (simp add: resolve_def Clean_def HasPrefix_def cleanPush_def)
  have n: "\<And>q. \<not> denied moduleWorld q"
    by (simp add: moduleWorld_def)
  have f: "fmt_d 4242 = ''4242''"
    by (simp add: fmt_d_def digitChar_def)
  show ?thesis
    using cmdStart_entered [OF module_launch d a p n n n]
    by (simp add: module_paths f)
qed


lemma module_trim: "TrimSpace (''127.0.0.1:38697'' @ [CHR 0x0A]) = ''127.0.0.1:38697''"
  by (simp add: TrimSpace_def stripRunes.simps spaceRunes_def HasPrefix_def)

lemma getAddr_reads:
  assumes "getenv w ''DLV_ADDR'' = []"
    and "files w (resolve w (getAddrFilePath w)) = Some b"
  shows "getAddr w = Inr (TrimSpace b)"
  using assms by (simp add: getAddr_def Let_def ReadFile_def)

text \<open>
  C4 (counterexample). The project at \<^verbatim>\<open>/home/dev/proj\<close> holds the module
  \<^verbatim>\<open>examples/failing_test\<close>, which has a \<^verbatim>\<open>go.mod\<close> of its own and is not the invoker's
  working directory. \<^verbatim>\<open>cmdStart\<close> succeeds and leaves neither an address file nor a pid file
  at the target's own handle location \<^verbatim>\<open>examples/failing_test/.dlv\<close>; a later \<^verbatim>\<open>getAddr\<close>
  from inside the target looks there and returns an error. So the handle is not written
  to both locations, and an invocation from the target does not resolve the session.
\<close>

theorem C4_target_location_not_written_counterexample:
  "files moduleWorld (resolve moduleWorld (FJoin [''examples/failing_test'', ''go.mod''])) \<noteq> None
   \<and> resolve moduleWorld ''examples/failing_test'' \<noteq> cwd moduleWorld
   \<and> s_err (cmdStart moduleEnv moduleWorld
        (Inr (\<lparr>testMode = False, execMode = False\<rparr>, [''examples/failing_test'']))) = None
   \<and> cwd (s_world (cmdStart moduleEnv moduleWorld
        (Inr (\<lparr>testMode = False, execMode = False\<rparr>, [''examples/failing_test''])))) =
       ''/home/dev/proj/examples/failing_test''
   \<and> files (s_world (cmdStart moduleEnv moduleWorld
        (Inr (\<lparr>testMode = False, execMode = False\<rparr>, [''examples/failing_test'']))))
         ''/home/dev/proj/examples/failing_test/.dlv/addr'' = None
   \<and> files (s_world (cmdStart moduleEnv moduleWorld
        (Inr (\<lparr>testMode = False, execMode = False\<rparr>, [''examples/failing_test'']))))
         ''/home/dev/proj/examples/failing_test/.dlv/pid'' = None
   \<and> resolve (s_world (cmdStart moduleEnv moduleWorld
        (Inr (\<lparr>testMode = False, execMode = False\<rparr>, [''examples/failing_test'']))))
         (getAddrFilePath (s_world (cmdStart moduleEnv moduleWorld
        (Inr (\<lparr>testMode = False, execMode = False\<rparr>, [''examples/failing_test''])))))
       = ''/home/dev/proj/examples/failing_test/.dlv/addr''
   \<and> getAddr (s_world (cmdStart moduleEnv moduleWorld
        (Inr (\<lparr>testMode = False, execMode = False\<rparr>, [''examples/failing_test'']))))
       = Inl (''no DLV_ADDR and .dlv/addr not found: open .dlv/addr: no such file or directory''
              @ '' (start headless dlv and set DLV_ADDR or write address to .dlv/addr)'')"
proof -
  define W where "W = moduleWorld\<lparr>cwd := ''/home/dev/proj/examples/failing_test'',
                  files := (files moduleWorld)
                     (''/home/dev/proj/.dlv/addr'' \<mapsto> ''127.0.0.1:38697'' @ [CHR 0x0A],
                      ''/home/dev/proj/.dlv/pid'' \<mapsto> ''4242'' @ [CHR 0x0A])\<rparr>"
  have R: "cmdStart moduleEnv moduleWorld
     (Inr (\<lparr>testMode = False, execMode = False\<rparr>, [''examples/failing_test'']))
   = \<lparr>s_out = ''headless dlv started, address written to /home/dev/proj/.dlv/addr''
              @ [CHR 0x0A] @ ''127.0.0.1:38697'' @ [CHR 0x0A],
      s_err = None,
      s_events = [Chdir ''/home/dev/proj/examples/failing_test'',
           Spawn [''/usr/local/bin/dlv'', ''--headless'', ''--accept-multiclient'',
                  ''--api-version=2'', ''debug'', ''--output'', ''/tmp/dlv-1772010316000000000'', ''.'']
                 ''/home/dev/proj/examples/failing_test''],
      s_world = W\<rparr>"
    unfolding W_def by (rule module_cmdStart)
  have e0: "getenv moduleWorld = (\<lambda>k. [])"
    by (simp add: moduleWorld_def)
  have e: "getenv W ''DLV_ADDR'' = []"
    by (simp add: W_def e0)
  have cw: "cwd W = ''/home/dev/proj/examples/failing_test''"
    by (simp add: W_def)
  have p: "getAddrFilePath W = ''.dlv/addr''"
    by (simp add: W_def getAddrFilePath_def getDlvDir_def e0 module_paths)
  have r: "resolve W ''.dlv/addr'' = ''/home/dev/proj/examples/failing_test/.dlv/addr''"
    by (simp add: resolve_def cw FJoin_def Clean_def HasPrefix_def cleanPush_def)
  have fa: "files W ''/home/dev/proj/examples/failing_test/.dlv/addr'' = None"
    by (simp add: W_def moduleWorld_def)
  have fp: "files W ''/home/dev/proj/examples/failing_test/.dlv/pid'' = None"
    by (simp add: W_def moduleWorld_def)
  have g: "getAddr W
       = Inl (''no DLV_ADDR and .dlv/addr not found: open .dlv/addr: no such file or directory''
              @ '' (start headless dlv and set DLV_ADDR or write address to .dlv/addr)'')"
    by (simp add: getAddr_def Let_def e p ReadFile_def r fa)
  have m: "files moduleWorld (resolve moduleWorld (FJoin [''examples/failing_test'', ''go.mod'']))
             \<noteq> None"
    by (simp add: module_paths) (simp add: moduleWorld_def)
  have c: "resolve moduleWorld ''examples/failing_test'' \<noteq> cwd moduleWorld"
    by (simp add: module_paths) (simp add: moduleWorld_def)
  have sw: "s_world (cmdStart moduleEnv moduleWorld
     (Inr (\<lparr>testMode = False, execMode = False\<rparr>, [''examples/failing_test'']))) = W"
    and se: "s_err (cmdStart moduleEnv moduleWorld
     (Inr (\<lparr>testMode = False, execMode = False\<rparr>, [''examples/failing_test'']))) = None"
    by (simp_all add: R)
  show ?thesis
    unfolding sw se p
    by (intro conjI m c refl cw fa fp r g)
qed

text \<open>
  C4 (amended). The target is the first remaining argument; it is not \<^verbatim>\<open>.\<close>, the mode is not
  \<^verbatim>\<open>-exec\<close>, the target holds a \<^verbatim>\<open>go.mod\<close>, the change of directory is permitted, and the engine
  starts and announces its address. Then the launcher changes into the target before it
  spawns the engine: the engine is started in the target directory with \<^verbatim>\<open>.\<close> as its target.
  When the handle can be written, \<^verbatim>\<open>cmdStart\<close> returns no error and leaves the pid file and
  the address file at the invoker's original handle location, \<^verbatim>\<open>.dlv\<close> (under \<^verbatim>\<open>DBG_DIR\<close> when
  that is set) resolved against the original working directory; where that is the path
  \<^verbatim>\<open>getAddr\<close> reads, a later invocation from the invoker's directory resolves the session.
  \<^verbatim>\<open>Start\<close> of package \<^verbatim>\<open>delve\<close> writes the handle at \<^verbatim>\<open>DefaultAddrFile\<close> in the target directory
  and at the same path under the original working directory.
\<close>

theorem C4_launcher_handle_at_invoker:
  assumes fl: "\<not> execMode fl" and rest: "rest \<noteq> []" and dot: "hd rest \<noteq> ''.''"
    and gomod: "files w (resolve w (FJoin [hd rest, ''go.mod''])) \<noteq> None"
    and tdir: "tdir = resolve w (hd rest)" and enter: "\<not> denied w tdir"
    and hv: "harvest env (w\<lparr>cwd := tdir\<rparr>) [Chdir tdir] fl ''.'' rest = Inr (addr, pid, ev)"
    and dlvDir: "dlvDir = FJoin [cwd w, getDlvDir w]"
    and kA: "kA = resolve (w\<lparr>cwd := tdir\<rparr>) (FJoin [dlvDir, ''addr''])"
    and kP: "kP = resolve (w\<lparr>cwd := tdir\<rparr>) (FJoin [dlvDir, ''pid''])"
    and tA: "tA = resolve (w\<lparr>cwd := tdir\<rparr>) DefaultAddrFile"
    and tP: "tP = resolve (w\<lparr>cwd := tdir\<rparr>) (FJoin [Dir DefaultAddrFile, ''pid''])"
    and cA: "cA = resolve (w\<lparr>cwd := tdir\<rparr>) (FJoin [cwd w, DefaultAddrFile])"
    and cP: "cP = resolve (w\<lparr>cwd := tdir\<rparr>) (FJoin [cwd w, Dir DefaultAddrFile, ''pid''])"
    and R: "R = cmdStart env w (Inr (fl, rest))"
    and S: "S = Start DefaultAddrFile env w (Inr (fl, rest))"
  shows
    "(\<exists>dlvPath. findDlv env (w\<lparr>cwd := tdir\<rparr>) = Inr dlvPath
        \<and> ev = [Chdir tdir,
                 Spawn (dlvPath # dlvArgs fl (FJoin [l_tempDir env, ''dlv-'' @ fmt_d (l_nanos env)])
                                    ''.'' rest) tdir])
     \<and> (\<not> denied w (resolve (w\<lparr>cwd := tdir\<rparr>) dlvDir) \<and> \<not> denied w kA \<and> \<not> denied w kP \<longrightarrow>
          s_out R = ''headless dlv started, address written to '' @ FJoin [dlvDir, ''addr'']
                      @ [CHR 0x0A] @ addr @ [CHR 0x0A]
          \<and> s_err R = None \<and> s_events R = ev \<and> cwd (s_world R) = tdir
          \<and> files (s_world R) kP = Some (fmt_d pid @ [CHR 0x0A])
          \<and> (kA \<noteq> kP \<longrightarrow> files (s_world R) kA = Some (addr @ [CHR 0x0A]))
          \<and> (kA \<noteq> kP \<and> kA = resolve w (getAddrFilePath w) \<and> getenv w ''DLV_ADDR'' = [] \<longrightarrow>
                getAddr ((s_world R)\<lparr>cwd := cwd w\<rparr>) = Inr (TrimSpace (addr @ [CHR 0x0A]))))
     \<and> (\<not> denied w (resolve (w\<lparr>cwd := tdir\<rparr>) (Dir DefaultAddrFile))
          \<and> \<not> denied w (resolve (w\<lparr>cwd := tdir\<rparr>) (Dir (FJoin [cwd w, DefaultAddrFile])))
          \<and> \<not> denied w tA \<and> \<not> denied w tP \<and> \<not> denied w cA \<and> \<not> denied w cP \<longrightarrow>
          S = \<lparr>s_out = ''headless dlv started, address written to '' @ DefaultAddrFile
                       @ [CHR 0x0A] @ addr @ [CHR 0x0A],
               s_err = None, s_events = ev,
               s_world = w\<lparr>cwd := tdir,
                  files := (files w)(tA \<mapsto> addr @ [CHR 0x0A], tP \<mapsto> fmt_d pid @ [CHR 0x0A],
                                     cA \<mapsto> addr @ [CHR 0x0A], cP \<mapsto> fmt_d pid @ [CHR 0x0A])\<rparr>\<rparr>)"
proof -
  have l: "launch env w (Inr (fl, rest)) = Inr (addr, pid, True, ev, w\<lparr>cwd := tdir\<rparr>)"
    by (rule launch_entered [OF fl rest dot gomod tdir enter hv])
  have spawned: "\<exists>dlvPath. findDlv env (w\<lparr>cwd := tdir\<rparr>) = Inr dlvPath
        \<and> ev = [Chdir tdir,
                 Spawn (dlvPath # dlvArgs fl (FJoin [l_tempDir env, ''dlv-'' @ fmt_d (l_nanos env)])
                                    ''.'' rest) tdir]"
    using harvest_events [OF hv] by auto
  have cli: "s_out R = ''headless dlv started, address written to '' @ FJoin [dlvDir, ''addr'']
                      @ [CHR 0x0A] @ addr @ [CHR 0x0A]
          \<and> s_err R = None \<and> s_events R = ev \<and> cwd (s_world R) = tdir
          \<and> files (s_world R) kP = Some (fmt_d pid @ [CHR 0x0A])
          \<and> (kA \<noteq> kP \<longrightarrow> files (s_world R) kA = Some (addr @ [CHR 0x0A]))
          \<and> (kA \<noteq> kP \<and> kA = resolve w (getAddrFilePath w) \<and> getenv w ''DLV_ADDR'' = [] \<longrightarrow>
                getAddr ((s_world R)\<lparr>cwd := cwd w\<rparr>) = Inr (TrimSpace (addr @ [CHR 0x0A])))"
    if ok: "\<not> denied w (resolve (w\<lparr>cwd := tdir\<rparr>) dlvDir)" "\<not> denied w kA" "\<not> denied w kP"
  proof -
    let ?W = "w\<lparr>cwd := tdir,
                  files := (files w)(kA \<mapsto> addr @ [CHR 0x0A], kP \<mapsto> fmt_d pid @ [CHR 0x0A])\<rparr>"
    have r: "R = \<lparr>s_out = ''headless dlv started, address written to '' @ FJoin [dlvDir, ''addr'']
              @ [CHR 0x0A] @ addr @ [CHR 0x0A],
      s_err = None, s_events = ev, s_world = ?W\<rparr>"
      unfolding R by (rule cmdStart_entered [OF l dlvDir kA kP ok])
    have invoker: "getAddr (?W\<lparr>cwd := cwd w\<rparr>) = Inr (TrimSpace (addr @ [CHR 0x0A]))"
      if d: "kA \<noteq> kP" and k: "kA = resolve w (getAddrFilePath w)" and e: "getenv w ''DLV_ADDR'' = []"
    proof (rule getAddr_reads)
      show "getenv (?W\<lparr>cwd := cwd w\<rparr>) ''DLV_ADDR'' = []"
        using e by simp
      have p: "getAddrFilePath (?W\<lparr>cwd := cwd w\<rparr>) = getAddrFilePath w"
        by (simp add: getAddrFilePath_def getDlvDir_def)
      have q: "resolve (?W\<lparr>cwd := cwd w\<rparr>) = resolve w"
        by (simp add: fun_eq_iff resolve_def)
      show "files (?W\<lparr>cwd := cwd w\<rparr>)
              (resolve (?W\<lparr>cwd := cwd w\<rparr>) (getAddrFilePath (?W\<lparr>cwd := cwd w\<rparr>)))
            = Some (addr @ [CHR 0x0A])"
        unfolding p q k [symmetric] using d by simp
    qed
    have sw: "s_world R = ?W"
      by (simp add: r)
    have i2: "kA \<noteq> kP \<and> kA = resolve w (getAddrFilePath w) \<and> getenv w ''DLV_ADDR'' = [] \<longrightarrow>
                getAddr ((s_world R)\<lparr>cwd := cwd w\<rparr>) = Inr (TrimSpace (addr @ [CHR 0x0A]))"
      unfolding sw using invoker by blast
    have i1: "kA \<noteq> kP \<longrightarrow> files (s_world R) kA = Some (addr @ [CHR 0x0A])"
      unfolding sw by simp
    have i0: "s_out R = ''headless dlv started, address written to '' @ FJoin [dlvDir, ''addr'']
                      @ [CHR 0x0A] @ addr @ [CHR 0x0A]"
      "s_err R = None" "s_events R = ev" "cwd (s_world R) = tdir"
      "files (s_world R) kP = Some (fmt_d pid @ [CHR 0x0A])"
      by (simp_all add: r)
    show ?thesis
      by (intro conjI i0 i1 i2)
  qed
  have lib: "S = \<lparr>s_out = ''headless dlv started, address written to '' @ DefaultAddrFile
                       @ [CHR 0x0A] @ addr @ [CHR 0x0A],
               s_err = None, s_events = ev,
               s_world = w\<lparr>cwd := tdir,
                  files := (files w)(tA \<mapsto> addr @ [CHR 0x0A], tP \<mapsto> fmt_d pid @ [CHR 0x0A],
                                     cA \<mapsto> addr @ [CHR 0x0A], cP \<mapsto> fmt_d pid @ [CHR 0x0A])\<rparr>\<rparr>"
    if "\<not> denied w (resolve (w\<lparr>cwd := tdir\<rparr>) (Dir DefaultAddrFile))"
       "\<not> denied w (resolve (w\<lparr>cwd := tdir\<rparr>) (Dir (FJoin [cwd w, DefaultAddrFile])))"
       "\<not> denied w tA" "\<not> denied w tP" "\<not> denied w cA" "\<not> denied w cP"
    unfolding S by (rule Start_entered [OF l tA tP cA cP that])
  from spawned cli lib show ?thesis
    by blast
qed


theorem C4_launcher_handle_witness:
  "s_err (cmdStart moduleEnv moduleWorld
        (Inr (\<lparr>testMode = False, execMode = False\<rparr>, [''examples/failing_test'']))) = None
   \<and> s_events (cmdStart moduleEnv moduleWorld
        (Inr (\<lparr>testMode = False, execMode = False\<rparr>, [''examples/failing_test''])))
       = [Chdir ''/home/dev/proj/examples/failing_test'',
          Spawn [''/usr/local/bin/dlv'', ''--headless'', ''--accept-multiclient'',
                 ''--api-version=2'', ''debug'', ''--output'', ''/tmp/dlv-1772010316000000000'', ''.'']
                ''/home/dev/proj/examples/failing_test'']
   \<and> cwd (s_world (cmdStart moduleEnv moduleWorld
        (Inr (\<lparr>testMode = False, execMode = False\<rparr>, [''examples/failing_test''])))) =
       ''/home/dev/proj/examples/failing_test''
   \<and> files (s_world (cmdStart moduleEnv moduleWorld
        (Inr (\<lparr>testMode = False, execMode = False\<rparr>, [''examples/failing_test'']))))
         ''/home/dev/proj/.dlv/pid'' = Some (''4242'' @ [CHR 0x0A])
   \<and> files (s_world (cmdStart moduleEnv moduleWorld
        (Inr (\<lparr>testMode = False, execMode = False\<rparr>, [''examples/failing_test'']))))
         ''/home/dev/proj/.dlv/addr'' = Some (''127.0.0.1:38697'' @ [CHR 0x0A])
   \<and> getAddr ((s_world (cmdStart moduleEnv moduleWorld
        (Inr (\<lparr>testMode = False, execMode = False\<rparr>, [''examples/failing_test'']))))
          \<lparr>cwd := ''/home/dev/proj''\<rparr>) = Inr ''127.0.0.1:38697''
   \<and> Start ''.dlv/addr'' moduleEnv moduleWorld
        (Inr (\<lparr>testMode = False, execMode = False\<rparr>, [''examples/failing_test'']))
       = \<lparr>s_out = ''headless dlv started, address written to .dlv/addr''
                  @ [CHR 0x0A] @ ''127.0.0.1:38697'' @ [CHR 0x0A],
          s_err = None,
          s_events = [Chdir ''/home/dev/proj/examples/failing_test'',
            Spawn [''/usr/local/bin/dlv'', ''--headless'', ''--accept-multiclient'',
                   ''--api-version=2'', ''debug'', ''--output'', ''/tmp/dlv-1772010316000000000'', ''.'']
                  ''/home/dev/proj/examples/failing_test''],
          s_world = moduleWorld\<lparr>cwd := ''/home/dev/proj/examples/failing_test'',
            files := (files moduleWorld)
              (''/home/dev/proj/examples/failing_test/.dlv/addr'' \<mapsto> ''127.0.0.1:38697'' @ [CHR 0x0A],
               ''/home/dev/proj/examples/failing_test/.dlv/pid'' \<mapsto> ''4242'' @ [CHR 0x0A],
               ''/home/dev/proj/.dlv/addr'' \<mapsto> ''127.0.0.1:38697'' @ [CHR 0x0A],
               ''/home/dev/proj/.dlv/pid'' \<mapsto> ''4242'' @ [CHR 0x0A])\<rparr>\<rparr>"
proof -
  have p1: "\<not> execMode \<lparr>testMode = False, execMode = False\<rparr>" by simp
  have p2: "[''examples/failing_test''] \<noteq> []" by simp
  have p3: "hd [''examples/failing_test''] \<noteq> ''.''" by simp
  have p4: "files moduleWorld (resolve moduleWorld (FJoin [hd [''examples/failing_test''], ''go.mod'']))
          \<noteq> None"
    by (simp add: module_paths) (simp add: moduleWorld_def)
  have p5: "''/home/dev/proj/examples/failing_test'' = resolve moduleWorld (hd [''examples/failing_test''])"
    by (simp add: module_paths)
  have n: "\<And>q. \<not> denied moduleWorld q"
    by (simp add: moduleWorld_def)
  have cw: "cwd moduleWorld = ''/home/dev/proj''"
    by (simp add: moduleWorld_def)
  have e0: "getenv moduleWorld = (\<lambda>k. [])"
    by (simp add: moduleWorld_def)
  have d: "''/home/dev/proj/.dlv'' = FJoin [cwd moduleWorld, getDlvDir moduleWorld]"
    by (simp add: getDlvDir_def e0 cw) (simp add: FJoin_def Clean_def HasPrefix_def cleanPush_def)
  have a: "''/home/dev/proj/.dlv/addr''
       = resolve (moduleWorld\<lparr>cwd := ''/home/dev/proj/examples/failing_test''\<rparr>)
           (FJoin [''/home/dev/proj/.dlv'', ''addr''])"
    by (simp add: module_paths) (simp add: resolve_def Clean_def HasPrefix_def cleanPush_def)
  have p: "''/home/dev/proj/.dlv/pid''
       = resolve (moduleWorld\<lparr>cwd := ''/home/dev/proj/examples/failing_test''\<rparr>)
           (FJoin [''/home/dev/proj/.dlv'', ''pid''])"
    by (simp add: module_paths) (simp add: resolve_def Clean_def HasPrefix_def cleanPush_def)
  have dir: "Dir ''.dlv/addr'' = ''.dlv''"
    by (simp add: Dir_def Clean_def HasPrefix_def cleanPush_def)
  have tA: "''/home/dev/proj/examples/failing_test/.dlv/addr''
       = resolve (moduleWorld\<lparr>cwd := ''/home/dev/proj/examples/failing_test''\<rparr>) ''.dlv/addr''"
    by (simp add: resolve_def FJoin_def Clean_def HasPrefix_def cleanPush_def)
  have tP: "''/home/dev/proj/examples/failing_test/.dlv/pid''
       = resolve (moduleWorld\<lparr>cwd := ''/home/dev/proj/examples/failing_test''\<rparr>)
           (FJoin [Dir ''.dlv/addr'', ''pid''])"
    by (simp add: dir) (simp add: resolve_def FJoin_def Clean_def HasPrefix_def cleanPush_def)
  have cA: "''/home/dev/proj/.dlv/addr''
       = resolve (moduleWorld\<lparr>cwd := ''/home/dev/proj/examples/failing_test''\<rparr>)
           (FJoin [cwd moduleWorld, ''.dlv/addr''])"
    by (simp add: cw) (simp add: resolve_def FJoin_def Clean_def HasPrefix_def cleanPush_def)
  have cP: "''/home/dev/proj/.dlv/pid''
       = resolve (moduleWorld\<lparr>cwd := ''/home/dev/proj/examples/failing_test''\<rparr>)
           (FJoin [cwd moduleWorld, Dir ''.dlv/addr'', ''pid''])"
    by (simp add: cw dir) (simp add: resolve_def FJoin_def Clean_def HasPrefix_def cleanPush_def)
  have f: "fmt_d 4242 = ''4242''"
    by (simp add: fmt_d_def digitChar_def)
  note th = C4_launcher_handle_at_invoker [where DefaultAddrFile = "''.dlv/addr''",
      OF p1 p2 p3 p4 p5 n module_harvest d a p tA tP cA cP refl refl]
  note cli = th [THEN conjunct2, THEN conjunct1, THEN mp, OF conjI [OF n conjI [OF n n]]]
  have dirs: "\<not> denied moduleWorld q1 \<and> \<not> denied moduleWorld q2 \<and> \<not> denied moduleWorld q3
      \<and> \<not> denied moduleWorld q4 \<and> \<not> denied moduleWorld q5 \<and> \<not> denied moduleWorld q6"
    for q1 q2 q3 q4 q5 q6
    by (simp add: n)
  note lib = th [THEN conjunct2, THEN conjunct2, THEN mp, OF dirs]
  have k: "''/home/dev/proj/.dlv/addr'' \<noteq> ''/home/dev/proj/.dlv/pid''"
    by simp
  have g: "''/home/dev/proj/.dlv/addr'' = resolve moduleWorld (getAddrFilePath moduleWorld)"
    by (simp add: getAddrFilePath_def getDlvDir_def e0 module_paths)
       (simp add: resolve_def cw FJoin_def Clean_def HasPrefix_def cleanPush_def)
  have e: "getenv moduleWorld ''DLV_ADDR'' = []"
    by (simp add: e0)
  note c2 = cli [THEN conjunct2]
  note c3 = c2 [THEN conjunct2]
  note c4 = c3 [THEN conjunct2]
  note c5 = c4 [THEN conjunct2]
  note c6 = c5 [THEN conjunct2]
  note addrAt = c6 [THEN conjunct1, THEN mp, OF k]
  note inv = c6 [THEN conjunct2, THEN mp, OF conjI [OF k conjI [OF g e]]]
  show ?thesis
  proof (intro conjI)
    show "s_err (cmdStart moduleEnv moduleWorld
        (Inr (\<lparr>testMode = False, execMode = False\<rparr>, [''examples/failing_test'']))) = None"
      by (rule c2 [THEN conjunct1])
    show "s_events (cmdStart moduleEnv moduleWorld
        (Inr (\<lparr>testMode = False, execMode = False\<rparr>, [''examples/failing_test''])))
       = [Chdir ''/home/dev/proj/examples/failing_test'',
          Spawn [''/usr/local/bin/dlv'', ''--headless'', ''--accept-multiclient'',
                 ''--api-version=2'', ''debug'', ''--output'', ''/tmp/dlv-1772010316000000000'', ''.'']
                ''/home/dev/proj/examples/failing_test'']"
      by (rule c3 [THEN conjunct1])
    show "cwd (s_world (cmdStart moduleEnv moduleWorld
        (Inr (\<lparr>testMode = False, execMode = False\<rparr>, [''examples/failing_test'']))))
       = ''/home/dev/proj/examples/failing_test''"
      by (rule c4 [THEN conjunct1])
    show "files (s_world (cmdStart moduleEnv moduleWorld
        (Inr (\<lparr>testMode = False, execMode = False\<rparr>, [''examples/failing_test'']))))
         ''/home/dev/proj/.dlv/pid'' = Some (''4242'' @ [CHR 0x0A])"
      using c5 [THEN conjunct1] by (simp add: f)
    show "files (s_world (cmdStart moduleEnv moduleWorld
        (Inr (\<lparr>testMode = False, execMode = False\<rparr>, [''examples/failing_test'']))))
         ''/home/dev/proj/.dlv/addr'' = Some (''127.0.0.1:38697'' @ [CHR 0x0A])"
      by (rule addrAt)
    show "getAddr ((s_world (cmdStart moduleEnv moduleWorld
        (Inr (\<lparr>testMode = False, execMode = False\<rparr>, [''examples/failing_test'']))))
          \<lparr>cwd := ''/home/dev/proj''\<rparr>) = Inr ''127.0.0.1:38697''"
      using inv unfolding cw module_trim .
    show "Start ''.dlv/addr'' moduleEnv moduleWorld
        (Inr (\<lparr>testMode = False, execMode = False\<rparr>, [''examples/failing_test'']))
       = \<lparr>s_out = ''headless dlv started, address written to .dlv/addr''
                  @ [CHR 0x0A] @ ''127.0.0.1:38697'' @ [CHR 0x0A],
          s_err = None,
          s_events = [Chdir ''/home/dev/proj/examples/failing_test'',
            Spawn [''/usr/local/bin/dlv'', ''--headless'', ''--accept-multiclient'',
                   ''--api-version=2'', ''debug'', ''--output'', ''/tmp/dlv-1772010316000000000'', ''.'']
                  ''/home/dev/proj/examples/failing_test''],
          s_world = moduleWorld\<lparr>cwd := ''/home/dev/proj/examples/failing_test'',
            files := (files moduleWorld)
              (''/home/dev/proj/examples/failing_test/.dlv/addr'' \<mapsto> ''127.0.0.1:38697'' @ [CHR 0x0A],
               ''/home/dev/proj/examples/failing_test/.dlv/pid'' \<mapsto> ''4242'' @ [CHR 0x0A],
               ''/home/dev/proj/.dlv/addr'' \<mapsto> ''127.0.0.1:38697'' @ [CHR 0x0A],
               ''/home/dev/proj/.dlv/pid'' \<mapsto> ''4242'' @ [CHR 0x0A])\<rparr>\<rparr>"
      using lib by (simp add: f)
  qed
qed

end
